(* ===== verification/Prelude.thy ===== *)
theory Prelude
  imports Main "HOL-Library.Sublist"
begin

text \<open>
  Shared vocabulary of the development: how the JavaScript values of the front end
  (src/unnamed/part_000) are read in HOL, and the generic list and option lemmas the
  component theories share.
  \<^item> A JS string is a \<open>string\<close>; a missing string field is the empty string, since the code
    only ever tests such fields for truthiness (\<open>""\<close> and \<open>undefined\<close> are both falsy).
  \<^item> \<open>a || b\<close> on strings is \<open>js_or\<close>; on optional objects and arrays it is
    \<open>opt_or\<close>: an empty array or object is truthy in JS, only a missing one falls back.
  \<^item> \<open>s.slice(i, j)\<close> is \<open>take (j - i) (drop i s)\<close>, which clips at the end of the string as
    JS does.
  \<^item> \<open>Array.prototype.some\<close>, \<open>find\<close>, \<open>filter\<close>, \<open>map\<close> and \<open>forEach\<close> over an
    accumulator are \<open>list_ex\<close>, \<open>find\<close>, \<open>filter\<close>, \<open>map\<close> and \<open>foldl\<close>.
\<close>

named_theorems js_simps "evaluation rules of the JS helper functions"

definition js_or :: "string \<Rightarrow> string \<Rightarrow> string" where
  "js_or a b = (if a = [] then b else a)"

definition opt_or :: "'a option \<Rightarrow> 'a \<Rightarrow> 'a" where
  "opt_or a b = (case a of None \<Rightarrow> b | Some x \<Rightarrow> x)"

definition js_slice :: "string \<Rightarrow> nat \<Rightarrow> nat \<Rightarrow> string" where
  "js_slice s i j = take (j - i) (drop i s)"

text \<open>A JS number shown in a template literal: the decimal digits of a \<open>nat\<close>.\<close>

fun nat_str :: "nat \<Rightarrow> string" where
  "nat_str n = (if n < 10 then [char_of (48 + n)] else nat_str (n div 10) @ [char_of (48 + n mod 10)])"

declare nat_str.simps [simp del]

text \<open>\<open>String.prototype.trim\<close>, for the ASCII white space a text field can hold.\<close>

definition js_ws :: "char \<Rightarrow> bool" where
  "js_ws c \<longleftrightarrow> c \<in> {CHR '' '', CHR 0x09, CHR 0x0A, CHR 0x0B, CHR 0x0C, CHR 0x0D}"

definition js_trim :: "string \<Rightarrow> string" where
  "js_trim s = rev (dropWhile js_ws (rev (dropWhile js_ws s)))"

text \<open>\<open>s.includes(t)\<close>: \<open>t\<close> occurs in \<open>s\<close> as a contiguous block.\<close>

definition js_includes :: "string \<Rightarrow> string \<Rightarrow> bool" where
  "js_includes s t \<longleftrightarrow> list_ex (prefix t) (suffixes s)"

declare js_or_def [js_simps] opt_or_def [js_simps] js_slice_def [js_simps]

lemma js_or_simps [simp]:
  "js_or [] b = b"
  "a \<noteq> [] \<Longrightarrow> js_or a b = a"
  by (simp_all add: js_or_def)

lemma opt_or_simps [simp]:
  "opt_or None b = b"
  "opt_or (Some x) b = x"
  by (simp_all add: opt_or_def)

lemma length_js_slice [simp]: "length (js_slice s i j) = min (j - i) (length s - i)"
  by (simp add: js_slice_def)

lemma js_includes_hd: "js_includes s (c # t) \<Longrightarrow> c \<in> set s"
proof -
  assume "js_includes s (c # t)"
  then obtain x where "suffix x s" and "prefix (c # t) x"
    by (auto simp: js_includes_def list_ex_iff)
  then have "set (c # t) \<subseteq> set s" by (meson set_mono_prefix set_mono_suffix order_trans)
  then show "c \<in> set s" by simp
qed

subsection \<open>Folds\<close>

text \<open>
  A \<open>forEach\<close> loop over an accumulator is a \<open>foldl\<close>. The two rules below are the
  loop invariant rule and the frame rule (a loop whose every step leaves the accumulator
  fixed leaves it fixed); the component proofs use them instead of a fresh induction.
\<close>

lemma foldl_invariant:
  assumes "P s" and "\<And>s x. x \<in> set xs \<Longrightarrow> P s \<Longrightarrow> P (f s x)"
  shows "P (foldl f s xs)"
  using assms by (induction xs arbitrary: s) auto

lemma foldl_fixpoint:
  assumes "\<And>x. x \<in> set xs \<Longrightarrow> f s x = s"
  shows "foldl f s xs = s"
  using assms by (induction xs) auto

subsection \<open>Lists\<close>

lemma list_ex_mono_prefix: "list_ex P xs \<Longrightarrow> prefix xs ys \<Longrightarrow> list_ex P ys"
  by (auto simp: list_ex_iff prefix_def)

lemma map_filter_append:
  "List.map_filter f (xs @ ys) = List.map_filter f xs @ List.map_filter f ys"
  by (induction xs) (auto split: option.splits)

lemma find_conv_filter: "find P xs = (case filter P xs of [] \<Rightarrow> None | x # _ \<Rightarrow> Some x)"
  by (induction xs) auto

lemma find_Some_in_set: "find P xs = Some x \<Longrightarrow> x \<in> set xs \<and> P x"
  by (auto simp: find_Some_iff)

subsection \<open>Day-indexed blocks\<close>

text \<open>A list built day by day, \<open>concat (map g ds)\<close>, where every entry of \<open>g d\<close> is labelled
  with its day \<open>d\<close>: the itineraries of the engine are such lists.\<close>

lemma map_const_labels: "\<forall>e\<in>set xs. k e = a \<Longrightarrow> map k xs = replicate (length xs) a"
  by (induction xs) auto

lemma set_day_labels:
  "\<forall>d\<in>set ds. \<forall>e\<in>set (g d). k e = d \<Longrightarrow> \<forall>d\<in>set ds. g d \<noteq> [] \<Longrightarrow>
   set (map k (concat (map g ds))) = set ds"
proof (induction ds)
  case (Cons a ds)
  then have "map k (g a) = replicate (length (g a)) a" "g a \<noteq> []" by (simp_all add: map_const_labels)
  with Cons show ?case by (simp del: set_map add: set_map [symmetric])
qed simp

lemma sorted_day_labels:
  "\<forall>d\<in>set ds. \<forall>e\<in>set (g d). k e = d \<Longrightarrow> sorted ds \<Longrightarrow> sorted (map k (concat (map g ds)))"
proof (induction ds)
  case (Cons a ds)
  then have "map k (g a) = replicate (length (g a)) a" by (simp add: map_const_labels)
  with Cons show ?case by (simp add: sorted_append)
qed simp

lemma concat_map_if_single:
  "concat (map (\<lambda>d. if P d then [h d] else []) ds) = map h (filter P ds)"
  by (induction ds) auto

lemma concat_map_single: "\<forall>d\<in>set ds. g d = [h d] \<Longrightarrow> concat (map g ds) = map h ds"
  by (induction ds) auto

lemma upt_append: "i \<le> j \<Longrightarrow> j \<le> k \<Longrightarrow> [i..<j] @ [j..<k] = [i..<k]"
  using upt_add_eq_append [of i j "k - j"] by simp

lemma filter_interval_upt:
  "1 \<le> a \<Longrightarrow> filter (\<lambda>d. a \<le> d \<and> d \<le> z) [1..<Suc n] = [a..<Suc (min z n)]"
  by (induction n) (auto simp: min_def)

end
