(* ===== verification/Schedule_Item.thy ===== *)
theory Schedule_Item
  imports Prelude
begin

text \<open>
  The itinerary item the schedule engine returns and every front-end component reads
  (the \<open>itinerary\<close> array of \<open>POST /api/schedule/with-user\<close>, src/unnamed/part_001
  lines 158-173), and the two schedule-type labels the front end compares against.
  The labels are Korean strings; HOL strings are byte lists, so they are written as
  their UTF-8 bytes: \<open>FARM_LABEL\<close> is "\<open>nongga\<close>" (farm) and \<open>TOUR_LABEL\<close> is
  "\<open>gwangwangji\<close>" (tourist attraction).
\<close>

record schedule_item =
  day :: nat
  date :: string
  schedule_type :: string
  name :: string
  start_time :: string
  address :: string

definition FARM_LABEL :: string where
  "FARM_LABEL = [CHR 0xEB, CHR 0x86, CHR 0x8D, CHR 0xEA, CHR 0xB0, CHR 0x80]"

definition TOUR_LABEL :: string where
  "TOUR_LABEL = [CHR 0xEA, CHR 0xB4, CHR 0x80, CHR 0xEA, CHR 0xB4, CHR 0x91,
                 CHR 0xEC, CHR 0xA7, CHR 0x80]"

definition is_farm :: "schedule_item \<Rightarrow> bool" where
  "is_farm it \<longleftrightarrow> schedule_type it = FARM_LABEL"

lemma labels_differ [simp]: "FARM_LABEL \<noteq> TOUR_LABEL" "TOUR_LABEL \<noteq> FARM_LABEL"
  by (simp_all add: FARM_LABEL_def TOUR_LABEL_def)

lemma labels_nonempty [simp]: "FARM_LABEL \<noteq> []" "TOUR_LABEL \<noteq> []"
  by (simp_all add: FARM_LABEL_def TOUR_LABEL_def)

end
