(* ===== verification/Calendar.thy ===== *)
theory Calendar
  imports Schedule_Item
begin

text \<open>
  The home-screen calendar of the front end (src/unnamed/part_000). \<open>STATE.calendar\<close>
  is a two-level JS object: year-month key \<open>"YYYY-MM"\<close> to an object from a day key
  to an array of entries. It is written by two loops,
  \<^item> \<open>updateHomeCalendar\<close> (lines 1112-1145), which turns the items of the last
    schedule into calendar events and skips an item whose (activity, type) is already in
    its bucket, and
  \<^item> \<open>upsertCalendarEvents\<close> (lines 325-335), which appends timeline entries of a
    restored history record without any check,
  and read by the month grid \<open>calendarBlocksHTML\<close> (lines 296-324) and the cell click
  handler (lines 619-631). The month shown is kept in local storage and moved by the
  two arrow handlers of \<open>renderHome\<close> (lines 566-618).
  The calendar is a nested partial map, as the JS object is; a missing key is \<open>None\<close>.
\<close>

subsection \<open>Data\<close>

record tl_item =
  datetime :: string
  title :: string
  location :: string
  desc :: string
  icon :: string

record cal_event =
  activity :: string
  ev_date :: string
  ev_type :: string
  ev_day :: nat

datatype cal_entry = Event cal_event | Timeline tl_item

type_synonym day_map = "string \<Rightarrow> cal_entry list option"
type_synonym calendar = "string \<Rightarrow> day_map option"

text \<open>\<open>STATE.calendar[yymm] || {}\<close> and \<open>cal[key] || []\<close>.\<close>

definition month_bucket :: "calendar \<Rightarrow> string \<Rightarrow> day_map" where
  "month_bucket c ym = opt_or (c ym) Map.empty"

definition day_bucket :: "day_map \<Rightarrow> string \<Rightarrow> cal_entry list" where
  "day_bucket m d = opt_or (m d) []"

subsection \<open>updateHomeCalendar\<close>

text \<open>
  The duplicate test of line 1128 compares \<open>event.activity\<close> and \<open>event.type\<close>; a
  timeline entry has neither field, and \<open>undefined === item.name\<close> is false for the
  non-empty name the loop requires, so a timeline entry never matches.
\<close>

fun same_event :: "schedule_item \<Rightarrow> cal_entry \<Rightarrow> bool" where
  "same_event it (Event ev) \<longleftrightarrow> activity ev = name it \<and> ev_type ev = schedule_type it"
| "same_event it (Timeline t) \<longleftrightarrow> False"

definition event_of_item :: "schedule_item \<Rightarrow> cal_event" where
  "event_of_item it =
     \<lparr>activity = name it,
      ev_date = date it @ (if start_time it = [] then [] else CHR '' '' # start_time it),
      ev_type = schedule_type it,
      ev_day = day it\<rparr>"

definition add_item_event :: "calendar \<Rightarrow> schedule_item \<Rightarrow> calendar" where
  "add_item_event c it =
     (if date it \<noteq> [] \<and> name it \<noteq> [] then
        (let ym = js_slice (date it) 0 7;
             d = js_slice (date it) 8 10;
             m = month_bucket c ym;
             b = day_bucket m d
         in c(ym \<mapsto> m(d \<mapsto> (if list_ex (same_event it) b then b
                              else b @ [Event (event_of_item it)]))))
      else c)"

text \<open>\<open>if (!STATE.last_schedule?.itinerary) return;\<close>: a missing itinerary leaves the
  calendar alone; an empty array is truthy and runs the (empty) loop.\<close>

definition update_home_calendar :: "calendar \<Rightarrow> schedule_item list option \<Rightarrow> calendar" where
  "update_home_calendar c its = (case its of None \<Rightarrow> c | Some xs \<Rightarrow> foldl add_item_event c xs)"

subsection \<open>upsertCalendarEvents\<close>

definition upsert_entry :: "calendar \<Rightarrow> tl_item \<Rightarrow> calendar" where
  "upsert_entry c t =
     (let key = js_slice (datetime t) 0 10
      in if key = [] then c
         else (let ym = js_slice key 0 7;
                   m = month_bucket c ym
               in c(ym \<mapsto> m(key \<mapsto> day_bucket m key @ [Timeline t]))))"

definition upsert_calendar_events :: "calendar \<Rightarrow> tl_item list \<Rightarrow> calendar" where
  "upsert_calendar_events c ts = foldl upsert_entry c ts"

subsection \<open>Readers: the month grid and the cell handler\<close>

text \<open>\<open>const cal = STATE.calendar[yymm] || {}\<close>, then \<open>!!cal[d.key]\<close> per grid cell;
  an empty array is truthy, so a cell is marked as soon as its key is present.\<close>

definition cal_has :: "calendar \<Rightarrow> string \<Rightarrow> string \<Rightarrow> bool" where
  "cal_has c yymm key \<longleftrightarrow> month_bucket c yymm key \<noteq> None"

definition cell_items :: "calendar \<Rightarrow> string \<Rightarrow> cal_entry list" where
  "cell_items c dt = day_bucket (month_bucket c (js_slice dt 0 7)) dt"

subsection \<open>Month navigation\<close>

text \<open>Months are JS month numbers \<open>0..11\<close>; the handlers compute with JS numbers, read
  here as \<open>int\<close>.\<close>

fun prev_month :: "int \<times> int \<Rightarrow> int \<times> int" where
  "prev_month (y, m) = (let mm = m - 1 in if mm < 0 then (y - 1, 11) else (y, mm))"

fun next_month :: "int \<times> int \<Rightarrow> int \<times> int" where
  "next_month (y, m) = (let mm = m + 1 in if mm > 11 then (y + 1, 0) else (y, mm))"

text \<open>\<open>Number(localStorage.getItem(k)) || fallback\<close>: a key never written reads as
  \<open>Number(null) = 0\<close>, and \<open>0\<close> is falsy.\<close>

definition js_num_or :: "int option \<Rightarrow> int \<Rightarrow> int" where
  "js_num_or v d = (let n = opt_or v 0 in if n = 0 then d else n)"

record home_store =
  ims_year :: "int option"
  ims_month :: "int option"

definition shown_month :: "home_store \<Rightarrow> int \<times> int \<Rightarrow> int \<times> int" where
  "shown_month st now = (js_num_or (ims_year st) (fst now), js_num_or (ims_month st) (snd now))"

datatype nav = Prev | Next

fun home_nav :: "home_store \<Rightarrow> int \<times> int \<Rightarrow> nav \<Rightarrow> home_store" where
  "home_nav st now Prev =
     (let (yy, mm) = prev_month (shown_month st now) in \<lparr>ims_year = Some yy, ims_month = Some mm\<rparr>)"
| "home_nav st now Next =
     (let (yy, mm) = next_month (shown_month st now) in \<lparr>ims_year = Some yy, ims_month = Some mm\<rparr>)"

text \<open>The abstract view of a (year, month) pair: the number of months since year 0.\<close>

fun month_index :: "int \<times> int \<Rightarrow> int" where
  "month_index (y, m) = 12 * y + m"

fun valid_month :: "int \<times> int \<Rightarrow> bool" where
  "valid_month (y, m) \<longleftrightarrow> 0 \<le> m \<and> m \<le> 11"

subsection \<open>Observations used by the proofs\<close>

text \<open>\<open>cal_grows c c'\<close>: every bucket of \<open>c\<close> is a prefix of the same bucket of \<open>c'\<close>;
  both loops only ever append.\<close>

definition cal_grows :: "calendar \<Rightarrow> calendar \<Rightarrow> bool" where
  "cal_grows c c' \<longleftrightarrow>
     (\<forall>ym d. prefix (day_bucket (month_bucket c ym) d) (day_bucket (month_bucket c' ym) d))"

text \<open>An itinerary item is present when its bucket holds an entry the duplicate test of
  line 1128 matches.\<close>

definition item_present :: "calendar \<Rightarrow> schedule_item \<Rightarrow> bool" where
  "item_present c it \<longleftrightarrow>
     list_ex (same_event it)
       (day_bucket (month_bucket c (js_slice (date it) 0 7)) (js_slice (date it) 8 10))"

fun entry_key :: "cal_entry \<Rightarrow> (string \<times> string) option" where
  "entry_key (Event ev) = Some (activity ev, ev_type ev)"
| "entry_key (Timeline t) = None"

definition no_dup_events :: "calendar \<Rightarrow> bool" where
  "no_dup_events c \<longleftrightarrow>
     (\<forall>ym d. distinct (List.map_filter entry_key (day_bucket (month_bucket c ym) d)))"

text \<open>Every day key stored is at most two characters long: what
  \<open>dateStr.slice(8, 10)\<close> produces.\<close>

definition short_day_keys :: "calendar \<Rightarrow> bool" where
  "short_day_keys c \<longleftrightarrow> (\<forall>ym m k. c ym = Some m \<longrightarrow> m k \<noteq> None \<longrightarrow> length k \<le> 2)"

subsection \<open>Bucket lemmas\<close>

lemma bucket_upd [simp]:
  "day_bucket (month_bucket (c(ym \<mapsto> (month_bucket c ym)(d \<mapsto> b))) ym') d' =
     (if ym' = ym \<and> d' = d then b else day_bucket (month_bucket c ym') d')"
  by (simp add: month_bucket_def day_bucket_def)

lemma cal_grows_refl [simp]: "cal_grows c c"
  by (simp add: cal_grows_def)

lemma cal_grows_trans: "cal_grows a b \<Longrightarrow> cal_grows b c \<Longrightarrow> cal_grows a c"
  unfolding cal_grows_def by (meson prefix_order.trans)

lemma add_item_event_grows: "cal_grows c (add_item_event c it)"
  by (auto simp: cal_grows_def add_item_event_def Let_def)

lemma foldl_add_item_event_grows: "cal_grows c (foldl add_item_event c xs)"
  by (rule foldl_invariant [where P = "cal_grows c"])
     (auto intro: cal_grows_trans add_item_event_grows)

lemma item_present_mono: "item_present c it \<Longrightarrow> cal_grows c c' \<Longrightarrow> item_present c' it"
  unfolding item_present_def cal_grows_def by (blast intro: list_ex_mono_prefix)

lemma add_item_event_present:
  "date it \<noteq> [] \<Longrightarrow> name it \<noteq> [] \<Longrightarrow> item_present (add_item_event c it) it"
  by (simp add: add_item_event_def item_present_def Let_def event_of_item_def)

lemma present_buckets:
  assumes "item_present c it"
  obtains m where "c (js_slice (date it) 0 7) = Some m"
    and "m (js_slice (date it) 8 10) = Some (day_bucket m (js_slice (date it) 8 10))"
    and "month_bucket c (js_slice (date it) 0 7) = m"
  using assms
  by (auto simp: item_present_def month_bucket_def day_bucket_def opt_or_def split: option.splits)

text \<open>The duplicate test makes a present item a no-op: the two \<open>||\<close> assignments
  rewrite the buckets with themselves.\<close>

lemma add_item_event_present_id: "item_present c it \<Longrightarrow> add_item_event c it = c"
proof -
  assume p: "item_present c it"
  then obtain m where c: "c (js_slice (date it) 0 7) = Some m"
    and m: "m (js_slice (date it) 8 10) = Some (day_bucket m (js_slice (date it) 8 10))"
    and mb: "month_bucket c (js_slice (date it) 0 7) = m"
    by (rule present_buckets)
  from p mb have ex: "list_ex (same_event it) (day_bucket m (js_slice (date it) 8 10))"
    by (simp add: item_present_def)
  show ?thesis
    using c m mb ex by (simp add: add_item_event_def Let_def fun_upd_idem)
qed

lemma add_item_event_invalid: "date it = [] \<or> name it = [] \<Longrightarrow> add_item_event c it = c"
  by (auto simp: add_item_event_def)

lemma foldl_add_item_event_present:
  "x \<in> set xs \<Longrightarrow> date x \<noteq> [] \<Longrightarrow> name x \<noteq> [] \<Longrightarrow>
   item_present (foldl add_item_event c xs) x"
proof (induction xs arbitrary: c)
  case Nil
  then show ?case by simp
next
  case (Cons y ys)
  show ?case
  proof (cases "x = y")
    case True
    with Cons.prems have "item_present (add_item_event c y) x"
      by (simp add: add_item_event_present)
    then show ?thesis
      using foldl_add_item_event_grows by (simp add: item_present_mono)
  next
    case False
    with Cons show ?thesis by simp
  qed
qed

lemma list_ex_same_event_keys:
  "list_ex (same_event it) b \<longleftrightarrow> (name it, schedule_type it) \<in> set (List.map_filter entry_key b)"
proof (induction b)
  case Nil
  then show ?case by simp
next
  case (Cons e b)
  then show ?case by (cases e) auto
qed

lemma add_item_event_no_dup: "no_dup_events c \<Longrightarrow> no_dup_events (add_item_event c it)"
  unfolding no_dup_events_def add_item_event_def Let_def
  by (auto simp: map_filter_append list_ex_same_event_keys event_of_item_def)

lemma add_item_event_short: "short_day_keys c \<Longrightarrow> short_day_keys (add_item_event c it)"
  unfolding short_day_keys_def add_item_event_def Let_def month_bucket_def opt_or_def
  by (auto split: option.splits if_splits)

lemma upsert_appends:
  assumes "js_slice (datetime t) 0 10 = key" and "key \<noteq> []"
  shows "day_bucket (month_bucket (upsert_calendar_events c [t]) (js_slice key 0 7)) key =
         day_bucket (month_bucket c (js_slice key 0 7)) key @ [Timeline t]"
  using assms by (simp add: upsert_calendar_events_def upsert_entry_def Let_def)

lemma shown_after_store:
  "shown_month \<lparr>ims_year = Some y, ims_month = Some m\<rparr> now =
     (if y = 0 then fst now else y, if m = 0 then snd now else m)"
  by (simp add: shown_month_def js_num_or_def)

lemma empty_calendar_props [simp]:
  "no_dup_events Map.empty" "short_day_keys Map.empty"
  by (simp_all add: no_dup_events_def short_day_keys_def month_bucket_def day_bucket_def)

subsection \<open>Properties of updateHomeCalendar\<close>

text \<open>C1: confirming a schedule twice adds nothing the first confirmation did not add:
  \<open>updateHomeCalendar\<close> is idempotent on the calendar, for every starting calendar and
  every itinerary.\<close>

theorem update_home_calendar_idempotent:
  "update_home_calendar (update_home_calendar c its) its = update_home_calendar c its"
proof (cases its)
  case None
  then show ?thesis by (simp add: update_home_calendar_def)
next
  case (Some xs)
  let ?c1 = "foldl add_item_event c xs"
  have "add_item_event ?c1 x = ?c1" if "x \<in> set xs" for x
  proof (cases "date x = [] \<or> name x = []")
    case True
    then show ?thesis by (rule add_item_event_invalid)
  next
    case False
    with that have "item_present ?c1 x" by (simp add: foldl_add_item_event_present)
    then show ?thesis by (rule add_item_event_present_id)
  qed
  then have "foldl add_item_event ?c1 xs = ?c1" by (rule foldl_fixpoint)
  with Some show ?thesis by (simp add: update_home_calendar_def)
qed

text \<open>C2: no day bucket ever holds two events with the same (activity, type): the
  property is kept by \<open>updateHomeCalendar\<close> from any calendar that has it.\<close>

theorem update_home_calendar_no_dup:
  assumes "no_dup_events c"
  shows "no_dup_events (update_home_calendar c its)"
proof -
  have "no_dup_events (foldl add_item_event c xs)" for xs
    using assms by (rule foldl_invariant [where P = no_dup_events]) (rule add_item_event_no_dup)
  with assms show ?thesis by (simp add: update_home_calendar_def split: option.split)
qed

theorem update_home_calendar_no_dup_witness:
  "no_dup_events (update_home_calendar Map.empty
     (Some [\<lparr>day = 1, date = ''2025-10-01'', schedule_type = TOUR_LABEL, name = ''Byeokgolje'',
             start_time = ''15:00'', address = ''Gimje''\<rparr>,
            \<lparr>day = 1, date = ''2025-10-01'', schedule_type = TOUR_LABEL, name = ''Byeokgolje'',
             start_time = ''17:00'', address = ''Gimje''\<rparr>]))"
  using update_home_calendar_no_dup [of "Map.empty"] by simp

text \<open>C3: after \<open>updateHomeCalendar\<close>, every itinerary item with a date and a name has a
  matching event (its name as activity, its schedule type as type) in the bucket of its
  year-month and day.\<close>

theorem update_home_calendar_complete:
  assumes "x \<in> set xs" and "date x \<noteq> []" and "name x \<noteq> []"
  shows "item_present (update_home_calendar c (Some xs)) x"
  using assms by (simp add: update_home_calendar_def foldl_add_item_event_present)

theorem update_home_calendar_complete_witness:
  "item_present (update_home_calendar Map.empty
     (Some [\<lparr>day = 2, date = ''2025-10-02'', schedule_type = FARM_LABEL, name = ''Gimje orchard'',
             start_time = ''08:00'', address = ''Gimje''\<rparr>]))
     \<lparr>day = 2, date = ''2025-10-02'', schedule_type = FARM_LABEL, name = ''Gimje orchard'',
      start_time = ''08:00'', address = ''Gimje''\<rparr>"
  by (rule update_home_calendar_complete) simp_all

text \<open>C4 (defect): the home calendar never marks a day for a confirmed schedule.
  \<open>updateHomeCalendar\<close> files events under the two-character day \<open>"DD"\<close>, while the
  month grid looks cells up under the ten-character ISO key \<open>"YYYY-MM-DD"\<close>; from a
  calendar whose day keys are all short (the empty one, for instance), no grid key of
  length 10 is ever found.\<close>

theorem confirmed_events_not_shown:
  assumes "short_day_keys c" and "length key = 10"
  shows "\<not> cal_has (update_home_calendar c its) yymm key"
proof -
  have "short_day_keys (foldl add_item_event c xs)" for xs
    using assms(1) by (rule foldl_invariant [where P = short_day_keys]) (rule add_item_event_short)
  then have "short_day_keys (update_home_calendar c its)"
    using assms(1) by (simp add: update_home_calendar_def split: option.split)
  with assms(2) show ?thesis
    unfolding short_day_keys_def cal_has_def month_bucket_def opt_or_def
    by (fastforce split: option.splits)
qed

theorem confirmed_events_not_shown_witness:
  "\<not> cal_has (update_home_calendar Map.empty
       (Some [\<lparr>day = 1, date = ''2025-10-01'', schedule_type = TOUR_LABEL, name = ''Byeokgolje'',
               start_time = ''15:00'', address = ''Gimje''\<rparr>])) ''2025-10'' ''2025-10-01''"
  using confirmed_events_not_shown [of "Map.empty" "''2025-10-01''"] by simp

subsection \<open>Properties of upsertCalendarEvents\<close>

text \<open>C5 (defect): restoring a history record twice duplicates its calendar entries:
  \<open>upsertCalendarEvents\<close> appends without a duplicate test, so it is not idempotent
  for any timeline entry with a date.\<close>

theorem upsert_not_idempotent:
  assumes "datetime t \<noteq> []"
  shows "upsert_calendar_events (upsert_calendar_events c [t]) [t] \<noteq> upsert_calendar_events c [t]"
proof
  let ?key = "js_slice (datetime t) 0 10"
  let ?b = "\<lambda>c. day_bucket (month_bucket c (js_slice ?key 0 7)) ?key"
  assume eq: "upsert_calendar_events (upsert_calendar_events c [t]) [t] = upsert_calendar_events c [t]"
  from assms have key: "?key \<noteq> []" by (simp add: js_slice_def)
  have "?b (upsert_calendar_events (upsert_calendar_events c [t]) [t]) =
        ?b (upsert_calendar_events c [t]) @ [Timeline t]"
    using key by (rule upsert_appends [OF refl])
  then have "length (?b (upsert_calendar_events c [t])) + 1 = length (?b (upsert_calendar_events c [t]))"
    by (simp add: eq)
  then show False by simp
qed

theorem upsert_not_idempotent_witness:
  "upsert_calendar_events (upsert_calendar_events Map.empty
      [\<lparr>datetime = ''2025-10-03T08:00:00'', title = ''apple harvest'', location = ''Gimje'',
        desc = ''farm helper'', icon = ''*''\<rparr>])
      [\<lparr>datetime = ''2025-10-03T08:00:00'', title = ''apple harvest'', location = ''Gimje'',
        desc = ''farm helper'', icon = ''*''\<rparr>]
   \<noteq> upsert_calendar_events Map.empty
      [\<lparr>datetime = ''2025-10-03T08:00:00'', title = ''apple harvest'', location = ''Gimje'',
        desc = ''farm helper'', icon = ''*''\<rparr>]"
  by (rule upsert_not_idempotent) simp

subsection \<open>Properties of month navigation\<close>

text \<open>C6: the arrow handlers implement the successor and predecessor month: on a valid
  (year, month) pair, \<open>next_month\<close> stays valid and adds one to the month count, and
  \<open>prev_month\<close> undoes it.\<close>

theorem next_month_refines:
  assumes "valid_month p"
  shows "valid_month (next_month p) \<and> month_index (next_month p) = month_index p + 1 \<and>
         prev_month (next_month p) = p"
  using assms by (cases p) (auto simp: Let_def)

theorem next_month_refines_witness:
  "valid_month (2025, 11) \<and> valid_month (next_month (2025, 11)) \<and>
   month_index (next_month (2025, 11)) = month_index (2025, 11) + 1 \<and>
   prev_month (next_month (2025, 11)) = (2025, 11)"
  using next_month_refines [of "(2025, 11)"] by simp

text \<open>C7 (defect): moving forward from December does not show January. The handler
  stores month \<open>0\<close>, and \<open>Number(...) || now.getMonth()\<close> reads \<open>0\<close> as missing, so the
  re-rendered calendar shows the current month of the next year.\<close>

theorem home_nav_january_lost:
  assumes "shown_month st now = (y, 11)" and "y + 1 \<noteq> 0"
  shows "shown_month (home_nav st now Next) now' = (y + 1, snd now')"
  using assms by (simp add: shown_after_store)

theorem home_nav_january_lost_witness:
  "shown_month (home_nav \<lparr>ims_year = Some 2025, ims_month = Some 11\<rparr> (2025, 5) Next) (2025, 5)
     = (2026, 5)"
  using home_nav_january_lost [of "\<lparr>ims_year = Some 2025, ims_month = Some 11\<rparr>" "(2025, 5)" 2025]
  by (simp add: shown_month_def js_num_or_def)

end
