(* ===== verification/Grouping.thy ===== *)
theory Grouping
  imports Schedule_Item
begin

text \<open>
  The grouped itinerary view of the front end (src/unnamed/part_000). Both
  \<open>renderScheduleTable\<close> (lines 925-1034) and \<open>renderMiniTime\<close> (lines 459-565) walk the
  \<open>itinerary\<close> array once with a \<open>currentGroup\<close> variable: consecutive farm items
  (\<open>schedule_type === "nongga"\<close>) join one farm group whose \<open>endDay\<close> follows them; every
  other item joins the current tour group when that group has the item's day, and starts a
  new tour group otherwise; the last group is pushed after the loop. A farm group is shown
  with its items de-duplicated by the key \<open>name-address\<close> (a JS \<open>Set\<close> of seen keys).
  The walk is a \<open>foldl\<close> over the pair (pushed groups, current group).
\<close>

subsection \<open>Definitions\<close>

record sched_group =
  g_type :: string
  start_day :: nat
  end_day :: nat
  g_items :: "schedule_item list"

type_synonym group_acc = "sched_group list \<times> sched_group option"

definition new_group :: "string \<Rightarrow> schedule_item \<Rightarrow> sched_group" where
  "new_group t it = \<lparr>g_type = t, start_day = day it, end_day = day it, g_items = [it]\<rparr>"

fun group_step :: "group_acc \<Rightarrow> schedule_item \<Rightarrow> group_acc" where
  "group_step (gs, cur) it =
     (if schedule_type it = FARM_LABEL then
        (case cur of
           Some g \<Rightarrow>
             if g_type g = FARM_LABEL
             then (gs, Some (g\<lparr>end_day := day it, g_items := g_items g @ [it]\<rparr>))
             else (gs @ [g], Some (new_group FARM_LABEL it))
         | None \<Rightarrow> (gs, Some (new_group FARM_LABEL it)))
      else
        (case cur of
           Some g \<Rightarrow>
             if g_type g = TOUR_LABEL \<and> start_day g = day it
             then (gs, Some (g\<lparr>g_items := g_items g @ [it]\<rparr>))
             else (gs @ [g], Some (new_group TOUR_LABEL it))
         | None \<Rightarrow> (gs, Some (new_group TOUR_LABEL it))))"

definition flush :: "group_acc \<Rightarrow> sched_group list" where
  "flush acc = fst acc @ (case snd acc of None \<Rightarrow> [] | Some g \<Rightarrow> [g])"

definition group_schedule :: "schedule_item list \<Rightarrow> sched_group list" where
  "group_schedule its = flush (foldl group_step ([], None) its)"

definition item_key :: "schedule_item \<Rightarrow> string" where
  "item_key it = name it @ ''-'' @ address it"

fun unique_by_key :: "string set \<Rightarrow> schedule_item list \<Rightarrow> schedule_item list" where
  "unique_by_key seen [] = []"
| "unique_by_key seen (x # xs) =
     (if item_key x \<in> seen then unique_by_key seen xs
      else x # unique_by_key (insert (item_key x) seen) xs)"

definition group_display_items :: "sched_group \<Rightarrow> schedule_item list" where
  "group_display_items g =
     (if g_type g = FARM_LABEL then unique_by_key {} (g_items g) else g_items g)"

text \<open>One rendered row: the day range, the first item's date and type, the places.\<close>

record group_row =
  day_label :: string
  row_date :: string
  row_type :: string
  places :: "schedule_item list"

definition day_range :: "sched_group \<Rightarrow> string" where
  "day_range g =
     (if start_day g = end_day g then ''Day '' @ nat_str (start_day g)
      else ''Day '' @ nat_str (start_day g) @ '' ~ '' @ nat_str (end_day g))"

definition group_row_of :: "sched_group \<Rightarrow> group_row" where
  "group_row_of g =
     \<lparr>day_label = day_range g, row_date = date (hd (g_items g)),
      row_type = schedule_type (hd (g_items g)), places = group_display_items g\<rparr>"

text \<open>\<open>const itinerary = sched?.itinerary || []; if (!itinerary.length) ...\<close>: no rows
  (\<open>None\<close>, the "no schedule" message) for a missing or empty itinerary.
  \<open>renderMiniTime\<close> repeats the same code over \<open>STATE.last_schedule.itinerary\<close>.\<close>

definition schedule_table_rows :: "schedule_item list option \<Rightarrow> group_row list option" where
  "schedule_table_rows its =
     (case opt_or its [] of [] \<Rightarrow> None | xs \<Rightarrow> Some (map group_row_of (group_schedule xs)))"

definition mini_time_rows :: "schedule_item list option \<Rightarrow> group_row list option" where
  "mini_time_rows its =
     (case its of None \<Rightarrow> None | Some [] \<Rightarrow> None
      | Some xs \<Rightarrow> Some (map group_row_of (group_schedule xs)))"

subsection \<open>Invariants of the walk\<close>

text \<open>A group is well formed when it is non-empty, its day range is the day of its first and
  of its last item, and a farm group holds only farm items while a tour group holds only
  non-farm items of its start day.\<close>

definition good_group :: "sched_group \<Rightarrow> bool" where
  "good_group g \<longleftrightarrow>
     g_items g \<noteq> [] \<and> start_day g = day (hd (g_items g)) \<and> end_day g = day (last (g_items g)) \<and>
     (if g_type g = FARM_LABEL then list_all is_farm (g_items g)
      else g_type g = TOUR_LABEL \<and> list_all (\<lambda>x. \<not> is_farm x \<and> day x = start_day g) (g_items g))"

text \<open>Two adjacent groups could not have been one: not both farm groups, and not two tour
  groups of the same day.\<close>

definition separated :: "sched_group \<Rightarrow> sched_group \<Rightarrow> bool" where
  "separated g h \<longleftrightarrow>
     \<not> (g_type g = FARM_LABEL \<and> g_type h = FARM_LABEL) \<and>
     (g_type g = TOUR_LABEL \<and> g_type h = TOUR_LABEL \<longrightarrow> start_day g \<noteq> start_day h)"

definition group_inv :: "group_acc \<Rightarrow> bool" where
  "group_inv acc \<longleftrightarrow>
     (snd acc = None \<longrightarrow> fst acc = []) \<and> (\<forall>g\<in>set (flush acc). good_group g) \<and>
     successively separated (flush acc)"

definition farm_count :: "sched_group list \<Rightarrow> nat" where
  "farm_count gs = length (filter (\<lambda>g. g_type g = FARM_LABEL) gs)"

definition cur_is_farm :: "group_acc \<Rightarrow> bool" where
  "cur_is_farm acc \<longleftrightarrow> (case snd acc of None \<Rightarrow> False | Some g \<Rightarrow> g_type g = FARM_LABEL)"

text \<open>The itinerary invariant of the spec (section 3): the farm items form one
  non-empty contiguous run.\<close>

definition farm_block :: "schedule_item list \<Rightarrow> bool" where
  "farm_block its \<longleftrightarrow>
     (let r = dropWhile (\<lambda>x. \<not> is_farm x) its
      in r \<noteq> [] \<and> \<not> list_ex is_farm (dropWhile is_farm r))"

lemma flush_simps [simp]:
  "flush (gs, None) = gs" "flush (gs, Some g) = gs @ [g]"
  by (simp_all add: flush_def)

lemma concat_flush_step:
  "concat (map g_items (flush (group_step acc x))) = concat (map g_items (flush acc)) @ [x]"
  by (cases acc; cases "snd acc") (auto simp: new_group_def)

lemma concat_flush_foldl:
  "concat (map g_items (flush (foldl group_step acc xs))) = concat (map g_items (flush acc)) @ xs"
  by (induction xs arbitrary: acc) (simp_all add: concat_flush_step)

lemma good_new_group:
  "is_farm it \<Longrightarrow> good_group (new_group FARM_LABEL it)"
  "\<not> is_farm it \<Longrightarrow> good_group (new_group TOUR_LABEL it)"
  by (simp_all add: good_group_def new_group_def)

lemma good_extend_farm:
  "good_group g \<Longrightarrow> g_type g = FARM_LABEL \<Longrightarrow> is_farm it \<Longrightarrow>
   good_group (g\<lparr>end_day := day it, g_items := g_items g @ [it]\<rparr>)"
  by (simp add: good_group_def)

lemma good_extend_tour:
  assumes "good_group g" and "g_type g = TOUR_LABEL" and "start_day g = day it" and "\<not> is_farm it"
  shows "good_group (g\<lparr>g_items := g_items g @ [it]\<rparr>)"
proof -
  from assms(1,2) have ne: "g_items g \<noteq> []"
    and all: "list_all (\<lambda>x. \<not> is_farm x \<and> day x = start_day g) (g_items g)"
    and "end_day g = day (last (g_items g))"
    unfolding good_group_def by auto
  with assms(3) have "end_day g = day it"
    by (simp add: list_all_iff)
  moreover from assms(1) have "start_day g = day (hd (g_items g))"
    by (simp add: good_group_def)
  ultimately show ?thesis
    using assms(2,3,4) ne all by (simp add: good_group_def del: list_all_iff)
qed

lemma good_group_step:
  "\<forall>g\<in>set (flush acc). good_group g \<Longrightarrow> \<forall>g\<in>set (flush (group_step acc x)). good_group g"
proof (cases acc)
  case (Pair gs cur)
  assume inv: "\<forall>g\<in>set (flush acc). good_group g"
  show ?thesis
  proof (cases cur)
    case None
    with Pair inv show ?thesis by (simp add: good_new_group is_farm_def)
  next
    case (Some g)
    with Pair inv have gs: "\<forall>h\<in>set gs. good_group h" and g: "good_group g" by simp_all
    show ?thesis
      using Pair Some gs g
      by (auto simp: good_new_group good_extend_farm good_extend_tour is_farm_def)
  qed
qed

lemma group_step_Some: "snd (group_step acc x) \<noteq> None"
  by (cases acc; cases "snd acc") auto

lemma separated_step:
  "snd acc = None \<longrightarrow> fst acc = [] \<Longrightarrow> successively separated (flush acc) \<Longrightarrow>
   successively separated (flush (group_step acc x))"
  by (cases acc; cases "snd acc")
     (auto simp: successively_append_iff separated_def new_group_def)

lemma group_inv_step:
  assumes "group_inv acc"
  shows "group_inv (group_step acc x)"
proof -
  from assms have a: "snd acc = None \<longrightarrow> fst acc = []"
    and b: "\<forall>g\<in>set (flush acc). good_group g" and c: "successively separated (flush acc)"
    by (simp_all add: group_inv_def)
  have "snd (group_step acc x) \<noteq> None" by (rule group_step_Some)
  moreover from b have "\<forall>g\<in>set (flush (group_step acc x)). good_group g"
    by (rule good_group_step)
  moreover from a c have "successively separated (flush (group_step acc x))"
    by (rule separated_step)
  ultimately show ?thesis unfolding group_inv_def by blast
qed

lemma group_inv_foldl: "group_inv (foldl group_step ([], None) xs)"
proof (rule foldl_invariant [where P = group_inv])
  show "group_inv ([], None)" by (simp add: group_inv_def)
next
  fix s x
  assume "group_inv s"
  then show "group_inv (group_step s x)" by (rule group_inv_step)
qed

lemma farm_count_simps [simp]:
  "farm_count [] = 0"
  "farm_count (gs @ hs) = farm_count gs + farm_count hs"
  "farm_count (g # gs) = (if g_type g = FARM_LABEL then Suc (farm_count gs) else farm_count gs)"
  by (simp_all add: farm_count_def)

lemma step_nonfarm:
  "\<not> is_farm x \<Longrightarrow>
   farm_count (flush (group_step acc x)) = farm_count (flush acc) \<and> \<not> cur_is_farm (group_step acc x)"
  by (cases acc; cases "snd acc") (auto simp: is_farm_def new_group_def cur_is_farm_def)

lemma step_farm_on_farm:
  "is_farm x \<Longrightarrow> cur_is_farm acc \<Longrightarrow>
   farm_count (flush (group_step acc x)) = farm_count (flush acc) \<and> cur_is_farm (group_step acc x)"
  by (cases acc; cases "snd acc") (auto simp: is_farm_def cur_is_farm_def)

lemma step_farm_on_other:
  "is_farm x \<Longrightarrow> \<not> cur_is_farm acc \<Longrightarrow>
   farm_count (flush (group_step acc x)) = Suc (farm_count (flush acc)) \<and> cur_is_farm (group_step acc x)"
  by (cases acc; cases "snd acc") (auto simp: is_farm_def new_group_def cur_is_farm_def)

lemma foldl_nonfarm:
  "list_all (\<lambda>x. \<not> is_farm x) xs \<Longrightarrow>
   farm_count (flush (foldl group_step acc xs)) = farm_count (flush acc) \<and>
   (\<not> cur_is_farm acc \<longrightarrow> \<not> cur_is_farm (foldl group_step acc xs))"
  by (induction xs arbitrary: acc) (simp_all add: step_nonfarm)

lemma foldl_farm:
  "list_all is_farm xs \<Longrightarrow> cur_is_farm acc \<Longrightarrow>
   farm_count (flush (foldl group_step acc xs)) = farm_count (flush acc) \<and>
   cur_is_farm (foldl group_step acc xs)"
  by (induction xs arbitrary: acc) (simp_all add: step_farm_on_farm)

lemma farm_block_split:
  assumes "farm_block its"
  obtains pre b blk post where "its = pre @ b # blk @ post"
    and "list_all (\<lambda>x. \<not> is_farm x) pre" and "is_farm b" and "list_all is_farm blk"
    and "list_all (\<lambda>x. \<not> is_farm x) post"
proof -
  let ?r = "dropWhile (\<lambda>x. \<not> is_farm x) its"
  from assms obtain b r' where r: "?r = b # r'"
    and post: "\<not> list_ex is_farm (dropWhile is_farm ?r)"
    by (cases ?r) (auto simp: farm_block_def Let_def)
  have b: "is_farm b"
    using r hd_dropWhile [of "\<lambda>x. \<not> is_farm x" its] by (cases "?r = []") auto
  have its: "its = takeWhile (\<lambda>x. \<not> is_farm x) its @ b # takeWhile is_farm r' @ dropWhile is_farm r'"
    using r by (metis takeWhile_dropWhile_id)
  show ?thesis
  proof
    show "its = takeWhile (\<lambda>x. \<not> is_farm x) its @ b # takeWhile is_farm r' @ dropWhile is_farm r'"
      by (fact its)
    show "list_all (\<lambda>x. \<not> is_farm x) (takeWhile (\<lambda>x. \<not> is_farm x) its)"
      by (auto simp: list_all_iff dest: set_takeWhileD)
    show "is_farm b" by (fact b)
    show "list_all is_farm (takeWhile is_farm r')"
      by (auto simp: list_all_iff dest: set_takeWhileD)
    show "list_all (\<lambda>x. \<not> is_farm x) (dropWhile is_farm r')"
      using post r b by (simp add: list_all_iff list_ex_iff)
  qed
qed

lemma unique_by_key_keys:
  "set (map item_key (unique_by_key seen xs)) = set (map item_key xs) - seen \<and>
   distinct (map item_key (unique_by_key seen xs))"
  by (induction seen xs rule: unique_by_key.induct) auto

lemma unique_by_key_subseq: "subseq (unique_by_key seen xs) xs"
  by (induction seen xs rule: unique_by_key.induct) auto

lemma unique_by_key_same_key:
  "\<forall>y\<in>set xs. item_key y = item_key x \<Longrightarrow> item_key x \<in> seen \<Longrightarrow> unique_by_key seen xs = []"
  by (induction xs) auto

subsection \<open>Properties of the grouping\<close>

text \<open>C8: grouping neither loses, duplicates nor reorders an item: the items of the groups,
  in order, are the itinerary.\<close>

theorem group_schedule_concat: "concat (map g_items (group_schedule its)) = its"
  by (simp add: group_schedule_def concat_flush_foldl)

text \<open>C9: every group is well formed (non-empty, day range from its first to its last
  item, farm groups all farm, tour groups all of one day) and no two adjacent groups could
  have been merged.\<close>

theorem group_schedule_wf:
  "(\<forall>g\<in>set (group_schedule its). good_group g) \<and> successively separated (group_schedule its)"
  using group_inv_foldl [of its] by (simp add: group_inv_def group_schedule_def)

theorem group_schedule_wf_witness:
  "list_all good_group (group_schedule
      [\<lparr>day = 1, date = ''2025-10-01'', schedule_type = TOUR_LABEL, name = ''Byeokgolje'',
        start_time = ''15:00'', address = ''Gimje''\<rparr>,
       \<lparr>day = 2, date = ''2025-10-02'', schedule_type = FARM_LABEL, name = ''orchard'',
        start_time = ''08:00'', address = ''Gimje''\<rparr>]) \<and>
   successively separated (group_schedule
      [\<lparr>day = 1, date = ''2025-10-01'', schedule_type = TOUR_LABEL, name = ''Byeokgolje'',
        start_time = ''15:00'', address = ''Gimje''\<rparr>,
       \<lparr>day = 2, date = ''2025-10-02'', schedule_type = FARM_LABEL, name = ''orchard'',
        start_time = ''08:00'', address = ''Gimje''\<rparr>])"
  unfolding list_all_iff by (rule group_schedule_wf)

text \<open>When the farm items of the itinerary form one contiguous run, as the spec
  requires of every itinerary, the view shows exactly one farm group.\<close>

theorem single_farm_group:
  assumes "farm_block its"
  shows "farm_count (group_schedule its) = 1"
proof -
  from assms obtain pre b blk post where its: "its = pre @ b # blk @ post"
    and pre: "list_all (\<lambda>x. \<not> is_farm x) pre" and b: "is_farm b"
    and blk: "list_all is_farm blk" and post: "list_all (\<lambda>x. \<not> is_farm x) post"
    by (rule farm_block_split)
  let ?a1 = "foldl group_step ([], None) pre"
  let ?a2 = "group_step ?a1 b"
  let ?a3 = "foldl group_step ?a2 blk"
  have a1: "farm_count (flush ?a1) = 0 \<and> \<not> cur_is_farm ?a1"
    using foldl_nonfarm [OF pre, of "([], None)"] by (simp add: cur_is_farm_def)
  then have a2: "farm_count (flush ?a2) = 1 \<and> cur_is_farm ?a2"
    using step_farm_on_other [OF b, of ?a1] by simp
  then have a3: "farm_count (flush ?a3) = 1"
    using foldl_farm [OF blk, of ?a2] by simp
  have "farm_count (flush (foldl group_step ?a3 post)) = 1"
    using foldl_nonfarm [OF post, of ?a3] a3 by simp
  then show ?thesis by (simp add: group_schedule_def its)
qed

theorem single_farm_group_witness:
  "farm_block
     [\<lparr>day = 1, date = ''2025-10-01'', schedule_type = TOUR_LABEL, name = ''Byeokgolje'',
       start_time = ''15:00'', address = ''Gimje''\<rparr>,
      \<lparr>day = 2, date = ''2025-10-02'', schedule_type = FARM_LABEL, name = ''orchard'',
       start_time = ''08:00'', address = ''Gimje Geumgu''\<rparr>,
      \<lparr>day = 3, date = ''2025-10-03'', schedule_type = FARM_LABEL, name = ''orchard'',
       start_time = ''08:00'', address = ''Gimje Geumgu''\<rparr>] \<and>
   farm_count (group_schedule
     [\<lparr>day = 1, date = ''2025-10-01'', schedule_type = TOUR_LABEL, name = ''Byeokgolje'',
       start_time = ''15:00'', address = ''Gimje''\<rparr>,
      \<lparr>day = 2, date = ''2025-10-02'', schedule_type = FARM_LABEL, name = ''orchard'',
       start_time = ''08:00'', address = ''Gimje Geumgu''\<rparr>,
      \<lparr>day = 3, date = ''2025-10-03'', schedule_type = FARM_LABEL, name = ''orchard'',
       start_time = ''08:00'', address = ''Gimje Geumgu''\<rparr>]) = 1"
proof -
  have fb: "farm_block
     [\<lparr>day = 1, date = ''2025-10-01'', schedule_type = TOUR_LABEL, name = ''Byeokgolje'',
       start_time = ''15:00'', address = ''Gimje''\<rparr>,
      \<lparr>day = 2, date = ''2025-10-02'', schedule_type = FARM_LABEL, name = ''orchard'',
       start_time = ''08:00'', address = ''Gimje Geumgu''\<rparr>,
      \<lparr>day = 3, date = ''2025-10-03'', schedule_type = FARM_LABEL, name = ''orchard'',
       start_time = ''08:00'', address = ''Gimje Geumgu''\<rparr>]"
    by (simp add: farm_block_def is_farm_def)
  from fb single_farm_group [OF fb] show ?thesis by (rule conjI)
qed

text \<open>A farm group whose items all share name and address, as the spec requires of
  the farm block, is displayed as one place: its first item.\<close>

theorem farm_display_one_entry:
  assumes "g_type g = FARM_LABEL" and "g_items g = x # xs"
    and "\<forall>y\<in>set xs. name y = name x \<and> address y = address x"
  shows "group_display_items g = [x]"
  using assms unique_by_key_same_key [of xs x "{item_key x}"]
  by (simp add: group_display_items_def item_key_def)

theorem farm_display_one_entry_witness:
  "group_display_items
     \<lparr>g_type = FARM_LABEL, start_day = 2, end_day = 3,
      g_items = [\<lparr>day = 2, date = ''2025-10-02'', schedule_type = FARM_LABEL, name = ''orchard'',
                  start_time = ''08:00'', address = ''Gimje''\<rparr>,
                 \<lparr>day = 3, date = ''2025-10-03'', schedule_type = FARM_LABEL, name = ''orchard'',
                  start_time = ''08:00'', address = ''Gimje''\<rparr>]\<rparr> =
   [\<lparr>day = 2, date = ''2025-10-02'', schedule_type = FARM_LABEL, name = ''orchard'',
     start_time = ''08:00'', address = ''Gimje''\<rparr>]"
  by (rule farm_display_one_entry) auto

lemma display_keys_distinct:
  "g_type g = FARM_LABEL \<Longrightarrow> distinct (map item_key (group_display_items g))"
  using unique_by_key_keys [of "{}" "g_items g"] by (simp add: group_display_items_def)

text \<open>C10 (defect): the de-duplication key \<open>name-address\<close> of a farm group is ambiguous.
  For any strings \<open>n\<close>, \<open>m\<close>, \<open>a\<close>, a farm named \<open>n-m\<close> at \<open>a\<close> and a different farm named
  \<open>n\<close> at \<open>m-a\<close> have the same key, so no farm group, whatever its items and their order,
  displays both: the later one is dropped from the row.\<close>

theorem farm_display_key_collision:
  assumes "g_type g = FARM_LABEL"
    and "name x = n @ ''-'' @ m" and "address x = a" and "name y = n" and "address y = m @ ''-'' @ a"
  shows "x \<noteq> y \<and> \<not> (x \<in> set (group_display_items g) \<and> y \<in> set (group_display_items g))"
proof -
  have "x \<noteq> y" using assms(2,4) by (metis append_self_conv list.distinct(1) append_Cons)
  moreover have "item_key x = item_key y" using assms(2-5) by (simp add: item_key_def)
  moreover have "distinct (map item_key (group_display_items g))"
    using assms(1) by (rule display_keys_distinct)
  ultimately show ?thesis by (auto dest: inj_onD [OF distinct_map [THEN iffD1, THEN conjunct2]])
qed

text \<open>The orchard "Farm-A" at "Gimje" followed by the distinct farm "Farm" at "A-Gimje".\<close>

theorem farm_display_key_collision_witness:
  "\<not> (\<lparr>day = 3, date = ''2025-10-03'', schedule_type = FARM_LABEL, name = ''Farm'',
         start_time = ''08:00'', address = ''A-Gimje''\<rparr> \<in> set (group_display_items
     \<lparr>g_type = FARM_LABEL, start_day = 2, end_day = 3,
      g_items = [\<lparr>day = 2, date = ''2025-10-02'', schedule_type = FARM_LABEL, name = ''Farm-A'',
                  start_time = ''08:00'', address = ''Gimje''\<rparr>,
                 \<lparr>day = 3, date = ''2025-10-03'', schedule_type = FARM_LABEL, name = ''Farm'',
                  start_time = ''08:00'', address = ''A-Gimje''\<rparr>]\<rparr>))"
proof -
  let ?x = "\<lparr>day = 2, date = ''2025-10-02'', schedule_type = FARM_LABEL, name = ''Farm-A'',
             start_time = ''08:00'', address = ''Gimje''\<rparr>"
  let ?y = "\<lparr>day = 3, date = ''2025-10-03'', schedule_type = FARM_LABEL, name = ''Farm'',
             start_time = ''08:00'', address = ''A-Gimje''\<rparr>"
  let ?g = "\<lparr>g_type = FARM_LABEL, start_day = 2, end_day = 3, g_items = [?x, ?y]\<rparr>"
  have "?x \<in> set (group_display_items ?g)" by (simp add: group_display_items_def)
  with farm_display_key_collision [of ?g ?x "''Farm''" "''A''" "''Gimje''" ?y] show ?thesis by simp
qed

end
