(* ===== verification/Cards.thy ===== *)
theory Cards
  imports Schedule_Item
begin

text \<open>
  Card selection on the chat screen (src/unnamed/part_000). \<open>triggerRecommendation\<close>
  (lines 656-756) maps the engine's farms and tour spots to cards and stores them in
  \<open>CURRENT_RECO\<close>; the checkbox handler of \<open>bindCardActions\<close> (lines 872-913) keeps the
  chosen cards in \<open>STATE.chosenCards\<close>, at most one farm ("jobs") card; the
  \<open>makePlan\<close> handler (lines 712-725) builds the schedule request from them;
  \<open>renderPicked\<close> (lines 839-845) shows the titles of \<open>STATE.selections\<close>.
  \<open>crypto.randomUUID()\<close>, the last fallback for a card id, is an input: a function from
  the card's position to a fresh id.
\<close>

subsection \<open>Engine records and cards\<close>

record farm_rec =
  farm_id :: string
  f_id :: string
  farm :: string
  f_title :: string
  f_address :: string
  f_start_time :: string
  f_end_time :: string
  f_photo :: string
  required_people :: string

record tour_rec =
  tour_id :: string
  contentid :: string
  t_id :: string
  t_name :: string
  t_address :: string
  t_photo :: string

datatype card_kind = Jobs | Tours

datatype card_raw = RawFarm farm_rec | RawTour tour_rec

record card =
  card_id :: string
  card_title :: string
  card_location :: string
  card_img :: string
  card_time :: string
  card_people :: string
  card_kind :: card_kind
  card_raw :: card_raw

text \<open>The Korean fallback titles: "nongga cheheom" (farm experience) and, for a tour spot,
  the tour label.\<close>

definition FARM_CARD_TITLE :: string where
  "FARM_CARD_TITLE = FARM_LABEL @ [CHR 0x20, CHR 0xEC, CHR 0xB2, CHR 0xB4, CHR 0xED, CHR 0x97, CHR 0x98]"

definition farm_card :: "string \<Rightarrow> farm_rec \<Rightarrow> card" where
  "farm_card uuid f =
     \<lparr>card_id = js_or (farm_id f) (js_or (f_id f) uuid),
      card_title = js_or (f_title f) (js_or (farm f) FARM_CARD_TITLE),
      card_location = f_address f,
      card_img = f_photo f,
      card_time = js_or (f_start_time f) ''08:00'' @ '' - '' @ js_or (f_end_time f) ''17:00'',
      card_people = required_people f,
      card_kind = Jobs,
      card_raw = RawFarm f\<rparr>"

definition tour_card :: "string \<Rightarrow> tour_rec \<Rightarrow> card" where
  "tour_card uuid t =
     \<lparr>card_id = js_or (tour_id t) (js_or (contentid t) (js_or (t_id t) uuid)),
      card_title = js_or (t_name t) TOUR_LABEL,
      card_location = t_address t,
      card_img = t_photo t,
      card_time = [],
      card_people = [],
      card_kind = Tours,
      card_raw = RawTour t\<rparr>"

record reco =
  reco_jobs :: "card list"
  reco_tours :: "card list"

text \<open>\<open>farms.map(...)\<close> and \<open>tours.map(...)\<close>, each card drawing its own UUID; with no
  farm and no tour the handler only prints a message and keeps \<open>CURRENT_RECO\<close>.\<close>

definition reco_of :: "(nat \<Rightarrow> string) \<Rightarrow> (nat \<Rightarrow> string) \<Rightarrow> farm_rec list \<Rightarrow> tour_rec list \<Rightarrow>
                       reco option" where
  "reco_of uf ut fs ts =
     (if fs = [] \<and> ts = [] then None
      else Some \<lparr>reco_jobs = map (\<lambda>(i, f). farm_card (uf i) f) (enumerate 0 fs),
                 reco_tours = map (\<lambda>(i, t). tour_card (ut i) t) (enumerate 0 ts)\<rparr>)"

subsection \<open>The selection state and its steps\<close>

text \<open>\<open>STATE.selections\<close>, which \<open>renderPicked\<close> reads, and the chat-screen state.\<close>

record selections =
  sel_farm :: "card option"
  sel_tours :: "card list"

record card_state =
  current_reco :: reco
  chosen :: "card list"
  sels :: selections

datatype card_event =
    NewReco reco
  | Check string card_kind
  | Uncheck string

text \<open>A checked box: a farm card first removes every chosen farm card; then the card with
  that id is looked up in the pool of its kind and appended, as \<open>{...item, kind, raw: item}\<close>,
  unless a chosen card already has the id.\<close>

definition check_card :: "reco \<Rightarrow> card list \<Rightarrow> string \<Rightarrow> card_kind \<Rightarrow> card list" where
  "check_card r cs cid k =
     (let cs1 = (if k = Jobs then filter (\<lambda>c. card_kind c \<noteq> Jobs) cs else cs);
          pool = (if k = Jobs then reco_jobs r else reco_tours r)
      in case find (\<lambda>x. card_id x = cid) pool of
           Some item \<Rightarrow> if list_ex (\<lambda>c. card_id c = cid) cs1 then cs1
                        else cs1 @ [item\<lparr>card_kind := k\<rparr>]
         | None \<Rightarrow> cs1)"

definition uncheck_card :: "card list \<Rightarrow> string \<Rightarrow> card list" where
  "uncheck_card cs cid = filter (\<lambda>c. card_id c \<noteq> cid) cs"

fun card_step :: "card_state \<Rightarrow> card_event \<Rightarrow> card_state" where
  "card_step s (NewReco r) = s\<lparr>current_reco := r\<rparr>"
| "card_step s (Check cid k) = s\<lparr>chosen := check_card (current_reco s) (chosen s) cid k\<rparr>"
| "card_step s (Uncheck cid) = s\<lparr>chosen := uncheck_card (chosen s) cid\<rparr>"

definition card_run :: "card_state \<Rightarrow> card_event list \<Rightarrow> card_state" where
  "card_run s evs = foldl card_step s evs"

definition card_init :: card_state where
  "card_init = \<lparr>current_reco = \<lparr>reco_jobs = [], reco_tours = []\<rparr>, chosen = [],
                sels = \<lparr>sel_farm = None, sel_tours = []\<rparr>\<rparr>"

inductive card_reachable :: "card_state \<Rightarrow> bool" where
  init: "card_reachable card_init"
| step: "card_reachable s \<Longrightarrow> card_reachable (card_step s e)"

subsection \<open>The schedule request and the picked-cards line\<close>

record plan_payload =
  p_user_id :: string
  p_natural_request :: string
  selected_farm :: "card option"
  selected_tours :: "card list"

text \<open>\<open>(STATE.chosenCards.find(c => c.kind === "jobs") || {}).raw\<close>: the chosen entry's
  \<open>raw\<close> is the card itself, so the card is sent.\<close>

definition make_plan_payload :: "string \<Rightarrow> string \<Rightarrow> card list \<Rightarrow> plan_payload" where
  "make_plan_payload uid req cs =
     \<lparr>p_user_id = js_or uid ''local_user'', p_natural_request = req,
      selected_farm = find (\<lambda>c. card_kind c = Jobs) cs,
      selected_tours = filter (\<lambda>c. card_kind c = Tours) cs\<rparr>"

definition picked_titles :: "selections \<Rightarrow> string list" where
  "picked_titles sel =
     (case sel_farm sel of Some f \<Rightarrow> [card_title f] | None \<Rightarrow> []) @ map card_title (sel_tours sel)"

definition card_inv :: "card list \<Rightarrow> bool" where
  "card_inv cs \<longleftrightarrow> distinct (map card_id cs) \<and> length (filter (\<lambda>c. card_kind c = Jobs) cs) \<le> 1"

text \<open>A sample farm card and recommendation, used by the witnesses.\<close>

definition demo_farm_card :: card where
  "demo_farm_card =
     \<lparr>card_id = ''farm_0'', card_title = ''apple harvest'', card_location = ''Gimje'',
      card_img = [], card_time = ''08:00 - 17:00'', card_people = ''2'', card_kind = Jobs,
      card_raw = RawFarm \<lparr>farm_id = ''farm_0'', f_id = [], farm = ''Gimje orchard'',
        f_title = ''apple harvest'', f_address = ''Gimje'', f_start_time = ''08:00'',
        f_end_time = ''17:00'', f_photo = [], required_people = ''2''\<rparr>\<rparr>"

definition demo_reco :: reco where
  "demo_reco = \<lparr>reco_jobs = [demo_farm_card], reco_tours = []\<rparr>"

lemma check_card_inv: "card_inv cs \<Longrightarrow> card_inv (check_card r cs cid k)"
  unfolding card_inv_def check_card_def Let_def
  by (auto split: option.splits simp: distinct_map_filter list_ex_iff find_Some_iff)

lemma uncheck_card_inv:
  assumes "card_inv cs"
  shows "card_inv (uncheck_card cs cid)"
proof -
  have "filter (\<lambda>c. card_kind c = Jobs) (filter (\<lambda>c. card_id c \<noteq> cid) cs) =
        filter (\<lambda>c. card_id c \<noteq> cid) (filter (\<lambda>c. card_kind c = Jobs) cs)"
    by (simp add: filter_filter conj_commute)
  then have "length (filter (\<lambda>c. card_kind c = Jobs) (filter (\<lambda>c. card_id c \<noteq> cid) cs)) \<le>
             length (filter (\<lambda>c. card_kind c = Jobs) cs)"
    by (metis length_filter_le)
  with assms show ?thesis
    by (auto simp: card_inv_def uncheck_card_def distinct_map_filter)
qed

lemma card_step_inv: "card_inv (chosen s) \<Longrightarrow> card_inv (chosen (card_step s e))"
  by (cases e) (simp_all add: check_card_inv uncheck_card_inv)

lemma card_step_sels [simp]: "sels (card_step s e) = sels s"
  by (cases e) simp_all

lemma find_append_Some: "find P xs = Some x \<Longrightarrow> find P (xs @ ys) = Some x"
  by (induction xs) auto

lemma find_append_None: "find P xs = None \<Longrightarrow> find P (xs @ ys) = find P ys"
  by (induction xs) auto

text \<open>C11: in every state the checkbox handlers can reach, the chosen cards have distinct ids
  and at most one of them is a farm card.\<close>

theorem card_reachable_inv: "card_reachable s \<Longrightarrow> card_inv (chosen s)"
proof (induction rule: card_reachable.induct)
  case init
  then show ?case by (simp add: card_init_def card_inv_def)
next
  case (step s e)
  from step.IH show ?case by (rule card_step_inv)
qed

theorem card_reachable_inv_witness:
  "card_inv (chosen (card_step (card_step card_init (NewReco demo_reco)) (Check ''farm_0'' Jobs)))"
proof -
  have r: "card_reachable (card_step (card_step card_init (NewReco demo_reco)) (Check ''farm_0'' Jobs))"
    by (intro card_reachable.step card_reachable.init)
  from card_reachable_inv [OF r] show ?thesis .
qed

text \<open>C12: checking the box of a farm card that is on screen makes that card the farm of
  the next schedule request, in place of any farm checked before (the farm boxes act as
  radio buttons), and leaves the chosen tours as they were; the one exception is a chosen
  tour card with the same id, which blocks the farm card.\<close>

theorem check_farm_selects:
  assumes "find (\<lambda>x. card_id x = cid) (reco_jobs (current_reco s)) = Some item"
    and "\<not> list_ex (\<lambda>c. card_id c = cid \<and> card_kind c = Tours) (chosen s)"
  shows "selected_farm (make_plan_payload uid req (chosen (card_step s (Check cid Jobs)))) =
           Some (item\<lparr>card_kind := Jobs\<rparr>) \<and>
         selected_tours (make_plan_payload uid req (chosen (card_step s (Check cid Jobs)))) =
           selected_tours (make_plan_payload uid req (chosen s))"
proof -
  let ?cs1 = "filter (\<lambda>c. card_kind c \<noteq> Jobs) (chosen s)"
  have other: "card_kind c \<noteq> Jobs \<longleftrightarrow> card_kind c = Tours" for c by (cases "card_kind c") simp_all
  from assms(2) have "\<not> list_ex (\<lambda>c. card_id c = cid) ?cs1"
    by (auto simp: list_ex_iff other)
  with assms(1) have ch: "check_card (current_reco s) (chosen s) cid Jobs = ?cs1 @ [item\<lparr>card_kind := Jobs\<rparr>]"
    by (simp add: check_card_def)
  have "find (\<lambda>c. card_kind c = Jobs) ?cs1 = None" by (simp add: find_None_iff)
  moreover have "filter (\<lambda>c. card_kind c = Tours) ?cs1 = filter (\<lambda>c. card_kind c = Tours) (chosen s)"
    by (simp add: filter_filter other)
  ultimately show ?thesis by (simp add: ch make_plan_payload_def find_append_None)
qed

theorem check_farm_selects_witness:
  "selected_farm (make_plan_payload [] ''Gimje'' (chosen (card_step (card_step card_init
       (NewReco demo_reco)) (Check ''farm_0'' Jobs)))) = Some demo_farm_card"
proof -
  have f: "find (\<lambda>x. card_id x = ''farm_0'') (reco_jobs (current_reco (card_step card_init (NewReco demo_reco)))) =
             Some demo_farm_card"
    by (simp add: demo_reco_def demo_farm_card_def)
  have t: "\<not> list_ex (\<lambda>c. card_id c = ''farm_0'' \<and> card_kind c = Tours)
                (chosen (card_step card_init (NewReco demo_reco)))"
    by (simp add: card_init_def)
  show ?thesis using check_farm_selects [OF f t, of "[]" "''Gimje''"]
    by (simp add: demo_farm_card_def)
qed

text \<open>C13 (defect): the "selected cards" line never shows a selection: renderPicked reads
  STATE.selections, which no handler writes, so from the initial state it lists no title
  whatever the user checks.\<close>

theorem picked_line_never_updated: "picked_titles (sels (card_run card_init evs)) = []"
proof -
  have "sels (card_run s evs) = sels s" for s
    unfolding card_run_def by (induction evs arbitrary: s) simp_all
  then show ?thesis by (simp add: card_init_def picked_titles_def)
qed

text \<open>A chosen farm stays the request's farm through any step that neither checks a farm
  box nor unchecks that card.\<close>

lemma find_farm_check_tour:
  "find (\<lambda>c. card_kind c = Jobs) cs = Some c \<Longrightarrow>
   find (\<lambda>c. card_kind c = Jobs) (check_card r cs cid Tours) = Some c"
  by (simp add: check_card_def find_append_Some split: option.splits)

lemma find_farm_uncheck:
  "find (\<lambda>c. card_kind c = Jobs) cs = Some c \<Longrightarrow> card_id c \<noteq> cid \<Longrightarrow>
   find (\<lambda>c. card_kind c = Jobs) (uncheck_card cs cid) = Some c"
  by (induction cs) (auto simp: uncheck_card_def)

lemma find_farm_step:
  assumes "find (\<lambda>c. card_kind c = Jobs) (chosen s) = Some c"
    and "e \<noteq> Uncheck (card_id c)" and "\<forall>i. e \<noteq> Check i Jobs"
  shows "find (\<lambda>c. card_kind c = Jobs) (chosen (card_step s e)) = Some c"
proof (cases e)
  case (Check i k)
  with assms(3) have "k = Tours" by (cases k) auto
  with Check assms(1) show ?thesis by (simp add: find_farm_check_tour)
qed (use assms find_farm_uncheck in auto)

lemma find_farm_run:
  "find (\<lambda>c. card_kind c = Jobs) (chosen s) = Some c \<Longrightarrow>
   \<forall>e\<in>set evs. e \<noteq> Uncheck (card_id c) \<and> (\<forall>i. e \<noteq> Check i Jobs) \<Longrightarrow>
   find (\<lambda>c. card_kind c = Jobs) (chosen (card_run s evs)) = Some c"
  by (induction evs arbitrary: s) (simp_all add: card_run_def find_farm_step)

text \<open>C14 (defect): a new recommendation re-renders every card unchecked but keeps
  STATE.chosenCards. Whatever the new recommendation holds, the farm chosen before it is
  still the farm of every later schedule request until its card is unchecked or another farm
  is checked; once the new cards are on screen its box is no longer shown, so the user
  cannot uncheck it, and a request without a farm choice sends a farm that is not on
  screen.\<close>

theorem stale_selection_after_new_reco:
  assumes "selected_farm (make_plan_payload uid req (chosen s)) = Some c"
    and "\<forall>e\<in>set evs. e \<noteq> Uncheck (card_id c) \<and> (\<forall>i. e \<noteq> Check i Jobs)"
  shows "selected_farm (make_plan_payload uid req (chosen (card_run s (NewReco r # evs)))) = Some c"
proof -
  have "find (\<lambda>c. card_kind c = Jobs) (chosen (card_step s (NewReco r))) = Some c"
    using assms(1) by (simp add: make_plan_payload_def)
  from find_farm_run [OF this assms(2)] show ?thesis
    by (simp add: make_plan_payload_def card_run_def)
qed

text \<open>The farm card of the first recommendation, checked, survives an empty second
  recommendation and a later tour check.\<close>

theorem stale_selection_after_new_reco_witness:
  "selected_farm (make_plan_payload [] [] (chosen (card_run (card_step (card_step card_init
     (NewReco demo_reco)) (Check ''farm_0'' Jobs))
     [NewReco \<lparr>reco_jobs = [], reco_tours = []\<rparr>, Check ''t1'' Tours]))) = Some demo_farm_card"
proof -
  have s: "selected_farm (make_plan_payload [] [] (chosen (card_step (card_step card_init
             (NewReco demo_reco)) (Check ''farm_0'' Jobs)))) = Some demo_farm_card"
    by (simp add: card_init_def demo_reco_def demo_farm_card_def check_card_def make_plan_payload_def)
  have e: "\<forall>e\<in>set [Check ''t1'' Tours]. e \<noteq> Uncheck (card_id demo_farm_card) \<and> (\<forall>i. e \<noteq> Check i Jobs)"
    by simp
  show ?thesis using stale_selection_after_new_reco [OF s e, of "\<lparr>reco_jobs = [], reco_tours = []\<rparr>"]
    by simp
qed

end
