(* ===== verification/Session.thy ===== *)
theory Session
  imports Calendar Cards
begin

text \<open>
  The schedule session of the chat screen (src/unnamed/part_000): the part of \<open>STATE\<close>
  (lines 43-60) the schedule requests write, the second definition of \<open>callEngine\<close>
  (lines 338-353), which is the one in force because a later function declaration replaces
  an earlier one of the same name and which answers every failed request with
  \<open>mockPlan\<close> (lines 354-397), the response handling shared by
  \<open>createScheduleWithUser\<close> (lines 399-427) and \<open>sendScheduleFeedback\<close>
  (lines 428-447), the \<open>makePlan\<close> continuation (lines 726-733), the routing of a chat
  message (lines 1357-1369) and schedule confirmation (lines 1289-1310 with
  \<open>updateHomeCalendar\<close>). The engine's answer is an input: a reply or a failure (HTTP
  error or network error alike, since the handler catches both); \<open>mockPlan\<close>'s date,
  two days after the current one, is an input as well.
  \<open>STATE.calendar\<close> takes whatever the engine sends as \<open>calendar_events\<close>: the API
  (src/unnamed/part_001 lines 195-208) sends an array, so the calendar can be an array
  on which \<open>updateHomeCalendar\<close> sets year-month properties; \<open>JSON.stringify\<close>
  keeps only the elements of an array, which \<open>persist_cal\<close> models.
\<close>

subsection \<open>Responses and state\<close>

record grouped_entry =
  ge_order :: nat
  ge_type :: string
  ge_title :: string
  ge_subtitle :: string
  ge_date :: string
  ge_start_time :: string
  ge_description :: string

text \<open>The schedule object \<open>data?.data || data || {}\<close>; a missing string field is empty.\<close>

record sched_resp =
  itinerary_id :: string
  itinerary :: "schedule_item list option"
  grouped_schedule :: "grouped_entry list option"
  calendar_events :: "cal_event list option"
  timeline_items :: "tl_item list option"
  sched_calendar :: "calendar option"

datatype timeline_val =
    TLGrouped "grouped_entry list"
  | TLItems "schedule_item list"
  | TLEntries "tl_item list"

datatype ui_calendar = CalObj calendar | CalArr "cal_event list" calendar

datatype chat_stage = StageCards | StageTable

record session =
  last_itinerary_id :: "string option"
  last_schedule :: "sched_resp option"
  timeline :: timeline_val
  ui_cal :: ui_calendar
  chat_stage :: chat_stage

datatype engine_outcome = Reply sched_resp | Failed

subsection \<open>callEngine and mockPlan\<close>

definition MOCK_TITLE_1 :: string where
  "MOCK_TITLE_1 = [CHR 0xEC, CHR 0x82, CHR 0xAC, CHR 0xEA, CHR 0xB3, CHR 0xBC, CHR 0x20, CHR 0xEC,
     CHR 0x88, CHR 0x98, CHR 0xED, CHR 0x99, CHR 0x95, CHR 0x20, CHR 0xEB, CHR 0x8F, CHR 0x95,
     CHR 0xEA, CHR 0xB8, CHR 0xB0]"

definition MOCK_TITLE_2 :: string where
  "MOCK_TITLE_2 = [CHR 0xEC, CHR 0x8B, CHR 0x9C, CHR 0xEC, CHR 0x9E, CHR 0xA5, CHR 0x20, CHR 0xED,
     CHR 0x88, CHR 0xAC, CHR 0xEC, CHR 0x96, CHR 0xB4, CHR 0x20, CHR 0x26, CHR 0x20, CHR 0xEC,
     CHR 0xA0, CHR 0x90, CHR 0xEC, CHR 0x8B, CHR 0xAC]"

definition MOCK_TITLE_3 :: string where
  "MOCK_TITLE_3 = [CHR 0xEB, CHR 0x82, CHR 0xB4, CHR 0xEC, CHR 0x9E, CHR 0xA5, CHR 0xEC, CHR 0x82,
     CHR 0xB0, CHR 0x20, CHR 0xEC, CHR 0x82, CHR 0xB0, CHR 0xEC, CHR 0xB1, CHR 0x85]"

definition mock_plan :: "string \<Rightarrow> sched_resp" where
  "mock_plan d =
     \<lparr>itinerary_id = [], itinerary = None, grouped_schedule = None, calendar_events = None,
      timeline_items = Some
        [\<lparr>datetime = d @ ''T08:00:00'', title = MOCK_TITLE_1,
          location = [CHR 0xEC, CHR 0xA0, CHR 0x84, CHR 0xEB, CHR 0xB6, CHR 0x81, CHR 0x20, CHR 0xEA,
            CHR 0xB9, CHR 0x80, CHR 0xEC, CHR 0xA0, CHR 0x9C, CHR 0xEC, CHR 0x8B, CHR 0x9C, CHR 0x20,
            CHR 0xEB, CHR 0xB4, CHR 0x89, CHR 0xEB, CHR 0x82, CHR 0xA8, CHR 0xEB, CHR 0xA9, CHR 0xB4],
          desc = [CHR 0xEB, CHR 0x86, CHR 0x8D, CHR 0xEC, CHR 0x9E, CHR 0xA5, CHR 0x20, CHR 0xEB,
            CHR 0x8F, CHR 0x84, CHR 0xEC, CHR 0x9A, CHR 0xB0, CHR 0xEB, CHR 0xAF, CHR 0xB8],
          icon = [CHR 0xF0, CHR 0x9F, CHR 0x8D, CHR 0x8E]\<rparr>,
         \<lparr>datetime = d @ ''T12:00:00'', title = MOCK_TITLE_2,
          location = [CHR 0xEC, CHR 0xA0, CHR 0x84, CHR 0xEC, CHR 0xA3, CHR 0xBC, CHR 0x20, CHR 0xEB,
            CHR 0x82, CHR 0xA8, CHR 0xEB, CHR 0xB6, CHR 0x80, CHR 0xEC, CHR 0x8B, CHR 0x9C, CHR 0xEC,
            CHR 0x9E, CHR 0xA5],
          desc = [CHR 0xEC, CHR 0xB9, CHR 0xBC, CHR 0xEA, CHR 0xB5, CHR 0xAD, CHR 0xEC, CHR 0x88,
            CHR 0x98, CHR 0x20, CHR 0xEC, CHR 0xB6, CHR 0x94, CHR 0xEC, CHR 0xB2, CHR 0x9C],
          icon = [CHR 0xF0, CHR 0x9F, CHR 0x8D, CHR 0x9C]\<rparr>,
         \<lparr>datetime = d @ ''T15:00:00'', title = MOCK_TITLE_3,
          location = [CHR 0xEC, CHR 0xA0, CHR 0x95, CHR 0xEC, CHR 0x9D, CHR 0x8D, CHR 0xEC, CHR 0x8B,
            CHR 0x9C],
          desc = [CHR 0xED, CHR 0x9E, CHR 0x90, CHR 0xEB, CHR 0xA7, CHR 0x81, CHR 0x20, CHR 0xED,
            CHR 0x8A, CHR 0xB8, CHR 0xEB, CHR 0xA0, CHR 0x88, CHR 0xEC, CHR 0x9D, CHR 0xBC],
          icon = [CHR 0xE2, CHR 0x9B, CHR 0xB0, CHR 0xEF, CHR 0xB8, CHR 0x8F]\<rparr>],
      sched_calendar = None\<rparr>"

definition call_engine :: "string \<Rightarrow> engine_outcome \<Rightarrow> sched_resp" where
  "call_engine d out = (case out of Reply r \<Rightarrow> r | Failed \<Rightarrow> mock_plan d)"

subsection \<open>Handlers\<close>

text \<open>The block shared by \<open>createScheduleWithUser\<close> and \<open>sendScheduleFeedback\<close>:
  \<open>grouped_schedule || itinerary || []\<close> and \<open>calendar_events || {}\<close> for a schedule with an
  id, \<open>timeline || []\<close> and \<open>calendar || {}\<close> otherwise (an empty array is truthy).\<close>

definition apply_schedule :: "session \<Rightarrow> sched_resp \<Rightarrow> session" where
  "apply_schedule s r =
     (if itinerary_id r \<noteq> [] then
        s\<lparr>last_itinerary_id := Some (itinerary_id r), last_schedule := Some r,
          timeline := (case grouped_schedule r of Some g \<Rightarrow> TLGrouped g
                       | None \<Rightarrow> TLItems (opt_or (itinerary r) [])),
          ui_cal := (case calendar_events r of Some e \<Rightarrow> CalArr e Map.empty
                     | None \<Rightarrow> CalObj Map.empty)\<rparr>
      else
        s\<lparr>last_schedule := Some r, timeline := TLEntries (opt_or (timeline_items r) []),
          ui_cal := CalObj (opt_or (sched_calendar r) Map.empty)\<rparr>)"

definition create_schedule :: "session \<Rightarrow> string \<Rightarrow> engine_outcome \<Rightarrow> session" where
  "create_schedule s d out = apply_schedule s (call_engine d out)"

definition send_feedback :: "session \<Rightarrow> string \<Rightarrow> engine_outcome \<Rightarrow> session" where
  "send_feedback s d out = apply_schedule s (call_engine d out)"

text \<open>\<open>makePlan\<close>: after \<open>createScheduleWithUser\<close> returns, \<open>chatStage = "table"\<close>.\<close>

definition make_plan :: "session \<Rightarrow> string \<Rightarrow> engine_outcome \<Rightarrow> session" where
  "make_plan s d out = (create_schedule s d out)\<lparr>chat_stage := StageTable\<rparr>"

datatype chat_action = Ignore | Feedback string | Recommend string

definition chat_route :: "session \<Rightarrow> string \<Rightarrow> chat_action" where
  "chat_route s txt =
     (let t = js_trim txt
      in if t = [] then Ignore
         else if chat_stage s = StageTable \<and> last_schedule s \<noteq> None then Feedback t
         else Recommend t)"

fun map_ui_cal :: "(calendar \<Rightarrow> calendar) \<Rightarrow> ui_calendar \<Rightarrow> ui_calendar" where
  "map_ui_cal f (CalObj c) = CalObj (f c)"
| "map_ui_cal f (CalArr e c) = CalArr e (f c)"

fun cal_of :: "ui_calendar \<Rightarrow> calendar" where
  "cal_of (CalObj c) = c"
| "cal_of (CalArr e c) = c"

text \<open>\<open>localStorage.setItem("ims_calendar", JSON.stringify(STATE.calendar))\<close> read back
  with \<open>JSON.parse\<close>: an array keeps only its elements.\<close>

fun persist_cal :: "ui_calendar \<Rightarrow> ui_calendar" where
  "persist_cal (CalObj c) = CalObj c"
| "persist_cal (CalArr e c) = CalArr e Map.empty"

text \<open>\<open>confirmCurrentSchedule\<close>: the confirm request cannot fail through
  \<open>callEngine\<close>, then \<open>updateHomeCalendar\<close> over \<open>STATE.last_schedule?.itinerary\<close>.\<close>

definition confirm :: "session \<Rightarrow> session" where
  "confirm s =
     s\<lparr>ui_cal := map_ui_cal (\<lambda>c. update_home_calendar c (Option.bind (last_schedule s) itinerary))
                            (ui_cal s)\<rparr>"

datatype session_event =
    MakePlan string engine_outcome
  | SendFeedback string engine_outcome
  | Confirm

fun session_step :: "session \<Rightarrow> session_event \<Rightarrow> session" where
  "session_step s (MakePlan d out) = make_plan s d out"
| "session_step s (SendFeedback d out) = send_feedback s d out"
| "session_step s Confirm = confirm s"

text \<open>A page load: \<open>chatStage\<close> starts at \<open>"cards"\<close>; the other fields come from local
  storage and can be anything an earlier session saved.\<close>

inductive session_reachable :: "session \<Rightarrow> bool" where
  load: "chat_stage s = StageCards \<Longrightarrow> session_reachable s"
| step: "session_reachable s \<Longrightarrow> session_reachable (session_step s e)"

text \<open>A fresh session and an engine reply shaped as in the API document, for the witnesses.\<close>

definition demo_session :: session where
  "demo_session = \<lparr>last_itinerary_id = None, last_schedule = None, timeline = TLEntries [],
                   ui_cal = CalObj Map.empty, chat_stage = StageCards\<rparr>"

definition demo_reply :: sched_resp where
  "demo_reply =
     \<lparr>itinerary_id = ''schedule_20250831_143000'',
      itinerary = Some [\<lparr>day = 1, date = ''2025-10-01'', schedule_type = TOUR_LABEL,
                         name = ''Byeokgolje'', start_time = ''15:00'', address = ''Gimje''\<rparr>],
      grouped_schedule = None,
      calendar_events = Some [\<lparr>activity = ''Byeokgolje'', ev_date = ''10/01/2025 9:00 am'',
                                ev_type = TOUR_LABEL, ev_day = 1\<rparr>],
      timeline_items = None, sched_calendar = None\<rparr>"

subsection \<open>Properties\<close>

lemma mock_plan_fields [simp]:
  "itinerary_id (mock_plan d) = []" "itinerary (mock_plan d) = None"
  "sched_calendar (mock_plan d) = None"
  by (simp_all add: mock_plan_def)

lemma session_step_table:
  "chat_stage s = StageTable \<longrightarrow> last_schedule s \<noteq> None \<Longrightarrow>
   chat_stage (session_step s e) = StageTable \<longrightarrow> last_schedule (session_step s e) \<noteq> None"
  by (cases e) (auto simp: make_plan_def create_schedule_def send_feedback_def apply_schedule_def confirm_def)

text \<open>C15 (defect): a failed schedule request does not fail: \<open>callEngine\<close> answers with
  \<open>mockPlan\<close>, which becomes the last schedule, and \<open>STATE.calendar\<close> is replaced by the
  empty object, so every event the calendar held is lost; the itinerary id is kept.\<close>

theorem failed_plan_wipes_calendar:
  "last_schedule (create_schedule s d Failed) = Some (mock_plan d) \<and>
   ui_cal (create_schedule s d Failed) = CalObj Map.empty \<and>
   last_itinerary_id (create_schedule s d Failed) = last_itinerary_id s"
  by (simp add: create_schedule_def call_engine_def apply_schedule_def)

text \<open>C16 (defect): after a failed \<open>makePlan\<close> the chat is in the table stage with a
  schedule, so every non-blank message is sent as feedback and none can start a new
  recommendation.\<close>

theorem failed_plan_traps_chat:
  assumes "js_trim t \<noteq> []"
  shows "chat_route (make_plan s d Failed) t = Feedback (js_trim t)"
  using assms
  by (simp add: chat_route_def make_plan_def create_schedule_def call_engine_def apply_schedule_def Let_def)

theorem failed_plan_traps_chat_witness:
  "chat_route (make_plan demo_session ''2025-10-03'' Failed) ''  new trip to Jeonju  '' =
   Feedback ''new trip to Jeonju''"
  using failed_plan_traps_chat [of "''  new trip to Jeonju  ''" demo_session "''2025-10-03''"]
  by (simp add: js_trim_def js_ws_def)

text \<open>C17 (divergence): a failed revision is not side-effect free, as the spec requires: the
  last schedule becomes the mock plan, which has no itinerary, and the calendar is emptied.\<close>

theorem failed_feedback_drops_itinerary:
  "last_schedule (send_feedback s d Failed) = Some (mock_plan d) \<and>
   itinerary (the (last_schedule (send_feedback s d Failed))) = None \<and>
   ui_cal (send_feedback s d Failed) = CalObj Map.empty"
  by (simp add: send_feedback_def call_engine_def apply_schedule_def)

text \<open>An engine reply with an itinerary id becomes the last schedule, its id the last
  itinerary id, and the timeline its grouped schedule, or else its itinerary.\<close>

theorem create_schedule_reply:
  assumes "itinerary_id r \<noteq> []"
  shows "last_itinerary_id (create_schedule s d (Reply r)) = Some (itinerary_id r) \<and>
         last_schedule (create_schedule s d (Reply r)) = Some r \<and>
         timeline (create_schedule s d (Reply r)) =
           (case grouped_schedule r of Some g \<Rightarrow> TLGrouped g
            | None \<Rightarrow> TLItems (opt_or (itinerary r) []))"
  using assms by (simp add: create_schedule_def call_engine_def apply_schedule_def)

theorem create_schedule_reply_witness:
  "last_itinerary_id (create_schedule demo_session ''2025-10-03'' (Reply demo_reply)) =
     Some ''schedule_20250831_143000'' \<and>
   last_schedule (create_schedule demo_session ''2025-10-03'' (Reply demo_reply)) = Some demo_reply \<and>
   timeline (create_schedule demo_session ''2025-10-03'' (Reply demo_reply)) =
     TLItems [\<lparr>day = 1, date = ''2025-10-01'', schedule_type = TOUR_LABEL,
               name = ''Byeokgolje'', start_time = ''15:00'', address = ''Gimje''\<rparr>]"
  using create_schedule_reply [of demo_reply demo_session "''2025-10-03''"]
  by (simp add: demo_reply_def)

text \<open>C18 (defect): when the engine sends \<open>calendar_events\<close> (an array, as documented),
  the events a confirmation adds are properties of that array, which \<open>JSON.stringify\<close>
  drops: after a reload the calendar holds no confirmed event.\<close>

theorem confirmed_events_lost_on_reload:
  assumes "itinerary_id r \<noteq> []" and "calendar_events r = Some e"
  shows "persist_cal (ui_cal (confirm (make_plan s d (Reply r)))) = CalArr e Map.empty"
  using assms
  by (simp add: confirm_def make_plan_def create_schedule_def call_engine_def apply_schedule_def)

theorem confirmed_events_lost_on_reload_witness:
  "persist_cal (ui_cal (confirm (make_plan demo_session ''2025-10-03'' (Reply demo_reply)))) =
   CalArr [\<lparr>activity = ''Byeokgolje'', ev_date = ''10/01/2025 9:00 am'', ev_type = TOUR_LABEL,
            ev_day = 1\<rparr>] Map.empty"
  using confirmed_events_lost_on_reload [of demo_reply]
  by (simp add: demo_reply_def)

text \<open>In every state reachable from a page load, the chat is in the table stage only
  when a last schedule exists, so feedback always has a schedule to refer to.\<close>

theorem table_stage_has_schedule:
  "session_reachable s \<Longrightarrow> chat_stage s = StageTable \<Longrightarrow> last_schedule s \<noteq> None"
proof (induction rule: session_reachable.induct)
  case (load s)
  then show ?case by simp
next
  case (step s e)
  then show ?case using session_step_table by blast
qed

theorem table_stage_has_schedule_witness:
  "chat_stage (session_step demo_session (MakePlan ''2025-10-03'' (Reply demo_reply))) = StageTable \<and>
   last_schedule (session_step demo_session (MakePlan ''2025-10-03'' (Reply demo_reply))) \<noteq> None"
proof -
  have r: "session_reachable (session_step demo_session (MakePlan ''2025-10-03'' (Reply demo_reply)))"
    by (rule session_reachable.step, rule session_reachable.load) (simp add: demo_session_def)
  have t: "chat_stage (session_step demo_session (MakePlan ''2025-10-03'' (Reply demo_reply))) = StageTable"
    by (simp add: make_plan_def)
  from t table_stage_has_schedule [OF r t] show ?thesis by (rule conjI)
qed

end
