(* ===== verification/Onboarding.thy ===== *)
theory Onboarding
  imports Prelude
begin

text \<open>
  The onboarding screens and the router of the front end (src/unnamed/part_000):
  \<^item> \<open>setupBadgeToggle\<close> (lines 6-30): a box of badge buttons, restored from a saved
    selection and toggled by clicks, reporting the labels of the active badges in screen
    order;
  \<^item> \<open>STATE.profile\<close> and \<open>STATE.prefs\<close> as the five screens fill them: the \<open>#next1\<close>
    handler of \<open>renderOnboard\<close> (lines 1456-1471), the badge boxes of
    \<open>renderOnboard2..4\<close> and the free-text fields of \<open>renderOnboard5\<close> (lines 1629-1633);
  \<^item> \<open>buildOnboardingPayload\<close> (lines 122-138), the body of \<open>POST /api/onboarding\<close>;
  \<^item> the view of the URL hash (lines 44, 208-211), \<open>navigate\<close> (lines 203-207) and the
    dispatch table of \<open>render\<close> (lines 1653-1665).
\<close>

subsection \<open>Badge boxes\<close>

text \<open>A box holds its badges in screen order, each with its (trimmed) label and its
  \<open>active\<close> class. A click hits a badge by its position, or misses every badge.\<close>

record badge_box =
  badge_labels :: "string list"
  badge_active :: "bool list"

definition badge_values :: "badge_box \<Rightarrow> string list" where
  "badge_values b = map fst (filter snd (zip (badge_labels b) (badge_active b)))"

text \<open>\<open>const selected = new Set(getInitial())\<close> and the \<open>forEach\<close> that activates the
  badges whose label is in it.\<close>

definition setup_badges :: "string list \<Rightarrow> string list \<Rightarrow> badge_box" where
  "setup_badges labels init = \<lparr>badge_labels = labels, badge_active = map (\<lambda>l. l \<in> set init) labels\<rparr>"

text \<open>The click listener: \<open>closest(".badge")\<close> is null for a click beside the badges,
  and the handler returns before \<open>onChange\<close>; otherwise the badge's class is toggled and
  \<open>onChange\<close> receives the labels of all active badges.\<close>

definition badge_click :: "badge_box \<Rightarrow> nat option \<Rightarrow> badge_box \<times> string list option" where
  "badge_click b t =
     (case t of
        None \<Rightarrow> (b, None)
      | Some i \<Rightarrow>
          if i < length (badge_labels b) then
            (let b' = b\<lparr>badge_active := (badge_active b)[i := \<not> badge_active b ! i]\<rparr>
             in (b', Some (badge_values b')))
          else (b, None))"

definition badge_wf :: "badge_box \<Rightarrow> bool" where
  "badge_wf b \<longleftrightarrow> length (badge_active b) = length (badge_labels b)"

subsection \<open>Profile and preferences\<close>

text \<open>\<open>STATE.profile\<close>, parsed from local storage (\<open>"{}"\<close> at first). A missing string
  field is the empty string; \<open>region\<close> and \<open>with\<close> are objects the code tests for
  presence. \<open>real_name\<close>, \<open>sido\<close> and \<open>sigungu\<close> at the top level are never written by
  the screens; the payload falls back on them.\<close>

record profile =
  real_name :: string
  nick :: string
  age :: string
  gender :: string
  region :: "(string \<times> string) option"
  p_sido :: string
  p_sigungu :: string
  with_who :: "string list option"

record prefs =
  pf_scenery :: "string list option"
  pf_styles :: "string list option"
  pf_jobs :: "string list option"
  pf_free :: "string list option"

text \<open>The first screen's inputs when \<open>#next1\<close> is pressed: the checked gender radio
  button, if any, and the companion badge box.\<close>

record form1 =
  f_nick :: string
  f_sido :: string
  f_sigungu :: string
  f_age :: string
  f_gender :: "string option"
  f_with :: badge_box

definition next1 :: "profile \<Rightarrow> form1 \<Rightarrow> profile" where
  "next1 p f =
     p\<lparr>nick := f_nick f, region := Some (f_sido f, f_sigungu f), age := f_age f,
       gender := opt_or (f_gender f) [], with_who := Some (badge_values (f_with f))\<rparr>"

text \<open>\<open>[1, 2, 3, 4, 5].map((i) => $("#free" + i).value).filter(Boolean)\<close>.\<close>

definition finish_free :: "prefs \<Rightarrow> string list \<Rightarrow> prefs" where
  "finish_free pf inputs = pf\<lparr>pf_free := Some (filter (\<lambda>s. s \<noteq> []) inputs)\<rparr>"

subsection \<open>buildOnboardingPayload\<close>

text \<open>\<open>with_whom\<close> is \<open>(p.with && p.with[0]) || p.with || ""\<close>: a string, or, when the
  array is empty, the empty array itself (an empty array is truthy).\<close>

datatype str_or_arr = JStr string | JArr "string list"

record onboarding_payload =
  ob_real_name :: string
  ob_name :: string
  ob_age :: string
  ob_gender :: string
  ob_sido :: string
  ob_sigungu :: string
  ob_with_whom :: str_or_arr
  ob_views :: "string list"
  ob_styles :: "string list"
  ob_jobs :: "string list"
  ob_requests :: "string list"

definition GENDER_MALE :: string where
  "GENDER_MALE = [CHR 0xEB, CHR 0x82, CHR 0xA8]"

definition GENDER_FEMALE :: string where
  "GENDER_FEMALE = [CHR 0xEC, CHR 0x97, CHR 0xAC]"

fun with_whom_of :: "string list option \<Rightarrow> str_or_arr" where
  "with_whom_of None = JStr []"
| "with_whom_of (Some []) = JArr []"
| "with_whom_of (Some (x # xs)) = (if x \<noteq> [] then JStr x else JArr (x # xs))"

definition gender_of :: "string \<Rightarrow> string" where
  "gender_of g = (if g = ''M'' then GENDER_MALE else if g = ''F'' then GENDER_FEMALE else g)"

definition build_onboarding_payload :: "profile \<Rightarrow> prefs \<Rightarrow> onboarding_payload" where
  "build_onboarding_payload p pf =
     \<lparr>ob_real_name = js_or (real_name p) (nick p),
      ob_name = nick p,
      ob_age = age p,
      ob_gender = gender_of (gender p),
      ob_sido = js_or (case region p of Some (s, _) \<Rightarrow> s | None \<Rightarrow> []) (p_sido p),
      ob_sigungu = js_or (case region p of Some (_, g) \<Rightarrow> g | None \<Rightarrow> []) (p_sigungu p),
      ob_with_whom = with_whom_of (with_who p),
      ob_views = opt_or (pf_scenery pf) [],
      ob_styles = opt_or (pf_styles pf) [],
      ob_jobs = opt_or (pf_jobs pf) [],
      ob_requests = opt_or (pf_free pf) []\<rparr>"

subsection \<open>Router\<close>

datatype view = Onboard | Onboard2 | Onboard3 | Onboard4 | Onboard5 | Home | Chat

text \<open>\<open>location.hash.replace("#", "") || "onboard"\<close>: a string pattern replaces its first
  occurrence only.\<close>

fun drop_first_hash :: "string \<Rightarrow> string" where
  "drop_first_hash [] = []"
| "drop_first_hash (c # cs) = (if c = CHR ''#'' then cs else c # drop_first_hash cs)"

definition view_of_hash :: "string \<Rightarrow> string" where
  "view_of_hash h = js_or (drop_first_hash h) ''onboard''"

text \<open>\<open>(map[STATE.view] || renderHome)()\<close>.\<close>

definition render_view :: "string \<Rightarrow> view" where
  "render_view v =
     (if v = ''onboard'' then Onboard else if v = ''onboard2'' then Onboard2
      else if v = ''onboard3'' then Onboard3 else if v = ''onboard4'' then Onboard4
      else if v = ''onboard5'' then Onboard5 else if v = ''home'' then Home
      else if v = ''chat'' then Chat else Home)"

text \<open>\<open>navigate(v)\<close> sets \<open>location.hash = v\<close>, which reads back as \<open>"#" + v\<close> (for a
  non-empty \<open>v\<close>), and the \<open>hashchange\<close> listener recomputes the view from it.\<close>

definition view_name :: "view \<Rightarrow> string" where
  "view_name w = (case w of Onboard \<Rightarrow> ''onboard'' | Onboard2 \<Rightarrow> ''onboard2'' | Onboard3 \<Rightarrow> ''onboard3''
     | Onboard4 \<Rightarrow> ''onboard4'' | Onboard5 \<Rightarrow> ''onboard5'' | Home \<Rightarrow> ''home'' | Chat \<Rightarrow> ''chat'')"

definition hash_of_view :: "string \<Rightarrow> string" where
  "hash_of_view v = (if v = [] then [] else CHR ''#'' # v)"

text \<open>The companion box of the first screen with its first three labels and one active
  badge, and a form that uses it, for the witnesses.\<close>

definition demo_with_box :: badge_box where
  "demo_with_box = \<lparr>badge_labels = [[CHR 0xED, CHR 0x98, CHR 0xBC, CHR 0xEC, CHR 0x9E, CHR 0x90],
       [CHR 0xEC, CHR 0xB9, CHR 0x9C, CHR 0xEA, CHR 0xB5, CHR 0xAC, CHR 0xEC, CHR 0x99, CHR 0x80],
       ''partner''], badge_active = [False, True, False]\<rparr>"

definition demo_form1 :: "bool list \<Rightarrow> form1" where
  "demo_form1 act = \<lparr>f_nick = ''jh'', f_sido = ''Seoul'', f_sigungu = ''Gangnam'', f_age = ''24'',
     f_gender = Some ''F'', f_with = demo_with_box\<lparr>badge_active := act\<rparr>\<rparr>"

definition demo_profile :: profile where
  "demo_profile = \<lparr>real_name = [], nick = [], age = [], gender = [], region = None, p_sido = [],
     p_sigungu = [], with_who = None\<rparr>"

definition demo_prefs :: prefs where
  "demo_prefs = \<lparr>pf_scenery = None, pf_styles = None, pf_jobs = None, pf_free = None\<rparr>"

subsection \<open>Badge lemmas\<close>

lemma set_badge_values:
  "badge_wf b \<Longrightarrow>
   set (badge_values b) = {badge_labels b ! j |j. j < length (badge_labels b) \<and> badge_active b ! j}"
  unfolding badge_values_def badge_wf_def by (force simp: set_zip)

lemma badge_wf_click: "badge_wf b \<Longrightarrow> badge_wf (fst (badge_click b t))"
  by (auto simp: badge_click_def badge_wf_def Let_def split: option.splits)

lemma values_zip_subseq: "length bs = length ls \<Longrightarrow> subseq (map fst (filter snd (zip ls bs))) ls"
proof (induction ls arbitrary: bs)
  case Nil
  then show ?case by simp
next
  case (Cons l ls)
  then obtain c cs where bs: "bs = c # cs" and len: "length cs = length ls" by (cases bs) auto
  from Cons.IH [OF len] have "subseq (map fst (filter snd (zip ls cs))) ls" .
  with bs show ?case by (cases c) (simp_all add: list_emb_Cons)
qed

lemma filter_in_subseq: "subseq ys xs \<Longrightarrow> distinct xs \<Longrightarrow> filter (\<lambda>l. l \<in> set ys) xs = ys"
proof (induction ys xs rule: list_emb.induct)
  case (list_emb_Nil ys)
  then show ?case by simp
next
  case (list_emb_Cons xs ys y)
  from list_emb_Cons.hyps have "set xs \<subseteq> set ys" by (auto dest: list_emb_set)
  with list_emb_Cons.prems have "y \<notin> set xs" by auto
  with list_emb_Cons.IH list_emb_Cons.prems show ?case by simp
next
  case (list_emb_Cons2 x y xs ys)
  from list_emb_Cons2.prems list_emb_Cons2.hyps(1) have y: "y \<notin> set ys" "x = y" by simp_all
  then have "filter (\<lambda>l. l \<in> set (x # xs)) ys = filter (\<lambda>l. l \<in> set xs) ys"
    by (auto intro: filter_cong)
  with y list_emb_Cons2.IH list_emb_Cons2.prems show ?case by simp
qed

lemma setup_badges_values: "badge_values (setup_badges labels init) = filter (\<lambda>l. l \<in> set init) labels"
  unfolding badge_values_def setup_badges_def
  by (induction labels) auto

lemma badge_click_some:
  "i < length (badge_labels b) \<Longrightarrow>
   badge_click b (Some i) =
     (b\<lparr>badge_active := (badge_active b)[i := \<not> badge_active b ! i]\<rparr>,
      Some (badge_values (b\<lparr>badge_active := (badge_active b)[i := \<not> badge_active b ! i]\<rparr>)))"
  by (simp add: badge_click_def Let_def)

lemma distinct_nth_eq: "distinct xs \<Longrightarrow> i < length xs \<Longrightarrow> j < length xs \<Longrightarrow> xs ! j = xs ! i \<longleftrightarrow> j = i"
  by (simp add: nth_eq_iff_index_eq)

subsection \<open>Router lemmas\<close>

lemma drop_first_hash_cons [simp]: "drop_first_hash (CHR ''#'' # v) = v"
  by simp


subsection \<open>Properties\<close>

text \<open>C19: a click on a badge toggles exactly that badge: a second click on it restores
  the box, and the labels reported to \<open>onChange\<close> are the previous ones with the clicked
  label added or removed (the labels of a box are distinct).\<close>

theorem badge_click_toggles:
  assumes wf: "badge_wf b" and d: "distinct (badge_labels b)" and i: "i < length (badge_labels b)"
  shows "fst (badge_click (fst (badge_click b (Some i))) (Some i)) = b \<and>
         set (the (snd (badge_click b (Some i)))) =
           (if badge_labels b ! i \<in> set (badge_values b)
            then set (badge_values b) - {badge_labels b ! i}
            else insert (badge_labels b ! i) (set (badge_values b)))"
proof
  let ?b' = "b\<lparr>badge_active := (badge_active b)[i := \<not> badge_active b ! i]\<rparr>"
  have wf': "badge_wf ?b'" using wf by (simp add: badge_wf_def)
  have li: "i < length (badge_active b)" using wf i by (simp add: badge_wf_def)
  show "fst (badge_click (fst (badge_click b (Some i))) (Some i)) = b"
    using i li by (simp add: badge_click_some)
  have in_b: "badge_labels b ! i \<in> set (badge_values b) \<longleftrightarrow> badge_active b ! i"
    using wf d i by (auto simp: set_badge_values distinct_nth_eq)
  have "set (badge_values ?b') =
        {badge_labels b ! j |j. j < length (badge_labels b) \<and> (badge_active b)[i := \<not> badge_active b ! i] ! j}"
    using wf' by (simp add: set_badge_values)
  also have "\<dots> = (if badge_active b ! i then set (badge_values b) - {badge_labels b ! i}
                   else insert (badge_labels b ! i) (set (badge_values b)))"
    using wf d i li by (auto simp: set_badge_values distinct_nth_eq nth_list_update)
  finally show "set (the (snd (badge_click b (Some i)))) = (if badge_labels b ! i \<in> set (badge_values b)
            then set (badge_values b) - {badge_labels b ! i}
            else insert (badge_labels b ! i) (set (badge_values b)))"
    using i in_b by (simp add: badge_click_some)
qed

theorem badge_click_toggles_witness:
  "fst (badge_click (fst (badge_click demo_with_box (Some 2))) (Some 2)) = demo_with_box \<and>
   set (the (snd (badge_click demo_with_box (Some 2)))) =
     {[CHR 0xEC, CHR 0xB9, CHR 0x9C, CHR 0xEA, CHR 0xB5, CHR 0xAC, CHR 0xEC, CHR 0x99, CHR 0x80],
      ''partner''}"
  using badge_click_toggles [of demo_with_box 2]
  by (simp add: demo_with_box_def badge_wf_def badge_values_def insert_commute)

text \<open>The selection a box reports survives a re-render: restoring a box of distinct
  labels from the labels it reported (\<open>getInitial\<close>) activates exactly those badges.\<close>

theorem badge_restore_roundtrip:
  assumes "badge_wf b" and "distinct (badge_labels b)"
  shows "badge_values (setup_badges (badge_labels b) (badge_values b)) = badge_values b"
proof -
  have "subseq (badge_values b) (badge_labels b)"
    using assms(1) unfolding badge_values_def badge_wf_def by (rule values_zip_subseq)
  with assms(2) show ?thesis by (simp add: setup_badges_values filter_in_subseq)
qed

theorem badge_restore_roundtrip_witness:
  "badge_values (setup_badges (badge_labels demo_with_box) (badge_values demo_with_box)) =
   [[CHR 0xEC, CHR 0xB9, CHR 0x9C, CHR 0xEA, CHR 0xB5, CHR 0xAC, CHR 0xEC, CHR 0x99, CHR 0x80]]"
  using badge_restore_roundtrip [of demo_with_box]
  by (simp add: demo_with_box_def badge_wf_def badge_values_def)

text \<open>\<open>navigate\<close> and the \<open>hashchange\<close> listener agree: for every screen, navigating
  to its name and reading the view back from the URL hash renders that screen.\<close>

theorem navigate_roundtrip: "render_view (view_of_hash (hash_of_view (view_name w))) = w"
  by (cases w) (simp_all add: view_name_def hash_of_view_def view_of_hash_def render_view_def)

text \<open>C20 (divergence): the \<open>with_whom\<close> field sent to \<open>/api/onboarding\<close> is the first
  active companion badge, a string as the API document shows, except when no badge is
  active: then it is the empty array.\<close>

theorem with_whom_after_next1:
  assumes "list_all (\<lambda>l. l \<noteq> []) (badge_labels (f_with f))"
  shows "ob_with_whom (build_onboarding_payload (next1 p f) pf) =
         (case badge_values (f_with f) of [] \<Rightarrow> JArr [] | x # _ \<Rightarrow> JStr x)"
proof -
  have "set (badge_values (f_with f)) \<subseteq> set (badge_labels (f_with f))"
    by (auto simp: badge_values_def dest: set_zip_leftD)
  with assms show ?thesis
    by (cases "badge_values (f_with f)") (auto simp: build_onboarding_payload_def next1_def list_all_iff)
qed
theorem with_whom_after_next1_witness:
  "ob_with_whom (build_onboarding_payload (next1 demo_profile (demo_form1 [False, False, False])) demo_prefs) = JArr [] \<and>
   ob_with_whom (build_onboarding_payload (next1 demo_profile (demo_form1 [False, True, False])) demo_prefs) =
     JStr [CHR 0xEC, CHR 0xB9, CHR 0x9C, CHR 0xEA, CHR 0xB5, CHR 0xAC, CHR 0xEC, CHR 0x99, CHR 0x80]"
proof
  show "ob_with_whom (build_onboarding_payload (next1 demo_profile (demo_form1 [False, False, False])) demo_prefs) = JArr []"
    using with_whom_after_next1 [of "demo_form1 [False, False, False]" demo_profile demo_prefs]
    by (simp add: demo_form1_def demo_with_box_def badge_values_def)
  show "ob_with_whom (build_onboarding_payload (next1 demo_profile (demo_form1 [False, True, False])) demo_prefs) =
     JStr [CHR 0xEC, CHR 0xB9, CHR 0x9C, CHR 0xEA, CHR 0xB5, CHR 0xAC, CHR 0xEC, CHR 0x99, CHR 0x80]"
    using with_whom_after_next1 [of "demo_form1 [False, True, False]" demo_profile demo_prefs]
    by (simp add: demo_form1_def demo_with_box_def badge_values_def)
qed

end
