(* ===== verification/Engine.thy ===== *)
theory Engine
  imports Session Onboarding
begin

text \<open>
  The engine transport of the front end (src/unnamed/part_000) and the handlers that
  call it with a user id:
  \<^item> \<open>loadConfig\<close> (lines 62-72), which caches \<open>config.json\<close> in \<open>STATE.config\<close> and
    throws when it cannot be fetched;
  \<^item> the URL computation of the \<open>callEngine\<close> in force (lines 338-340), which reads
    \<open>cfg.endpoints[kind]\<close> outside its \<open>try\<close> block and so throws a \<open>TypeError\<close> when
    \<open>config.json\<close> has no \<open>endpoints\<close> object; the request itself and its \<open>mockPlan\<close>
    fallback are \<open>Session.call_engine\<close>;
  \<^item> \<open>sendOnboardingAndGetUserId\<close> (lines 139-160) and the lazy
    \<open>if (!STATE.user_id) await sendOnboardingAndGetUserId()\<close> that opens
    \<open>createScheduleWithUser\<close> and \<open>sendScheduleFeedback\<close> (lines 404, 429);
  \<^item> the \<open>makePlan\<close> click handler (lines 712-757) and \<open>handleScheduleFeedback\<close>
    (lines 1242-1264), whose \<open>catch\<close> blocks choose a message from \<open>e.message\<close>.
  A handler is a function from the application state to the new state and the
  outcome of its promise, \<open>Inl\<close> the message of the exception it rejects with: state
  written before an exception stays written, as in the code. The network is an input:
  the answer to the \<open>config.json\<close> request (the same for every \<open>loadConfig\<close> of one
  handler), the onboarding answer, the current time for the local user id, and the
  engine answer of \<open>Session\<close>.
\<close>

subsection \<open>Configuration\<close>

record engine_config =
  base_url :: string
  endpoints :: "(string \<Rightarrow> string option) option"

datatype cfg_fetch = CfgOk engine_config | CfgHttp nat | CfgNetError

text \<open>The message of the \<open>TypeError\<close> a failed \<open>fetch\<close> rejects with.\<close>

definition FETCH_FAILED :: string where
  "FETCH_FAILED = ''Failed to fetch''"

definition load_config :: "engine_config option \<Rightarrow> cfg_fetch \<Rightarrow> string + engine_config" where
  "load_config cached f =
     (case cached of
        Some c \<Rightarrow> Inr c
      | None \<Rightarrow> (case f of
                  CfgOk c \<Rightarrow> Inr c
                | CfgHttp n \<Rightarrow> Inl (''config.json load failed: '' @ nat_str n)
                | CfgNetError \<Rightarrow> Inl FETCH_FAILED))"

text \<open>\<open>cfg.baseURL + (cfg.endpoints[kind] || "/" + kind)\<close>; indexing a missing
  \<open>endpoints\<close> object throws.\<close>

definition type_error_msg :: "string \<Rightarrow> string" where
  "type_error_msg kind =
     ''Cannot read properties of undefined (reading '' @ [CHR 0x27] @ kind @ [CHR 0x27, CHR '')'']"

definition engine_url :: "engine_config \<Rightarrow> string \<Rightarrow> string + string" where
  "engine_url cfg kind =
     (case endpoints cfg of
        None \<Rightarrow> Inl (type_error_msg kind)
      | Some m \<Rightarrow> Inr (base_url cfg @ js_or (opt_or (m kind) []) (''/'' @ kind)))"

subsection \<open>Application state\<close>

text \<open>The part of \<open>STATE\<close> the engine handlers touch beyond the schedule session:
  \<open>user_id\<close> and the cached \<open>config\<close>.\<close>

record app =
  app_session :: session
  app_user_id :: "string option"
  app_config :: "engine_config option"

definition load_config_st :: "app \<Rightarrow> cfg_fetch \<Rightarrow> app \<times> (string + engine_config)" where
  "load_config_st a f =
     (case load_config (app_config a) f of
        Inl e \<Rightarrow> (a, Inl e)
      | Inr c \<Rightarrow> (a\<lparr>app_config := Some c\<rparr>, Inr c))"

subsection \<open>sendOnboardingAndGetUserId\<close>

text \<open>The onboarding answer: a reply with its \<open>user_id\<close> field (empty when missing), or a
  failure, which \<open>callEngine\<close> turns into \<open>mockPlan\<close>, an object without \<open>user_id\<close>.\<close>

datatype onboard_outcome = OnboardReply string | OnboardFailed

definition has_onboarding :: "engine_config \<Rightarrow> bool" where
  "has_onboarding cfg \<longleftrightarrow>
     (case endpoints cfg of None \<Rightarrow> False | Some m \<Rightarrow> opt_or (m ''onboarding'') [] \<noteq> [])"

definition NO_USER_ID_MSG :: string where
  "NO_USER_ID_MSG = ''onboarding API returned no user_id''"

definition send_onboarding :: "engine_config \<Rightarrow> string option \<Rightarrow> onboard_outcome \<Rightarrow> nat \<Rightarrow> string + string" where
  "send_onboarding cfg uid out now =
     (if has_onboarding cfg then
        (case out of
           OnboardReply u \<Rightarrow> if u \<noteq> [] then Inr u else Inl NO_USER_ID_MSG
         | OnboardFailed \<Rightarrow> Inl NO_USER_ID_MSG)
      else Inr (js_or (opt_or uid []) (''local_'' @ nat_str now)))"

definition send_onboarding_st :: "app \<Rightarrow> cfg_fetch \<Rightarrow> onboard_outcome \<Rightarrow> nat \<Rightarrow> app \<times> (string + string)" where
  "send_onboarding_st a f out now =
     (case load_config_st a f of
        (a1, Inl e) \<Rightarrow> (a1, Inl e)
      | (a1, Inr cfg) \<Rightarrow>
          (case send_onboarding cfg (app_user_id a1) out now of
             Inl e \<Rightarrow> (a1, Inl e)
           | Inr u \<Rightarrow> (a1\<lparr>app_user_id := Some u\<rparr>, Inr u)))"

text \<open>\<open>if (!STATE.user_id) await sendOnboardingAndGetUserId();\<close>\<close>

definition ensure_user :: "app \<Rightarrow> cfg_fetch \<Rightarrow> onboard_outcome \<Rightarrow> nat \<Rightarrow> app \<times> (string + unit)" where
  "ensure_user a f out now =
     (if opt_or (app_user_id a) [] \<noteq> [] then (a, Inr ())
      else (case send_onboarding_st a f out now of
              (a1, Inl e) \<Rightarrow> (a1, Inl e)
            | (a1, Inr _) \<Rightarrow> (a1, Inr ())))"

subsection \<open>Schedule requests with a user\<close>

text \<open>\<open>callEngine(kind, body)\<close>: \<open>loadConfig\<close> and the URL may throw; the request
  itself cannot, since its failures become \<open>mockPlan\<close>.\<close>

definition call_engine_st :: "app \<Rightarrow> cfg_fetch \<Rightarrow> string \<Rightarrow> string \<Rightarrow> engine_outcome \<Rightarrow>
                              app \<times> (string + sched_resp)" where
  "call_engine_st a f kind d out =
     (case load_config_st a f of
        (a1, Inl e) \<Rightarrow> (a1, Inl e)
      | (a1, Inr cfg) \<Rightarrow>
          (a1, case engine_url cfg kind of Inl e \<Rightarrow> Inl e | Inr _ \<Rightarrow> Inr (call_engine d out)))"

text \<open>\<open>createScheduleWithUser\<close> and \<open>sendScheduleFeedback\<close>: the user id first, then the
  request, then the response handling of \<open>Session.apply_schedule\<close>.\<close>

definition schedule_request :: "string \<Rightarrow> app \<Rightarrow> cfg_fetch \<Rightarrow> onboard_outcome \<Rightarrow> nat \<Rightarrow> string \<Rightarrow>
                                engine_outcome \<Rightarrow> app \<times> (string + sched_resp)" where
  "schedule_request kind a f oo now d out =
     (case ensure_user a f oo now of
        (a1, Inl e) \<Rightarrow> (a1, Inl e)
      | (a1, Inr _) \<Rightarrow>
          (case call_engine_st a1 f kind d out of
             (a2, Inl e) \<Rightarrow> (a2, Inl e)
           | (a2, Inr r) \<Rightarrow> (a2\<lparr>app_session := apply_schedule (app_session a2) r\<rparr>, Inr r)))"

definition create_schedule_with_user where
  "create_schedule_with_user = schedule_request ''plan''"

definition send_schedule_feedback where
  "send_schedule_feedback = schedule_request ''revise''"

subsection \<open>The catch blocks\<close>

text \<open>The three messages of the \<open>makePlan\<close> and \<open>handleScheduleFeedback\<close> catch blocks:
  a server-response error when the message mentions \<open>"Invalid JSON"\<close>, a connection
  error when it mentions \<open>"HTTP"\<close>, a generic failure otherwise.\<close>

datatype error_notice = ServerResponseError | ConnectionError | GenericFailure

definition error_notice_of :: "string \<Rightarrow> error_notice" where
  "error_notice_of m =
     (if js_includes m ''Invalid JSON'' then ServerResponseError
      else if js_includes m ''HTTP'' then ConnectionError else GenericFailure)"

text \<open>The \<open>#makePlan\<close> click (lines 712-757): on success \<open>chatStage = "table"\<close> and the
  table is rendered; on an exception the notice is shown and the button re-enabled.\<close>

definition make_plan_click :: "app \<Rightarrow> cfg_fetch \<Rightarrow> onboard_outcome \<Rightarrow> nat \<Rightarrow> string \<Rightarrow>
                               engine_outcome \<Rightarrow> app \<times> error_notice option" where
  "make_plan_click a f oo now d out =
     (case create_schedule_with_user a f oo now d out of
        (a1, Inr _) \<Rightarrow> (a1\<lparr>app_session := (app_session a1)\<lparr>chat_stage := StageTable\<rparr>\<rparr>, None)
      | (a1, Inl e) \<Rightarrow> (a1, Some (error_notice_of e)))"

text \<open>\<open>handleScheduleFeedback\<close> (lines 1242-1264), which the chat input calls in the table
  stage.\<close>

definition handle_schedule_feedback :: "app \<Rightarrow> cfg_fetch \<Rightarrow> onboard_outcome \<Rightarrow> nat \<Rightarrow> string \<Rightarrow>
                                        engine_outcome \<Rightarrow> app \<times> error_notice option" where
  "handle_schedule_feedback a f oo now d out =
     (case send_schedule_feedback a f oo now d out of
        (a1, Inr _) \<Rightarrow> (a1, None)
      | (a1, Inl e) \<Rightarrow> (a1, Some (error_notice_of e)))"

text \<open>The messages the schedule requests can reject with.\<close>

definition engine_error :: "string \<Rightarrow> string \<Rightarrow> bool" where
  "engine_error kind e \<longleftrightarrow>
     e = NO_USER_ID_MSG \<or> e = FETCH_FAILED \<or> e = type_error_msg kind \<or>
     (\<exists>n. e = ''config.json load failed: '' @ nat_str n)"

text \<open>A configuration with the given \<open>endpoints\<close> object and a fresh application state,
  for the witnesses.\<close>

definition demo_config :: "(string \<Rightarrow> string option) option \<Rightarrow> engine_config" where
  "demo_config eps = \<lparr>base_url = ''http://localhost:8000'', endpoints = eps\<rparr>"

definition demo_app :: app where
  "demo_app = \<lparr>app_session = demo_session, app_user_id = None, app_config = None\<rparr>"

definition demo_cfg_onb :: engine_config where
  "demo_cfg_onb = demo_config (Some [''onboarding'' \<mapsto> ''/api/onboarding'', ''plan'' \<mapsto> ''/api/schedule/with-user''])"

definition demo_cfg_local :: engine_config where
  "demo_cfg_local = demo_config (Some [''plan'' \<mapsto> ''/api/schedule/with-user''])"

definition demo_user_app :: app where
  "demo_user_app = demo_app\<lparr>app_user_id := Some ''user_1693498765'', app_config := Some demo_cfg_local\<rparr>"



lemma nat_str_no_letter: "c \<in> set (nat_str n) \<Longrightarrow> of_char c < (58::nat)"
proof (induction n rule: nat_str.induct)
  case (1 n)
  have d: "of_char (char_of (48 + k) :: char) < (58::nat)" if "k < 10" for k :: nat
    using that by (simp add: of_char_of)
  show ?case
  proof (cases "n < 10")
    case True
    with "1.prems" show ?thesis by (simp add: nat_str.simps d)
  next
    case False
    with "1.prems" "1.IH" show ?thesis by (auto simp: nat_str.simps [of n] d)
  qed
qed

lemma load_config_err:
  "load_config c f = Inl e \<Longrightarrow> e = FETCH_FAILED \<or> (\<exists>n. e = ''config.json load failed: '' @ nat_str n)"
  by (auto simp: load_config_def split: option.splits cfg_fetch.splits)

lemma load_config_cached [simp]: "load_config (Some c) f = Inr c"
  by (simp add: load_config_def)

lemma load_config_st_Inl: "load_config (app_config a) f = Inl e \<Longrightarrow> load_config_st a f = (a, Inl e)"
  by (simp add: load_config_st_def)

lemma load_config_st_Inr:
  "load_config (app_config a) f = Inr c \<Longrightarrow> load_config_st a f = (a\<lparr>app_config := Some c\<rparr>, Inr c)"
  by (simp add: load_config_st_def)

lemma load_config_engine_error: "load_config c f = Inl e \<Longrightarrow> engine_error kind e"
  unfolding engine_error_def by (blast dest: load_config_err)

lemma ensure_user_err: "snd (ensure_user a f oo now) = Inl e \<Longrightarrow> engine_error kind e"
proof (cases "load_config (app_config a) f")
  case (Inl e')
  moreover assume "snd (ensure_user a f oo now) = Inl e"
  ultimately show ?thesis
    by (auto simp: ensure_user_def send_onboarding_st_def load_config_st_Inl
             intro: load_config_engine_error split: if_splits)
next
  case (Inr c)
  moreover assume "snd (ensure_user a f oo now) = Inl e"
  ultimately show ?thesis
    by (auto simp: ensure_user_def send_onboarding_st_def load_config_st_Inr send_onboarding_def
                   engine_error_def split: sum.splits if_splits onboard_outcome.splits)
qed

lemma call_engine_st_err: "snd (call_engine_st a f kind d out) = Inl e \<Longrightarrow> engine_error kind e"
proof (cases "load_config (app_config a) f")
  case (Inl e')
  moreover assume "snd (call_engine_st a f kind d out) = Inl e"
  ultimately show ?thesis
    by (auto simp: call_engine_st_def load_config_st_Inl intro: load_config_engine_error)
next
  case (Inr c)
  moreover assume "snd (call_engine_st a f kind d out) = Inl e"
  ultimately show ?thesis
    by (auto simp: call_engine_st_def load_config_st_Inr engine_url_def engine_error_def
             split: sum.splits option.splits)
qed

lemma schedule_request_err:
  "snd (schedule_request kind a f oo now d out) = Inl e \<Longrightarrow> engine_error kind e"
proof -
  assume err: "snd (schedule_request kind a f oo now d out) = Inl e"
  obtain a1 r1 where u: "ensure_user a f oo now = (a1, r1)" by fastforce
  show ?thesis
  proof (cases r1)
    case (Inl e1)
    with u err have "snd (ensure_user a f oo now) = Inl e" by (simp add: schedule_request_def)
    then show ?thesis by (rule ensure_user_err)
  next
    case (Inr x)
    obtain a2 r2 where c: "call_engine_st a1 f kind d out = (a2, r2)" by fastforce
    with u Inr err have "snd (call_engine_st a1 f kind d out) = Inl e"
      by (auto simp: schedule_request_def split: sum.splits)
    then show ?thesis by (rule call_engine_st_err)
  qed
qed

lemma no_upper_H_I: "CHR ''H'' \<notin> set e \<Longrightarrow> CHR ''I'' \<notin> set e \<Longrightarrow> error_notice_of e = GenericFailure"
  by (auto simp: error_notice_of_def dest: js_includes_hd)

lemma cfg_msg_notice: "error_notice_of (''config.json load failed: '' @ nat_str n) = GenericFailure"
proof (rule no_upper_H_I)
  have "of_char (CHR ''H'') = (72::nat)" "of_char (CHR ''I'') = (73::nat)" by simp_all
  then show "CHR ''H'' \<notin> set (''config.json load failed: '' @ nat_str n)"
       "CHR ''I'' \<notin> set (''config.json load failed: '' @ nat_str n)"
    using nat_str_no_letter [of "CHR ''H''" n] nat_str_no_letter [of "CHR ''I''" n] by auto
qed

lemma schedule_request_notice:
  "kind \<in> {''plan'', ''revise''} \<Longrightarrow> snd (schedule_request kind a f oo now d out) = Inl e \<Longrightarrow>
   error_notice_of e = GenericFailure"
proof -
  assume k: "kind \<in> {''plan'', ''revise''}" "snd (schedule_request kind a f oo now d out) = Inl e"
  from k(2) have "engine_error kind e" by (rule schedule_request_err)
  then consider "e = NO_USER_ID_MSG" | "e = FETCH_FAILED" | "e = type_error_msg kind"
    | n where "e = ''config.json load failed: '' @ nat_str n"
    unfolding engine_error_def by blast
  then show ?thesis
  proof cases
    case (4 n)
    then show ?thesis using cfg_msg_notice [of n] by simp
  qed (use k(1) in \<open>auto simp: NO_USER_ID_MSG_def FETCH_FAILED_def type_error_msg_def
                           error_notice_of_def js_includes_def\<close>)
qed


lemma ensure_user_known: "opt_or (app_user_id a) [] \<noteq> [] \<Longrightarrow> ensure_user a f oo now = (a, Inr ())"
  by (simp add: ensure_user_def)

lemma ensure_user_local:
  "opt_or (app_user_id a) [] = [] \<Longrightarrow> load_config (app_config a) f = Inr cfg \<Longrightarrow>
   \<not> has_onboarding cfg \<Longrightarrow>
   ensure_user a f oo now =
     (a\<lparr>app_config := Some cfg, app_user_id := Some (''local_'' @ nat_str now)\<rparr>, Inr ())"
  by (simp add: ensure_user_def send_onboarding_st_def load_config_st_Inr send_onboarding_def)

lemma call_engine_st_ok:
  "app_config a = Some cfg \<Longrightarrow> endpoints cfg \<noteq> None \<Longrightarrow>
   call_engine_st a f kind d out = (a, Inr (call_engine d out))"
  by (auto simp: call_engine_st_def load_config_st_Inr engine_url_def)

lemma call_engine_st_no_endpoints:
  "app_config a = Some cfg \<Longrightarrow> endpoints cfg = None \<Longrightarrow>
   call_engine_st a f kind d out = (a, Inl (type_error_msg kind))"
  by (auto simp: call_engine_st_def load_config_st_Inr engine_url_def)

subsection \<open>Properties\<close>

text \<open>C21 (defect): the \<open>makePlan\<close> and \<open>handleScheduleFeedback\<close> catch blocks only ever
  show the generic failure notice: no exception that reaches them mentions
  \<open>"Invalid JSON"\<close> or \<open>"HTTP"\<close>, because the \<open>callEngine\<close> in force answers failed requests
  with \<open>mockPlan\<close>; the server-response and connection notices are dead code.\<close>

theorem catch_blocks_generic_only:
  "snd (make_plan_click a f oo now d out) \<in> {None, Some GenericFailure} \<and>
   snd (handle_schedule_feedback a f oo now d out) \<in> {None, Some GenericFailure}"
proof
  show "snd (make_plan_click a f oo now d out) \<in> {None, Some GenericFailure}"
    using schedule_request_notice [of "''plan''" a f oo now d out]
    by (auto simp: make_plan_click_def create_schedule_with_user_def split: prod.splits sum.splits)
  show "snd (handle_schedule_feedback a f oo now d out) \<in> {None, Some GenericFailure}"
    using schedule_request_notice [of "''revise''" a f oo now d out]
    by (auto simp: handle_schedule_feedback_def send_schedule_feedback_def split: prod.splits sum.splits)
qed

text \<open>C22: once the user id is known and \<open>config.json\<close> is loaded with an \<open>endpoints\<close>
  object, the \<open>makePlan\<close> click and \<open>handleScheduleFeedback\<close> act on the schedule session
  exactly as \<open>Session.make_plan\<close> and \<open>Session.send_feedback\<close>: the session model is
  refined by the handlers with their transport.\<close>

theorem engine_handlers_refine_session:
  assumes "opt_or (app_user_id a) [] \<noteq> []" and "app_config a = Some cfg" and "endpoints cfg \<noteq> None"
  shows "make_plan_click a f oo now d out = (a\<lparr>app_session := make_plan (app_session a) d out\<rparr>, None) \<and>
         handle_schedule_feedback a f oo now d out =
           (a\<lparr>app_session := send_feedback (app_session a) d out\<rparr>, None)"
  using assms
  by (simp add: make_plan_click_def handle_schedule_feedback_def create_schedule_with_user_def
                send_schedule_feedback_def schedule_request_def ensure_user_known call_engine_st_ok
                make_plan_def create_schedule_def send_feedback_def)

theorem engine_handlers_refine_session_witness:
  "make_plan_click demo_user_app CfgNetError OnboardFailed 0 ''2025-10-03'' Failed =
     (demo_user_app\<lparr>app_session := make_plan demo_session ''2025-10-03'' Failed\<rparr>, None) \<and>
   handle_schedule_feedback demo_user_app CfgNetError OnboardFailed 0 ''2025-10-03'' Failed =
     (demo_user_app\<lparr>app_session := send_feedback demo_session ''2025-10-03'' Failed\<rparr>, None)"
  using engine_handlers_refine_session [of demo_user_app demo_cfg_local CfgNetError OnboardFailed 0
          "''2025-10-03''" Failed]
  by (simp add: demo_user_app_def demo_app_def demo_cfg_local_def demo_config_def)

text \<open>C23: without a user id and with an onboarding endpoint, a failed onboarding request
  stops the plan request: the session is left unchanged (only the configuration is
  cached) and the generic notice is shown.\<close>

theorem onboarding_failure_blocks_plan:
  assumes "opt_or (app_user_id a) [] = []" and "load_config (app_config a) f = Inr cfg"
    and "has_onboarding cfg"
  shows "make_plan_click a f OnboardFailed now d out = (a\<lparr>app_config := Some cfg\<rparr>, Some GenericFailure)"
  using assms
  by (simp add: make_plan_click_def create_schedule_with_user_def schedule_request_def ensure_user_def
                send_onboarding_st_def load_config_st_Inr send_onboarding_def NO_USER_ID_MSG_def
                error_notice_of_def js_includes_def)

theorem onboarding_failure_blocks_plan_witness:
  "make_plan_click demo_app (CfgOk demo_cfg_onb) OnboardFailed 0 ''2025-10-03'' (Reply demo_reply) =
     (demo_app\<lparr>app_config := Some demo_cfg_onb\<rparr>, Some GenericFailure)"
  using onboarding_failure_blocks_plan [of demo_app "CfgOk demo_cfg_onb" demo_cfg_onb 0
          "''2025-10-03''" "Reply demo_reply"]
  by (simp add: demo_app_def demo_cfg_onb_def demo_config_def has_onboarding_def load_config_def)

text \<open>Without an onboarding endpoint, the first plan request registers the local user
  id \<open>local_<time>\<close> and then runs as \<open>Session.make_plan\<close>.\<close>

theorem local_user_id_registered:
  assumes "opt_or (app_user_id a) [] = []" and "load_config (app_config a) f = Inr cfg"
    and "\<not> has_onboarding cfg" and "endpoints cfg \<noteq> None"
  shows "make_plan_click a f oo now d out =
           (a\<lparr>app_config := Some cfg, app_user_id := Some (''local_'' @ nat_str now),
              app_session := make_plan (app_session a) d out\<rparr>, None)"
  using assms
  by (simp add: make_plan_click_def create_schedule_with_user_def schedule_request_def
                ensure_user_local call_engine_st_ok make_plan_def create_schedule_def)

theorem local_user_id_registered_witness:
  "make_plan_click demo_app (CfgOk demo_cfg_local) OnboardFailed 1759190400 ''2025-10-03'' Failed =
     (demo_app\<lparr>app_config := Some demo_cfg_local, app_user_id := Some (''local_'' @ nat_str 1759190400),
        app_session := make_plan demo_session ''2025-10-03'' Failed\<rparr>, None)"
  using local_user_id_registered [of demo_app "CfgOk demo_cfg_local" demo_cfg_local OnboardFailed
          1759190400 "''2025-10-03''" Failed]
  by (simp add: demo_app_def demo_cfg_local_def demo_config_def has_onboarding_def load_config_def)

text \<open>C24 (error path): with a \<open>config.json\<close> that has no \<open>endpoints\<close> object, the plan
  request throws a \<open>TypeError\<close> after the local user id has been stored: the exception
  leaves that write in place, the schedule session is untouched, and the notice is the
  generic one.\<close>

theorem missing_endpoints_keeps_user_id:
  assumes "opt_or (app_user_id a) [] = []" and "load_config (app_config a) f = Inr cfg"
    and "endpoints cfg = None"
  shows "make_plan_click a f oo now d out =
           (a\<lparr>app_config := Some cfg, app_user_id := Some (''local_'' @ nat_str now)\<rparr>,
            Some GenericFailure)"
proof -
  have "\<not> has_onboarding cfg" using assms(3) by (simp add: has_onboarding_def)
  with assms show ?thesis
    by (simp add: make_plan_click_def create_schedule_with_user_def schedule_request_def
                  ensure_user_local call_engine_st_no_endpoints type_error_msg_def
                  error_notice_of_def js_includes_def)
qed
theorem missing_endpoints_keeps_user_id_witness:
  "make_plan_click demo_app (CfgOk (demo_config None)) OnboardFailed 1759190400 ''2025-10-03'' Failed =
     (demo_app\<lparr>app_config := Some (demo_config None),
        app_user_id := Some (''local_'' @ nat_str 1759190400)\<rparr>, Some GenericFailure)"
  using missing_endpoints_keeps_user_id [of demo_app "CfgOk (demo_config None)" "demo_config None"
          OnboardFailed 1759190400 "''2025-10-03''" Failed]
  by (simp add: demo_app_def demo_config_def load_config_def)

end
