(* ===== verification/Service_Worker.thy ===== *)
theory Service_Worker
  imports Prelude
begin

text \<open>
  The service worker of the app shell (src/public/frontend/app_show_v3/service-worker.js).
  On \<open>install\<close> it opens the cache \<open>ims-app-v2\<close> and adds the six shell assets with
  \<open>cache.addAll\<close>, which stores all of them or, when one request fails, none and rejects the
  installation; \<open>activate\<close> only claims the clients; \<open>fetch\<close> answers every request from
  the cache and falls back on the network (\<open>caches.match(req).then(r => r || fetch(req))\<close>).
  The network is a partial map from URL to response body, \<open>None\<close> a failed request; the
  caches are a map from cache name to a map from URL to response.
\<close>

type_synonym network = "string \<Rightarrow> string option"
type_synonym sw_caches = "string \<Rightarrow> (string \<Rightarrow> string option) option"

definition CACHE :: string where
  "CACHE = ''ims-app-v2''"

definition ASSETS :: "string list" where
  "ASSETS = [''./'', ''./index.html'', ''./css/style.css'', ''./js/app.js'', ''./config.json'',
             ''./manifest.webmanifest'']"

text \<open>\<open>cache.addAll(urls)\<close>: every response or nothing.\<close>

fun fetch_all :: "network \<Rightarrow> string list \<Rightarrow> (string \<times> string) list option" where
  "fetch_all net [] = Some []"
| "fetch_all net (u # us) =
     (case net u of
        None \<Rightarrow> None
      | Some r \<Rightarrow> (case fetch_all net us of None \<Rightarrow> None | Some rs \<Rightarrow> Some ((u, r) # rs)))"

definition cache_add_all :: "(string \<Rightarrow> string option) \<Rightarrow> network \<Rightarrow> string list \<Rightarrow>
                             (string \<Rightarrow> string option) option" where
  "cache_add_all c net us = map_option (\<lambda>rs. c ++ map_of (rev rs)) (fetch_all net us)"

text \<open>The \<open>install\<close> handler: \<open>None\<close> when \<open>waitUntil\<close>'s promise rejects and the worker is
  not installed.\<close>

definition sw_install :: "sw_caches \<Rightarrow> network \<Rightarrow> sw_caches option" where
  "sw_install cs net =
     map_option (\<lambda>c. cs(CACHE \<mapsto> c)) (cache_add_all (opt_or (cs CACHE) Map.empty) net ASSETS)"

text \<open>\<open>caches.match(req)\<close> searches every cache (in creation order; there is only one here).\<close>

definition sw_match :: "sw_caches \<Rightarrow> string \<Rightarrow> string option" where
  "sw_match cs u = (case cs CACHE of None \<Rightarrow> None | Some c \<Rightarrow> c u)"

definition sw_fetch :: "sw_caches \<Rightarrow> network \<Rightarrow> string \<Rightarrow> string option" where
  "sw_fetch cs net u = (case sw_match cs u of Some r \<Rightarrow> Some r | None \<Rightarrow> net u)"

definition demo_net :: "string \<Rightarrow> network" where
  "demo_net v u = (if u = ''./config.json'' then Some v else if u \<in> set ASSETS then Some u else None)"

subsection \<open>Lemmas\<close>

lemma fetch_all_None: "fetch_all net us = None \<longleftrightarrow> (\<exists>u\<in>set us. net u = None)"
  by (induction us) (auto split: option.splits)

lemma fetch_all_Some:
  "fetch_all net us = Some rs \<Longrightarrow> map fst rs = us \<and> (\<forall>(u, r)\<in>set rs. net u = Some r)"
  by (induction us arbitrary: rs) (auto split: option.splits)

lemma map_of_fetched:
  assumes "fetch_all net us = Some rs"
  shows "map_of (rev rs) u = (if u \<in> set us then net u else None)"
proof -
  from fetch_all_Some [OF assms] have keys: "map fst rs = us"
    and vals: "\<forall>(u, r)\<in>set rs. net u = Some r" by simp_all
  show ?thesis
  proof (cases "map_of (rev rs) u")
    case None
    then have "u \<notin> fst ` set rs" by (simp add: map_of_eq_None_iff)
    with keys None show ?thesis by (metis list.set_map)
  next
    case (Some r)
    then have "(u, r) \<in> set rs" using map_of_SomeD by fastforce
    with keys vals Some show ?thesis by force
  qed
qed

lemma sw_install_Some:
  "sw_install cs net = Some cs' \<Longrightarrow>
   \<exists>rs. fetch_all net ASSETS = Some rs \<and> cs' = cs(CACHE \<mapsto> opt_or (cs CACHE) Map.empty ++ map_of (rev rs))"
  by (auto simp: sw_install_def cache_add_all_def)

subsection \<open>Properties\<close>

text \<open>C25 (defect): every shell asset, \<open>config.json\<close> and \<open>js/app.js\<close> included, is
  served as it was when the worker was installed, whatever the network answers later: the
  fetch handler is cache-first, the cache name is fixed and \<open>activate\<close> never replaces
  the cache, so a changed configuration or script does not reach an installed client.\<close>

theorem assets_pinned_at_install:
  assumes "sw_install cs net0 = Some cs'" and "u \<in> set ASSETS"
  shows "sw_fetch cs' net1 u = net0 u"
proof -
  from sw_install_Some [OF assms(1)] obtain rs where f: "fetch_all net0 ASSETS = Some rs"
    and cs': "cs' = cs(CACHE \<mapsto> opt_or (cs CACHE) Map.empty ++ map_of (rev rs))" by blast
  from f assms(2) fetch_all_None [of net0 ASSETS] have "net0 u \<noteq> None" by auto
  with map_of_fetched [OF f, of u] assms(2) cs' show ?thesis
    by (auto simp: sw_fetch_def sw_match_def map_add_Some_iff)
qed

theorem assets_pinned_at_install_witness:
  "sw_install Map.empty (demo_net ''v1'') \<noteq> None \<and>
   sw_fetch (the (sw_install Map.empty (demo_net ''v1''))) (demo_net ''v2'') ''./config.json'' = Some ''v1''"
proof
  show i: "sw_install Map.empty (demo_net ''v1'') \<noteq> None"
    by (simp add: sw_install_def cache_add_all_def ASSETS_def demo_net_def)
  then obtain cs' where "sw_install Map.empty (demo_net ''v1'') = Some cs'" by blast
  moreover have "''./config.json'' \<in> set ASSETS" by (simp add: ASSETS_def)
  ultimately show "sw_fetch (the (sw_install Map.empty (demo_net ''v1''))) (demo_net ''v2'') ''./config.json'' = Some ''v1''"
    using assets_pinned_at_install [of Map.empty "demo_net ''v1''" cs' "''./config.json''" "demo_net ''v2''"]
    by (simp add: demo_net_def)
qed

text \<open>Installation is all or nothing: it fails exactly when one of the six shell
  assets cannot be fetched, and then no cache is written.\<close>

theorem sw_install_atomic:
  "sw_install cs net = None \<longleftrightarrow> (\<exists>u\<in>set ASSETS. net u = None)"
  by (simp add: sw_install_def cache_add_all_def fetch_all_None)

text \<open>After a first installation, every request for something other than a shell
  asset (the engine API calls in particular) goes to the network.\<close>

theorem fresh_install_passes_through:
  assumes "sw_install Map.empty net0 = Some cs'" and "u \<notin> set ASSETS"
  shows "sw_fetch cs' net1 u = net1 u"
proof -
  from sw_install_Some [OF assms(1)] obtain rs where f: "fetch_all net0 ASSETS = Some rs"
    and cs': "cs' = [CACHE \<mapsto> Map.empty ++ map_of (rev rs)]" by auto
  with map_of_fetched [OF f, of u] assms(2) show ?thesis
    by (simp add: sw_fetch_def sw_match_def)
qed

theorem fresh_install_passes_through_witness:
  "sw_install Map.empty (demo_net ''v1'') \<noteq> None \<and>
   sw_fetch (the (sw_install Map.empty (demo_net ''v1''))) (\<lambda>u. Some ''engine'') ''/api/schedule/with-user'' =
     Some ''engine''"
proof
  show i: "sw_install Map.empty (demo_net ''v1'') \<noteq> None"
    by (simp add: sw_install_def cache_add_all_def ASSETS_def demo_net_def)
  then obtain cs' where "sw_install Map.empty (demo_net ''v1'') = Some cs'" by blast
  moreover have "''/api/schedule/with-user'' \<notin> set ASSETS" by (simp add: ASSETS_def)
  ultimately show "sw_fetch (the (sw_install Map.empty (demo_net ''v1''))) (\<lambda>u. Some ''engine'')
      ''/api/schedule/with-user'' = Some ''engine''"
    using fresh_install_passes_through [of "demo_net ''v1''" cs' "''/api/schedule/with-user''"
            "\<lambda>u. Some ''engine''"]
    by simp
qed

end
