(* ===== verification/Persistence.thy ===== *)
theory Persistence
  imports Engine
begin

text \<open>
  Local persistence of the front end (src/unnamed/part_000): \<open>saveState\<close> (lines 188-201)
  writes nine local-storage keys, and the initialiser of \<open>STATE\<close> (lines 43-60, with the
  \<open>selections\<close> default of line 785) reads them back on a page load.
  A stored key holds \<open>JSON.stringify\<close> of a value; \<open>JSON.parse\<close> gives the value back
  for the plain data of the model, except that an array keeps only its elements
  (\<open>Session.persist_cal\<close>). A key is \<open>None\<close> while it was never written. The string keys
  \<open>ims_user_id\<close> and \<open>ims_itinerary_id\<close> are stored as \<open>value || ""\<close> and read as
  \<open>getItem(key) || null\<close>. \<open>STATE.history\<close> is read and written unchanged and never
  updated by the code, so it is left out.
\<close>

subsection \<open>The state that is saved and loaded\<close>

text \<open>\<open>STATE\<close> as the front end holds it: the engine-side state of \<open>Engine.app\<close>, the
  card-selection state of \<open>Cards\<close>, the onboarding profile and preferences, and the view.\<close>

record ui_state =
  ui_app :: app
  ui_cards :: card_state
  ui_profile :: profile
  ui_prefs :: prefs
  ui_view :: string

record stored =
  ims_profile :: "profile option"
  ims_prefs :: "prefs option"
  ims_selections :: "selections option"
  ims_timeline :: "timeline_val option"
  ims_calendar :: "ui_calendar option"
  ims_user_id :: "string option"
  ims_itinerary_id :: "string option"
  ims_last_schedule :: "sched_resp option option"

text \<open>\<open>JSON.parse(... || "{}")\<close> of the profile and preference objects.\<close>

definition empty_profile :: profile where
  "empty_profile = \<lparr>real_name = [], nick = [], age = [], gender = [], region = None, p_sido = [],
                    p_sigungu = [], with_who = None\<rparr>"

definition empty_prefs :: prefs where
  "empty_prefs = \<lparr>pf_scenery = None, pf_styles = None, pf_jobs = None, pf_free = None\<rparr>"

text \<open>\<open>getItem(key) || null\<close>.\<close>

definition read_id :: "string option \<Rightarrow> string option" where
  "read_id v = (case v of Some s \<Rightarrow> if s = [] then None else Some s | None \<Rightarrow> None)"

definition save_state :: "ui_state \<Rightarrow> stored" where
  "save_state s =
     \<lparr>ims_profile = Some (ui_profile s),
      ims_prefs = Some (ui_prefs s),
      ims_selections = Some (sels (ui_cards s)),
      ims_timeline = Some (timeline (app_session (ui_app s))),
      ims_calendar = Some (persist_cal (ui_cal (app_session (ui_app s)))),
      ims_user_id = Some (opt_or (app_user_id (ui_app s)) []),
      ims_itinerary_id = Some (opt_or (last_itinerary_id (app_session (ui_app s))) []),
      ims_last_schedule = Some (last_schedule (app_session (ui_app s)))\<rparr>"

text \<open>The initialiser of \<open>STATE\<close> on a page whose URL hash is \<open>h\<close>. An empty stored
  selection object \<open>{}\<close> is truthy and kept, and reads as no farm and no tours.\<close>

definition load_state :: "stored \<Rightarrow> string \<Rightarrow> ui_state" where
  "load_state st h =
     \<lparr>ui_app =
        \<lparr>app_session =
           \<lparr>last_itinerary_id = read_id (ims_itinerary_id st),
            last_schedule = opt_or (ims_last_schedule st) None,
            timeline = opt_or (ims_timeline st) (TLEntries []),
            ui_cal = opt_or (ims_calendar st) (CalObj Map.empty),
            chat_stage = StageCards\<rparr>,
         app_user_id = read_id (ims_user_id st),
         app_config = None\<rparr>,
      ui_cards = card_init\<lparr>sels := opt_or (ims_selections st) (sels card_init)\<rparr>,
      ui_profile = opt_or (ims_profile st) empty_profile,
      ui_prefs = opt_or (ims_prefs st) empty_prefs,
      ui_view = view_of_hash h\<rparr>"

text \<open>What survives a reload of a state: everything saved, with the calendar as
  \<open>JSON\<close> keeps it and the ids as \<open>|| null\<close> reads them; the chat stage, the chosen cards,
  the current recommendation and the cached configuration start afresh.\<close>

definition reloaded :: "ui_state \<Rightarrow> string \<Rightarrow> ui_state" where
  "reloaded s h =
     s\<lparr>ui_app := (ui_app s)\<lparr>
          app_session := (app_session (ui_app s))\<lparr>
             last_itinerary_id := read_id (last_itinerary_id (app_session (ui_app s))),
             ui_cal := persist_cal (ui_cal (app_session (ui_app s))),
             chat_stage := StageCards\<rparr>,
          app_user_id := read_id (app_user_id (ui_app s)),
          app_config := None\<rparr>,
       ui_cards := card_init\<lparr>sels := sels (ui_cards s)\<rparr>,
       ui_view := view_of_hash h\<rparr>"

definition demo_ui :: ui_state where
  "demo_ui = \<lparr>ui_app = demo_user_app\<lparr>app_session := make_plan demo_session ''2025-10-03'' (Reply demo_reply)\<rparr>,
               ui_cards = card_init, ui_profile = empty_profile, ui_prefs = empty_prefs,
               ui_view = ''chat''\<rparr>"

subsection \<open>Lemmas\<close>

lemma read_id_stored [simp]: "read_id (Some (opt_or v [])) = read_id v"
  by (cases v) (simp_all add: read_id_def)

lemma opt_or_read_id [simp]: "opt_or (read_id v) [] = opt_or v []"
  by (cases v) (simp_all add: read_id_def)

lemma persist_cal_idem [simp]: "persist_cal (persist_cal c) = persist_cal c"
  by (cases c) simp_all

subsection \<open>Properties\<close>

text \<open>C26: saving and reloading a state gives the state \<open>reloaded\<close> describes: every saved
  field comes back, the calendar as \<open>JSON\<close> stores it and an empty id as none, while the chat
  stage returns to \<open>"cards"\<close>, the chosen cards and the recommendation are empty and the
  configuration is fetched again.\<close>

theorem load_save_roundtrip: "load_state (save_state s) h = reloaded s h"
  by (simp add: load_state_def save_state_def reloaded_def)

text \<open>The stored snapshot is stable under reloads: saving right after a reload writes
  back exactly what was stored.\<close>

theorem save_load_stable: "save_state (load_state (save_state s) h) = save_state s"
  by (simp add: load_state_def save_state_def)

text \<open>C27: a reload forgets that a schedule table is shown: the last schedule comes back,
  but the chat stage is \<open>"cards"\<close> again, so the next non-blank message asks for a new
  recommendation instead of revising that schedule.\<close>

theorem reload_forgets_table_stage:
  assumes "js_trim t \<noteq> []"
  shows "last_schedule (app_session (ui_app (load_state (save_state s) h))) =
           last_schedule (app_session (ui_app s)) \<and>
         chat_route (app_session (ui_app (load_state (save_state s) h))) t = Recommend (js_trim t)"
  using assms by (simp add: load_state_def save_state_def chat_route_def Let_def)

theorem reload_forgets_table_stage_witness:
  "chat_route (app_session (ui_app demo_ui)) ''more tours please'' = Feedback ''more tours please'' \<and>
   last_schedule (app_session (ui_app (load_state (save_state demo_ui) ''#chat''))) = Some demo_reply \<and>
   chat_route (app_session (ui_app (load_state (save_state demo_ui) ''#chat''))) ''more tours please'' =
     Recommend ''more tours please''"
proof -
  have tr: "js_trim ''more tours please'' = ''more tours please''" by (simp add: js_trim_def js_ws_def)
  have s: "last_schedule (app_session (ui_app demo_ui)) = Some demo_reply"
    by (simp add: demo_ui_def make_plan_def create_schedule_def call_engine_def apply_schedule_def
                  demo_reply_def)
  have "chat_route (app_session (ui_app demo_ui)) ''more tours please'' = Feedback ''more tours please''"
    using s tr by (simp add: chat_route_def demo_ui_def make_plan_def)
  with reload_forgets_table_stage [of "''more tours please''" demo_ui "''#chat''"] s tr show ?thesis
    by simp
qed

end
