(* ===== verification/App.thy ===== *)
theory App
  imports Persistence
begin

text \<open>
  The front end as one transition system over \<open>STATE\<close> (\<open>Persistence.ui_state\<close>): every
  handler of src/unnamed/part_000 that changes state is an event, enabled on the screen
  that binds it, and a page load restores the saved snapshot.
  \<^item> the onboarding screens: the badge boxes' \<open>onChange\<close> callbacks (lines 1447-1454,
    1506-1513, 1553-1560, 1598-1605), \<open>#next1\<close> to \<open>#next4\<close>, and \<open>#finish\<close>
    (lines 1629-1650), which sends the profile and goes home once a user id is known;
  \<^item> the chat screen: \<open>#send\<close> (lines 1357-1369) with \<open>triggerRecommendation\<close>
    (lines 656-711) over the \<open>engineRecommend\<close> in force (lines 759-789) or
    \<open>handleScheduleFeedback\<close>, the card checkboxes (\<open>Cards.card_step\<close>), \<open>#makePlan\<close>
    (\<open>Engine.make_plan_click\<close>) and \<open>#confirm\<close> (\<open>confirmCurrentSchedule\<close>, lines
    1289-1310, with \<open>confirmSchedule\<close>, lines 448-456);
  \<^item> \<open>#goChat\<close> of the home screen (lines 586-596), \<open>hashchange\<close>, and a reload.
  Every handler that changes a saved field calls \<open>saveState\<close> before it returns, so a
  reload restores \<open>save_state\<close> of the state it interrupts.
\<close>

subsection \<open>engineRecommend and triggerRecommendation\<close>

datatype reco_fetch = RecoOk "farm_rec list" "tour_rec list" | RecoHttp nat | RecoNetError

definition RECO_PATH_MISSING :: string where
  "RECO_PATH_MISSING = [CHR 0x63, CHR 0x6F, CHR 0x6E, CHR 0x66, CHR 0x69, CHR 0x67, CHR 0x2E, CHR 0x6A,
     CHR 0x73, CHR 0x6F, CHR 0x6E, CHR 0xEC, CHR 0x97, CHR 0x90, CHR 0x20, CHR 0x72, CHR 0x65, CHR 0x63,
     CHR 0x6F, CHR 0x6D, CHR 0x6D, CHR 0x65, CHR 0x6E, CHR 0x64, CHR 0x61, CHR 0x74, CHR 0x69, CHR 0x6F,
     CHR 0x6E, CHR 0x73, CHR 0x20, CHR 0xEC, CHR 0x97, CHR 0x94, CHR 0xEB, CHR 0x93, CHR 0x9C, CHR 0xED,
     CHR 0x8F, CHR 0xAC, CHR 0xEC, CHR 0x9D, CHR 0xB8, CHR 0xED, CHR 0x8A, CHR 0xB8, CHR 0xEA, CHR 0xB0,
     CHR 0x80, CHR 0x20, CHR 0xEC, CHR 0x97, CHR 0x86, CHR 0xEC, CHR 0x8A, CHR 0xB5, CHR 0xEB, CHR 0x8B,
     CHR 0x88, CHR 0xEB, CHR 0x8B, CHR 0xA4, CHR 0x2E]"

text \<open>\<open>cfg.endpoints && (cfg.endpoints.recommendations ||
  cfg.endpoints["recommendations/with-user"])\<close>.\<close>

definition reco_path :: "engine_config \<Rightarrow> string" where
  "reco_path cfg =
     (case endpoints cfg of
        None \<Rightarrow> []
      | Some m \<Rightarrow> js_or (opt_or (m ''recommendations'') []) (opt_or (m ''recommendations/with-user'') []))"

definition engine_recommend :: "app \<Rightarrow> cfg_fetch \<Rightarrow> onboard_outcome \<Rightarrow> nat \<Rightarrow> reco_fetch \<Rightarrow>
                                app \<times> (string + farm_rec list \<times> tour_rec list)" where
  "engine_recommend a f oo now rf =
     (case load_config_st a f of
        (a1, Inl e) \<Rightarrow> (a1, Inl e)
      | (a1, Inr cfg) \<Rightarrow>
          if reco_path cfg = [] then (a1, Inl RECO_PATH_MISSING)
          else (case ensure_user a1 f oo now of
                  (a2, Inl e) \<Rightarrow> (a2, Inl e)
                | (a2, Inr _) \<Rightarrow>
                    (a2, case rf of
                           RecoOk fs ts \<Rightarrow> Inr (fs, ts)
                         | RecoHttp n \<Rightarrow> Inl (''HTTP '' @ nat_str n)
                         | RecoNetError \<Rightarrow> Inl FETCH_FAILED)))"

text \<open>What \<open>triggerRecommendation\<close> shows: the cards, the no-result message, or the error
  message with \<open>e.message\<close>. The ids \<open>crypto.randomUUID()\<close> gives are inputs.\<close>

datatype reco_notice = RecoShown | RecoEmpty | RecoFailed string

definition trigger_recommendation :: "app \<Rightarrow> card_state \<Rightarrow> cfg_fetch \<Rightarrow> onboard_outcome \<Rightarrow> nat \<Rightarrow>
                                      reco_fetch \<Rightarrow> (nat \<Rightarrow> string) \<Rightarrow> (nat \<Rightarrow> string) \<Rightarrow>
                                      app \<times> card_state \<times> reco_notice" where
  "trigger_recommendation a cs f oo now rf uf ut =
     (case engine_recommend a f oo now rf of
        (a1, Inl e) \<Rightarrow> (a1, cs, RecoFailed e)
      | (a1, Inr (fs, ts)) \<Rightarrow>
          (case reco_of uf ut fs ts of
             None \<Rightarrow> (a1, cs, RecoEmpty)
           | Some r \<Rightarrow> (a1, card_step cs (NewReco r), RecoShown)))"

subsection \<open>confirmCurrentSchedule\<close>

text \<open>\<open>confirmSchedule\<close> posts the calendar (its answer is ignored, and a failed request
  becomes \<open>mockPlan\<close>); only then does \<open>updateHomeCalendar\<close> run. The handler then sets
  \<open>STATE.tab = "home"\<close>, a field \<open>render\<close> never reads, and renders the current view.\<close>

definition confirm_click :: "app \<Rightarrow> cfg_fetch \<Rightarrow> onboard_outcome \<Rightarrow> nat \<Rightarrow> engine_outcome \<Rightarrow> app" where
  "confirm_click a f oo now out =
     (case ensure_user a f oo now of
        (a1, Inl _) \<Rightarrow> a1
      | (a1, Inr _) \<Rightarrow>
          (case call_engine_st a1 f ''confirm'' [] out of
             (a2, Inl _) \<Rightarrow> a2
           | (a2, Inr _) \<Rightarrow> a2\<lparr>app_session := confirm (app_session a2)\<rparr>))"

subsection \<open>The onboarding screens\<close>

text \<open>The \<open>onChange\<close> callbacks of the four badge boxes: each stores the reported
  labels in its field (and saves the state).\<close>

definition with_changed :: "ui_state \<Rightarrow> string list \<Rightarrow> ui_state" where
  "with_changed s vs = s\<lparr>ui_profile := (ui_profile s)\<lparr>with_who := Some vs\<rparr>\<rparr>"

definition scenery_changed :: "ui_state \<Rightarrow> string list \<Rightarrow> ui_state" where
  "scenery_changed s vs = s\<lparr>ui_prefs := (ui_prefs s)\<lparr>pf_scenery := Some vs\<rparr>\<rparr>"

definition styles_changed :: "ui_state \<Rightarrow> string list \<Rightarrow> ui_state" where
  "styles_changed s vs = s\<lparr>ui_prefs := (ui_prefs s)\<lparr>pf_styles := Some vs\<rparr>\<rparr>"

definition jobs_changed :: "ui_state \<Rightarrow> string list \<Rightarrow> ui_state" where
  "jobs_changed s vs = s\<lparr>ui_prefs := (ui_prefs s)\<lparr>pf_jobs := Some vs\<rparr>\<rparr>"

text \<open>The box shown is the one of the screen rendered.\<close>

definition badges_changed :: "ui_state \<Rightarrow> string list \<Rightarrow> ui_state" where
  "badges_changed s vs =
     (case render_view (ui_view s) of
        Onboard \<Rightarrow> with_changed s vs
      | Onboard2 \<Rightarrow> scenery_changed s vs
      | Onboard3 \<Rightarrow> styles_changed s vs
      | Onboard4 \<Rightarrow> jobs_changed s vs
      | _ \<Rightarrow> s)"

text \<open>\<open>#next2\<close>, \<open>#next3\<close>, \<open>#next4\<close>: \<open>navigate\<close> to the next screen.\<close>

definition next_pref :: "ui_state \<Rightarrow> ui_state" where
  "next_pref s =
     (case render_view (ui_view s) of
        Onboard2 \<Rightarrow> s\<lparr>ui_view := ''onboard3''\<rparr>
      | Onboard3 \<Rightarrow> s\<lparr>ui_view := ''onboard4''\<rparr>
      | Onboard4 \<Rightarrow> s\<lparr>ui_view := ''onboard5''\<rparr>
      | _ \<Rightarrow> s)"

text \<open>\<open>#finish\<close>: the free-text preferences, then \<open>sendOnboardingAndGetUserId\<close>; home on
  success, an alert and the same screen otherwise.\<close>

definition finish_click :: "ui_state \<Rightarrow> string list \<Rightarrow> cfg_fetch \<Rightarrow> onboard_outcome \<Rightarrow> nat \<Rightarrow> ui_state" where
  "finish_click s inputs f oo now =
     (let s1 = s\<lparr>ui_prefs := finish_free (ui_prefs s) inputs\<rparr>
      in case send_onboarding_st (ui_app s1) f oo now of
           (a2, Inl _) \<Rightarrow> s1\<lparr>ui_app := a2\<rparr>
         | (a2, Inr _) \<Rightarrow> s1\<lparr>ui_app := a2, ui_view := ''home''\<rparr>)"

text \<open>\<open>#goChat\<close> of the home screen: a non-blank query is kept in \<open>ims_home_query\<close> for
  the chat screen, which sends it as its first message; either way the chat screen opens.\<close>

definition go_chat :: "ui_state \<Rightarrow> ui_state" where
  "go_chat s = s\<lparr>ui_view := ''chat''\<rparr>"

subsection \<open>Events and steps\<close>

datatype ui_event =
    Badges "string list"
  | Next1 form1
  | NextPref
  | Finish "string list" cfg_fetch onboard_outcome nat
  | GoChat
  | Send string cfg_fetch onboard_outcome nat reco_fetch "nat \<Rightarrow> string" "nat \<Rightarrow> string" string
         engine_outcome
  | CardClick card_event
  | MakePlanClick cfg_fetch onboard_outcome nat string engine_outcome
  | ConfirmClick cfg_fetch onboard_outcome nat engine_outcome
  | HashChange string
  | Reload string

text \<open>\<open>#send\<close>: a blank message is ignored; otherwise \<open>chat_route\<close> chooses between
  \<open>handleScheduleFeedback\<close> and \<open>triggerRecommendation\<close>.\<close>

definition send_click :: "ui_state \<Rightarrow> string \<Rightarrow> cfg_fetch \<Rightarrow> onboard_outcome \<Rightarrow> nat \<Rightarrow> reco_fetch \<Rightarrow>
                          (nat \<Rightarrow> string) \<Rightarrow> (nat \<Rightarrow> string) \<Rightarrow> string \<Rightarrow> engine_outcome \<Rightarrow> ui_state" where
  "send_click s t f oo now rf uf ut d out =
     (case chat_route (app_session (ui_app s)) t of
        Ignore \<Rightarrow> s
      | Feedback x \<Rightarrow> s\<lparr>ui_app := fst (handle_schedule_feedback (ui_app s) f oo now d out)\<rparr>
      | Recommend x \<Rightarrow>
          (case trigger_recommendation (ui_app s) (ui_cards s) f oo now rf uf ut of
             (a1, cs1, _) \<Rightarrow> s\<lparr>ui_app := a1, ui_cards := cs1\<rparr>))"

fun ui_step :: "ui_state \<Rightarrow> ui_event \<Rightarrow> ui_state" where
  "ui_step s (Badges vs) = badges_changed s vs"
| "ui_step s (Next1 fm) =
     (if render_view (ui_view s) = Onboard
      then s\<lparr>ui_profile := next1 (ui_profile s) fm, ui_view := ''onboard2''\<rparr> else s)"
| "ui_step s NextPref = next_pref s"
| "ui_step s (Finish inputs f oo now) =
     (if render_view (ui_view s) = Onboard5 then finish_click s inputs f oo now else s)"
| "ui_step s GoChat = (if render_view (ui_view s) = Home then go_chat s else s)"
| "ui_step s (Send t f oo now rf uf ut d out) =
     (if render_view (ui_view s) = Chat then send_click s t f oo now rf uf ut d out else s)"
| "ui_step s (CardClick e) =
     (if render_view (ui_view s) = Chat then s\<lparr>ui_cards := card_step (ui_cards s) e\<rparr> else s)"
| "ui_step s (MakePlanClick f oo now d out) =
     (if render_view (ui_view s) = Chat then s\<lparr>ui_app := fst (make_plan_click (ui_app s) f oo now d out)\<rparr>
      else s)"
| "ui_step s (ConfirmClick f oo now out) =
     (if render_view (ui_view s) = Chat then s\<lparr>ui_app := confirm_click (ui_app s) f oo now out\<rparr> else s)"
| "ui_step s (HashChange h) = s\<lparr>ui_view := view_of_hash h\<rparr>"
| "ui_step s (Reload h) = load_state (save_state s) h"

definition ui_run :: "ui_state \<Rightarrow> ui_event list \<Rightarrow> ui_state" where
  "ui_run s evs = foldl ui_step s evs"

text \<open>States reachable from a page load over whatever local storage holds.\<close>

inductive ui_reachable :: "ui_state \<Rightarrow> bool" where
  load: "ui_reachable (load_state st h)"
| step: "ui_reachable s \<Longrightarrow> ui_reachable (ui_step s e)"

text \<open>The invariant of the chat stage, as in \<open>Session.table_stage_has_schedule\<close>.\<close>

definition table_ok :: "session \<Rightarrow> bool" where
  "table_ok ss \<longleftrightarrow> (chat_stage ss = StageTable \<longrightarrow> last_schedule ss \<noteq> None)"

text \<open>A snapshot saved by a user with an id, and the state after a successful plan
  request from it, for the witnesses.\<close>

definition demo_stored :: stored where
  "demo_stored = save_state demo_ui"

definition demo_planned :: ui_state where
  "demo_planned = ui_step (load_state demo_stored ''#chat'')
     (MakePlanClick (CfgOk demo_cfg_local) OnboardFailed 0 ''2025-10-03'' (Reply demo_reply))"

subsection \<open>Lemmas\<close>

lemma load_config_st_session [simp]: "app_session (fst (load_config_st a f)) = app_session a"
  by (simp add: load_config_st_def split: sum.splits)

lemma ensure_user_session [simp]: "app_session (fst (ensure_user a f oo now)) = app_session a"
  by (auto simp: ensure_user_def send_onboarding_st_def load_config_st_def split: prod.splits sum.splits)

lemma call_engine_st_session [simp]: "app_session (fst (call_engine_st a f k d out)) = app_session a"
  by (auto simp: call_engine_st_def load_config_st_def split: prod.splits sum.splits)

lemma send_onboarding_st_session [simp]: "app_session (fst (send_onboarding_st a f oo now)) = app_session a"
  by (auto simp: send_onboarding_st_def load_config_st_def split: prod.splits sum.splits)

lemma engine_recommend_session [simp]: "app_session (fst (engine_recommend a f oo now rf)) = app_session a"
  by (auto simp: engine_recommend_def load_config_st_def ensure_user_def send_onboarding_st_def
           split: prod.splits sum.splits if_splits)

lemma table_ok_apply [simp]: "table_ok ss \<Longrightarrow> table_ok (apply_schedule ss r)"
  by (simp add: table_ok_def apply_schedule_def)

lemma schedule_request_cases:
  "app_session (fst (schedule_request k a f oo now d out)) = app_session a \<and> (\<forall>r. snd (schedule_request k a f oo now d out) \<noteq> Inr r) \<or>
   (\<exists>r a2. app_session a2 = app_session a \<and>
       schedule_request k a f oo now d out = (a2\<lparr>app_session := apply_schedule (app_session a) r\<rparr>, Inr r))"
proof -
  obtain a1 r1 where u: "ensure_user a f oo now = (a1, r1)" by fastforce
  obtain a2 r2 where c: "call_engine_st a1 f k d out = (a2, r2)" by fastforce
  have s1: "app_session a1 = app_session a" using ensure_user_session [of a f oo now] u by simp
  have s2: "app_session a2 = app_session a1" using call_engine_st_session [of a1 f k d out] c by simp
  show ?thesis using u c s1 s2
    by (cases r1; cases r2) (auto simp: schedule_request_def)
qed

lemma table_ok_schedule_request:
  "table_ok (app_session a) \<Longrightarrow> table_ok (app_session (fst (schedule_request k a f oo now d out)))"
  using schedule_request_cases [of k a f oo now d out] by auto

lemma make_plan_click_ok:
  "table_ok (app_session a) \<Longrightarrow> table_ok (app_session (fst (make_plan_click a f oo now d out)))"
proof -
  assume ok: "table_ok (app_session a)"
  obtain a1 r where sr: "schedule_request ''plan'' a f oo now d out = (a1, r)" by fastforce
  show ?thesis
  proof (cases r)
    case (Inl e)
    with sr schedule_request_cases [of "''plan''" a f oo now d out] have "app_session a1 = app_session a"
      by auto
    with ok sr Inl show ?thesis by (simp add: make_plan_click_def create_schedule_with_user_def)
  next
    case (Inr r')
    with sr schedule_request_cases [of "''plan''" a f oo now d out]
    obtain a2 where "a1 = a2\<lparr>app_session := apply_schedule (app_session a) r'\<rparr>" by auto
    with sr Inr show ?thesis
      by (simp add: make_plan_click_def create_schedule_with_user_def table_ok_def apply_schedule_def)
  qed
qed

lemma handle_feedback_ok:
  "table_ok (app_session a) \<Longrightarrow> table_ok (app_session (fst (handle_schedule_feedback a f oo now d out)))"
  using table_ok_schedule_request [of a "''revise''" f oo now d out]
  by (auto simp: handle_schedule_feedback_def send_schedule_feedback_def split: prod.splits sum.splits)

lemma confirm_click_ok:
  "table_ok (app_session a) \<Longrightarrow> table_ok (app_session (confirm_click a f oo now out))"
proof -
  assume ok: "table_ok (app_session a)"
  obtain a1 r1 where u: "ensure_user a f oo now = (a1, r1)" by fastforce
  obtain a2 r2 where c: "call_engine_st a1 f ''confirm'' [] out = (a2, r2)" by fastforce
  have "app_session a1 = app_session a" using ensure_user_session [of a f oo now] u by simp
  moreover have "app_session a2 = app_session a1" using call_engine_st_session [of a1 f "''confirm''" "[]" out] c by simp
  ultimately show ?thesis using ok u c
    by (cases r1; cases r2) (simp_all add: confirm_click_def confirm_def table_ok_def)
qed

lemma trigger_recommendation_session [simp]:
  "app_session (fst (trigger_recommendation a cs f oo now rf uf ut)) = app_session a"
proof -
  obtain a1 r where e: "engine_recommend a f oo now rf = (a1, r)" by fastforce
  then have "app_session a1 = app_session a" using engine_recommend_session [of a f oo now rf] by simp
  with e show ?thesis
    by (auto simp: trigger_recommendation_def split: sum.splits option.splits)
qed

lemma send_click_ok:
  "table_ok (app_session (ui_app s)) \<Longrightarrow>
   table_ok (app_session (ui_app (send_click s t f oo now rf uf ut d out)))"
  by (auto simp: send_click_def handle_feedback_ok split: chat_action.splits prod.splits
           dest: arg_cong [where f = "\<lambda>x. app_session (fst x)"])

lemma finish_click_ok:
  "table_ok (app_session (ui_app s)) \<Longrightarrow> table_ok (app_session (ui_app (finish_click s inputs f oo now)))"
proof -
  assume ok: "table_ok (app_session (ui_app s))"
  obtain a2 r where o: "send_onboarding_st (ui_app s) f oo now = (a2, r)" by fastforce
  then have "app_session a2 = app_session (ui_app s)"
    using send_onboarding_st_session [of "ui_app s" f oo now] by simp
  with ok o show ?thesis by (cases r) (simp_all add: finish_click_def Let_def)
qed

lemma ui_step_ok: "table_ok (app_session (ui_app s)) \<Longrightarrow> table_ok (app_session (ui_app (ui_step s e)))"
proof (cases e)
  case (Badges vs)
  moreover assume "table_ok (app_session (ui_app s))"
  ultimately show ?thesis
    by (simp add: badges_changed_def with_changed_def scenery_changed_def styles_changed_def
                  jobs_changed_def split: view.splits)
next
  case NextPref
  moreover assume "table_ok (app_session (ui_app s))"
  ultimately show ?thesis by (simp add: next_pref_def split: view.splits)
next
  case (Reload h)
  then show ?thesis by (simp add: load_state_def table_ok_def)
qed (simp_all add: send_click_ok finish_click_ok make_plan_click_ok confirm_click_ok go_chat_def)

subsection \<open>Properties\<close>

text \<open>C28: over the whole front end (onboarding, chat, card and plan handlers, confirmation,
  navigation and reloads from any stored snapshot) the chat is in the table stage only when
  a last schedule exists, so a message routed to feedback always refers to a schedule.\<close>

theorem ui_table_stage_has_schedule:
  "ui_reachable s \<Longrightarrow> chat_stage (app_session (ui_app s)) = StageTable \<Longrightarrow>
   last_schedule (app_session (ui_app s)) \<noteq> None"
proof -
  assume r: "ui_reachable s"
  have "table_ok (app_session (ui_app s))"
    using r
  proof (induction rule: ui_reachable.induct)
    case (load st h)
    then show ?case by (simp add: load_state_def table_ok_def)
  next
    case (step s e)
    from step.IH show ?case by (rule ui_step_ok)
  qed
  then show "chat_stage (app_session (ui_app s)) = StageTable \<Longrightarrow> last_schedule (app_session (ui_app s)) \<noteq> None"
    by (simp add: table_ok_def)
qed

theorem ui_table_stage_has_schedule_witness:
  "chat_stage (app_session (ui_app (ui_step (load_state demo_stored ''#chat'')
      (MakePlanClick (CfgOk demo_cfg_local) OnboardFailed 0 ''2025-10-03'' (Reply demo_reply))))) = StageTable \<and>
   last_schedule (app_session (ui_app (ui_step (load_state demo_stored ''#chat'')
      (MakePlanClick (CfgOk demo_cfg_local) OnboardFailed 0 ''2025-10-03'' (Reply demo_reply))))) \<noteq> None"
proof -
  let ?s = "ui_step (load_state demo_stored ''#chat'')
      (MakePlanClick (CfgOk demo_cfg_local) OnboardFailed 0 ''2025-10-03'' (Reply demo_reply))"
  have r: "ui_reachable ?s" by (rule ui_reachable.step, rule ui_reachable.load)
  have t: "chat_stage (app_session (ui_app ?s)) = StageTable"
    by (simp add: demo_stored_def demo_ui_def save_state_def load_state_def view_of_hash_def
                  render_view_def make_plan_click_def create_schedule_with_user_def
                  schedule_request_def ensure_user_def demo_user_app_def demo_app_def read_id_def
                  call_engine_st_def load_config_st_def load_config_def demo_cfg_local_def
                  demo_config_def engine_url_def)
  from t ui_table_stage_has_schedule [OF r t] show ?thesis by (rule conjI)
qed

text \<open>C29: the onboarding screens lead home: from a page load on the onboarding screen,
  \<open>#next1\<close> to \<open>#next4\<close> and \<open>#finish\<close>, with an onboarding endpoint that answers a user
  id, end on the home screen with that user id and the profile the first screen entered.\<close>

theorem onboarding_reaches_home:
  assumes "render_view (view_of_hash h) = Onboard" and "has_onboarding cfg" and "u \<noteq> []"
  shows "render_view (ui_view (ui_run (load_state st h)
            [Next1 fm, NextPref, NextPref, NextPref, Finish inputs (CfgOk cfg) (OnboardReply u) now])) = Home \<and>
         app_user_id (ui_app (ui_run (load_state st h)
            [Next1 fm, NextPref, NextPref, NextPref, Finish inputs (CfgOk cfg) (OnboardReply u) now])) = Some u \<and>
         ui_profile (ui_run (load_state st h)
            [Next1 fm, NextPref, NextPref, NextPref, Finish inputs (CfgOk cfg) (OnboardReply u) now]) =
           next1 (opt_or (ims_profile st) empty_profile) fm"
proof -
  have v: "render_view (ui_view (load_state st h)) = Onboard" using assms(1) by (simp add: load_state_def)
  show ?thesis
    using v assms(2,3)
    by (simp add: ui_run_def next_pref_def render_view_def finish_click_def Let_def send_onboarding_st_def
                  load_config_st_def send_onboarding_def)
       (simp add: load_state_def load_config_def)
qed

theorem onboarding_reaches_home_witness:
  "render_view (ui_view (ui_run (load_state demo_stored ''#onboard'')
      [Next1 (demo_form1 [False, True, False]), NextPref, NextPref, NextPref,
       Finish [''walking trip'', []] (CfgOk demo_cfg_onb) (OnboardReply ''user_1693498765'') 0])) = Home \<and>
   app_user_id (ui_app (ui_run (load_state demo_stored ''#onboard'')
      [Next1 (demo_form1 [False, True, False]), NextPref, NextPref, NextPref,
       Finish [''walking trip'', []] (CfgOk demo_cfg_onb) (OnboardReply ''user_1693498765'') 0])) =
     Some ''user_1693498765'' \<and>
   ui_profile (ui_run (load_state demo_stored ''#onboard'')
      [Next1 (demo_form1 [False, True, False]), NextPref, NextPref, NextPref,
       Finish [''walking trip'', []] (CfgOk demo_cfg_onb) (OnboardReply ''user_1693498765'') 0]) =
     next1 empty_profile (demo_form1 [False, True, False])"
  using onboarding_reaches_home [of "''#onboard''" demo_cfg_onb "''user_1693498765''" demo_stored
          "demo_form1 [False, True, False]" "[''walking trip'', []]" 0]
  by (simp add: view_of_hash_def render_view_def demo_cfg_onb_def demo_config_def has_onboarding_def
                demo_stored_def save_state_def demo_ui_def)

text \<open>C30 (divergence): confirming a schedule adds its events to the calendar but stays
  on the chat screen; the comment of \<open>confirmCurrentSchedule\<close> says it moves to the home
  screen at once, but it sets \<open>STATE.tab\<close>, which \<open>render\<close> never reads.\<close>

theorem confirm_stays_on_chat:
  assumes "render_view (ui_view s) = Chat" and "opt_or (app_user_id (ui_app s)) [] \<noteq> []"
    and "app_config (ui_app s) = Some cfg" and "endpoints cfg \<noteq> None"
  shows "ui_step s (ConfirmClick f oo now out) =
           s\<lparr>ui_app := (ui_app s)\<lparr>app_session := confirm (app_session (ui_app s))\<rparr>\<rparr>"
  using assms by (simp add: confirm_click_def ensure_user_known call_engine_st_ok)


theorem confirm_stays_on_chat_witness:
  "ui_step demo_planned (ConfirmClick CfgNetError OnboardFailed 0 Failed) =
     demo_planned\<lparr>ui_app := (ui_app demo_planned)\<lparr>app_session := confirm (app_session (ui_app demo_planned))\<rparr>\<rparr>"
proof -
  have base: "render_view (ui_view (load_state demo_stored ''#chat'')) = Chat"
    by (simp add: load_state_def view_of_hash_def render_view_def)
  have v: "render_view (ui_view demo_planned) = Chat" using base by (simp add: demo_planned_def)
  have u: "opt_or (app_user_id (ui_app demo_planned)) [] \<noteq> []"
    using base
    by (simp add: demo_planned_def make_plan_click_def create_schedule_with_user_def
                  schedule_request_def ensure_user_def call_engine_st_def load_config_st_def
                  demo_stored_def save_state_def demo_ui_def demo_user_app_def demo_app_def
                  load_state_def read_id_def split: prod.splits sum.splits)
  have c: "app_config (ui_app demo_planned) = Some demo_cfg_local"
    using base
    by (simp add: demo_planned_def make_plan_click_def create_schedule_with_user_def
                  schedule_request_def ensure_user_def call_engine_st_def load_config_st_def
                  demo_stored_def save_state_def demo_ui_def demo_user_app_def demo_app_def
                  load_state_def read_id_def load_config_def split: prod.splits sum.splits)
  have e: "endpoints demo_cfg_local \<noteq> None" by (simp add: demo_cfg_local_def demo_config_def)
  from confirm_stays_on_chat [OF v u c e] show ?thesis .
qed

end
