(* ===== verification/Duration.thy ===== *)
theory Duration
  imports Prelude "HOL-Library.Product_Lexorder"
begin

text \<open>
  The two text readers of the scheduling engine, as the specification describes them
  (spec.md sections 4.2 and 4.3; the engine has no code under src/, and the front end only
  sends it the user's sentence). \<open>extract_duration\<close> reads a trip length from a request:
  a decimal number before the day unit \<open>il\<close> (so "3 bak 4 il" reads as the four travel
  days), otherwise the first word of the numeral table, clamped to at most 10 days.
  \<open>resolve_start\<close> reads a month before the unit \<open>wol\<close> and resolves it to the first day
  of the nearest month of that name that is not in the past, by a loop that advances one
  year at a time; the (region, month) table of special events gives the event that is
  forced onto the first tour day. Korean words are their UTF-8 bytes, as in
  \<open>Schedule_Item\<close>.
\<close>

subsection \<open>Vocabulary\<close>

definition DAY_UNIT :: string where
  "DAY_UNIT = [CHR 0xEC, CHR 0x9D, CHR 0xBC]"

definition MONTH_UNIT :: string where
  "MONTH_UNIT = [CHR 0xEC, CHR 0x9B, CHR 0x94]"

definition NIGHT_UNIT :: string where
  "NIGHT_UNIT = [CHR 0xEB, CHR 0xB0, CHR 0x95]"

text \<open>The numeral-word table (haru = 1, iteul = 2, ..., yeolheul = 10), a configuration
  map as the design notes ask, not one branch per phrase.\<close>

definition numeral_words :: "(string \<times> nat) list" where
  "numeral_words =
     [([CHR 0xED, CHR 0x95, CHR 0x98, CHR 0xEB, CHR 0xA3, CHR 0xA8], 1),
      ([CHR 0xEC, CHR 0x9D, CHR 0xB4, CHR 0xED, CHR 0x8B, CHR 0x80], 2),
      ([CHR 0xEC, CHR 0x82, CHR 0xAC, CHR 0xED, CHR 0x9D, CHR 0x98], 3),
      ([CHR 0xEB, CHR 0x82, CHR 0x98, CHR 0xED, CHR 0x9D, CHR 0x98], 4),
      ([CHR 0xEB, CHR 0x8B, CHR 0xB7, CHR 0xEC, CHR 0x83, CHR 0x88], 5),
      ([CHR 0xEC, CHR 0x97, CHR 0xBF, CHR 0xEC, CHR 0x83, CHR 0x88], 6),
      ([CHR 0xEC, CHR 0x9D, CHR 0xB4, CHR 0xEB, CHR 0xA0, CHR 0x88], 7),
      ([CHR 0xEC, CHR 0x97, CHR 0xAC, CHR 0xEB, CHR 0x93, CHR 0x9C, CHR 0xEB, CHR 0xA0, CHR 0x88], 8),
      ([CHR 0xEC, CHR 0x95, CHR 0x84, CHR 0xED, CHR 0x9D, CHR 0x90, CHR 0xEB, CHR 0xA0, CHR 0x88], 9),
      ([CHR 0xEC, CHR 0x97, CHR 0xB4, CHR 0xED, CHR 0x9D, CHR 0x98], 10)]"

definition MAX_DAYS :: nat where
  "MAX_DAYS = 10"

definition DEFAULT_DAYS :: nat where
  "DEFAULT_DAYS = 1"

subsection \<open>DurationExtractor\<close>

definition digit_val :: "char \<Rightarrow> nat option" where
  "digit_val c = (let n = (of_char c :: nat) in if 48 \<le> n \<and> n \<le> 57 then Some (n - 48) else None)"

text \<open>A left-to-right scan that keeps the value of the digit run just read and answers it
  when the unit follows the run; any other character ends the run.\<close>

fun scan_unit :: "string \<Rightarrow> nat option \<Rightarrow> string \<Rightarrow> nat option" where
  "scan_unit u acc [] = None"
| "scan_unit u acc (c # cs) =
     (case digit_val c of
        Some k \<Rightarrow> scan_unit u (Some (10 * opt_or acc 0 + k)) cs
      | None \<Rightarrow> (if acc \<noteq> None \<and> prefix u (c # cs) then acc else scan_unit u None cs))"

text \<open>A value found is clamped to \<open>MAX_DAYS\<close>; a value 0 is outside the domain 1..10 and
  reads as no duration.\<close>

definition clamp_days :: "nat \<Rightarrow> nat option" where
  "clamp_days n = (if n = 0 then None else Some (min MAX_DAYS n))"

definition numeral_word :: "string \<Rightarrow> nat option" where
  "numeral_word t = map_option snd (find (\<lambda>(w, n). js_includes t w) numeral_words)"

definition extract_duration :: "string \<Rightarrow> nat option" where
  "extract_duration t =
     (case scan_unit DAY_UNIT None t of
        Some n \<Rightarrow> clamp_days n
      | None \<Rightarrow> (case numeral_word t of Some n \<Rightarrow> clamp_days n | None \<Rightarrow> None))"

text \<open>The caller's policy: no duration found gives the default of one day, flagged.\<close>

definition duration_or_default :: "string \<Rightarrow> nat \<times> bool" where
  "duration_or_default t =
     (case extract_duration t of Some d \<Rightarrow> (d, False) | None \<Rightarrow> (DEFAULT_DAYS, True))"

subsection \<open>Dates\<close>

text \<open>A calendar date (year, month, day), ordered as the tuple is.\<close>

datatype date = Date (date_year: nat) (date_month: nat) (date_day: nat)

definition date_key :: "date \<Rightarrow> nat \<times> nat \<times> nat" where
  "date_key d = (date_year d, date_month d, date_day d)"

instantiation date :: linorder
begin

definition less_eq_date :: "date \<Rightarrow> date \<Rightarrow> bool" where
  "a \<le> b \<longleftrightarrow> date_key a \<le> date_key b"

definition less_date :: "date \<Rightarrow> date \<Rightarrow> bool" where
  "a < b \<longleftrightarrow> date_key a < date_key b"

instance
proof
  fix a b c :: date
  show "a < b \<longleftrightarrow> a \<le> b \<and> \<not> b \<le> a" by (simp add: less_eq_date_def less_date_def less_le_not_le)
  show "a \<le> a" by (simp add: less_eq_date_def)
  show "a \<le> b \<Longrightarrow> b \<le> c \<Longrightarrow> a \<le> c" by (simp add: less_eq_date_def)
  show "a \<le> b \<Longrightarrow> b \<le> a \<Longrightarrow> a = b"
    by (cases a; cases b) (auto simp add: less_eq_date_def date_key_def)
  show "a \<le> b \<or> b \<le> a" by (simp add: less_eq_date_def linear)
qed

end

subsection \<open>StartPeriodResolver\<close>

record special_event =
  ev_name :: string
  ev_address :: string

text \<open>The configured (region, month) table: the Gimje horizon festival in October.\<close>

definition GIMJE :: string where
  "GIMJE = [CHR 0xEA, CHR 0xB9, CHR 0x80, CHR 0xEC, CHR 0xA0, CHR 0x9C, CHR 0xEC, CHR 0x8B, CHR 0x9C]"

definition special_events :: "((string \<times> nat) \<times> special_event) list" where
  "special_events =
     [((GIMJE, 10),
       \<lparr>ev_name = [CHR 0xEA, CHR 0xB9, CHR 0x80, CHR 0xEC, CHR 0xA0, CHR 0x9C, CHR 0xEC, CHR 0xA7,
                   CHR 0x80, CHR 0xED, CHR 0x8F, CHR 0x89, CHR 0xEC, CHR 0x84, CHR 0xA0, CHR 0xEC,
                   CHR 0xB6, CHR 0x95, CHR 0xEC, CHR 0xA0, CHR 0x9C],
        ev_address = GIMJE\<rparr>)]"

definition month_of_text :: "string \<Rightarrow> nat option" where
  "month_of_text t =
     (case scan_unit MONTH_UNIT None t of
        Some m \<Rightarrow> if 1 \<le> m \<and> m \<le> 12 then Some m else None
      | None \<Rightarrow> None)"

text \<open>The loop of the resolver: move the candidate on by a year until it is not before
  \<open>today\<close>. Written as a partial function, so that not returning would be \<open>None\<close>.\<close>

partial_function (option) next_occurrence :: "date \<Rightarrow> date \<Rightarrow> date option" where
  "next_occurrence today d =
     (if today \<le> d then Some d
      else next_occurrence today (Date (date_year d + 1) (date_month d) (date_day d)))"

definition resolve_start :: "string \<Rightarrow> string \<Rightarrow> date \<Rightarrow> (date \<times> special_event option) option" where
  "resolve_start t region today =
     (case month_of_text t of
        None \<Rightarrow> Some (today, map_of special_events (region, date_month today))
      | Some m \<Rightarrow>
          (case next_occurrence today (Date (date_year today) m 1) of
             None \<Rightarrow> None
           | Some d \<Rightarrow> Some (d, map_of special_events (region, m))))"

text \<open>The request of the specification's scenario: "10 wol yeolheul" (October, ten days).\<close>

definition demo_request :: string where
  "demo_request = ''10'' @ MONTH_UNIT @ '' '' @ [CHR 0xEC, CHR 0x97, CHR 0xB4, CHR 0xED, CHR 0x9D, CHR 0x98]"

subsection \<open>Lemmas\<close>

lemma date_le_iff [simp]:
  "Date y m d \<le> Date y' m' d' \<longleftrightarrow> y < y' \<or> y = y' \<and> (m < m' \<or> m = m' \<and> d \<le> d')"
  by (auto simp add: less_eq_date_def date_key_def)

lemma digit_val_char [simp]: "k < 10 \<Longrightarrow> digit_val (char_of (48 + k)) = Some k"
  by (simp add: digit_val_def Let_def of_char_of)

lemma units_not_digit [simp]:
  "digit_val (hd DAY_UNIT) = None" "digit_val (hd MONTH_UNIT) = None"
  "DAY_UNIT \<noteq> []" "MONTH_UNIT \<noteq> []"
  by (simp_all add: digit_val_def DAY_UNIT_def MONTH_UNIT_def)

text \<open>Reading the decimal digits of a number: the scan goes on with that number appended
  to the run.\<close>

lemma scan_nat_str:
  "scan_unit u acc (nat_str n @ r) = scan_unit u (Some (opt_or acc 0 * 10 ^ length (nat_str n) + n)) r"
proof (induction n arbitrary: acc r rule: nat_str.induct)
  case (1 n)
  show ?case
  proof (cases "n < 10")
    case True
    then show ?thesis by (simp add: nat_str.simps mult.commute)
  next
    case False
    have "nat_str n = nat_str (n div 10) @ [char_of (48 + n mod 10)]"
      using False by (simp add: nat_str.simps)
    moreover have "10 * (opt_or acc 0 * 10 ^ length (nat_str (n div 10)) + n div 10) + n mod 10 =
                   opt_or acc 0 * (10 * 10 ^ length (nat_str (n div 10))) + n"
      by simp
    ultimately show ?thesis using "1.IH" [OF False, of acc "char_of (48 + n mod 10) # r"]
      by (simp add: algebra_simps)
  qed
qed

lemma scan_unit_found:
  "u \<noteq> [] \<Longrightarrow> digit_val (hd u) = None \<Longrightarrow> scan_unit u (Some v) (u @ r) = Some v"
  by (cases u) simp_all

lemma scan_skip:
  "list_all (\<lambda>c. digit_val c = None) xs \<Longrightarrow> scan_unit u None (xs @ r) = scan_unit u None r"
  by (induction xs) simp_all

lemma scan_number_unit:
  "u \<noteq> [] \<Longrightarrow> digit_val (hd u) = None \<Longrightarrow> scan_unit u None (nat_str n @ u @ r) = Some n"
  by (simp add: scan_nat_str scan_unit_found)

lemma clamp_days_bounds: "clamp_days n = Some d \<Longrightarrow> 1 \<le> d \<and> d \<le> MAX_DAYS"
  by (auto simp add: clamp_days_def MAX_DAYS_def split: if_splits)

text \<open>The resolver's loop ends: started in any year, it stops at the first year whose
  date is not before \<open>today\<close>, which is at most the year after \<open>today\<close>'s.\<close>

lemma next_occurrence_least:
  "\<exists>y'. next_occurrence today (Date y m dd) = Some (Date y' m dd) \<and> today \<le> Date y' m dd \<and>
        y \<le> y' \<and> (\<forall>z. y \<le> z \<and> today \<le> Date z m dd \<longrightarrow> y' \<le> z)"
proof (induction y rule: measure_induct_rule [where f = "\<lambda>y. Suc (date_year today) - y"])
  case (less y)
  show ?case
  proof (cases "today \<le> Date y m dd")
    case True
    then show ?thesis by (simp add: next_occurrence.simps)
  next
    case False
    then have "y \<le> date_year today" by (cases today) auto
    then have "Suc (date_year today) - Suc y < Suc (date_year today) - y" by simp
    from less [OF this] obtain y' where
      y': "next_occurrence today (Date (Suc y) m dd) = Some (Date y' m dd)" "today \<le> Date y' m dd"
          "Suc y \<le> y'" "\<forall>z. Suc y \<le> z \<and> today \<le> Date z m dd \<longrightarrow> y' \<le> z"
      by blast
    have "\<forall>z. y \<le> z \<and> today \<le> Date z m dd \<longrightarrow> y' \<le> z"
    proof (intro allI impI)
      fix z assume z: "y \<le> z \<and> today \<le> Date z m dd"
      with False have "z \<noteq> y" by auto
      with z y'(4) show "y' \<le> z" by simp
    qed
    with False y' show ?thesis by (auto simp add: next_occurrence.simps [of today "Date y m dd"])
  qed
qed

lemma next_year_not_before: "today \<le> Date (Suc (date_year today)) m dd"
  by (cases today) simp

lemma before_this_year: "y < date_year today \<Longrightarrow> \<not> today \<le> Date y m dd"
  by (cases today) simp

lemma extract_duration_number:
  "extract_duration (nat_str n @ DAY_UNIT @ r) = clamp_days n"
  by (simp add: extract_duration_def scan_number_unit)

lemma night_unit_skipped:
  "scan_unit DAY_UNIT (Some v) (NIGHT_UNIT @ r) = scan_unit DAY_UNIT None r"
  by (simp add: NIGHT_UNIT_def DAY_UNIT_def digit_val_def)

subsection \<open>Properties\<close>

text \<open>A duration read from a request is always in the domain 1..10 of the specification:
  larger numbers are clamped to 10 and a zero is no duration.\<close>

theorem extract_duration_bounds:
  "extract_duration t = Some d \<Longrightarrow> 1 \<le> d \<and> d \<le> MAX_DAYS"
  by (auto simp add: extract_duration_def dest: clamp_days_bounds split: option.splits)

theorem extract_duration_bounds_witness:
  "extract_duration demo_request = Some 10 \<and> 1 \<le> (10::nat) \<and> 10 \<le> MAX_DAYS"
proof -
  have "extract_duration demo_request = Some 10"
    by (simp add: extract_duration_def demo_request_def MONTH_UNIT_def DAY_UNIT_def digit_val_def
                  numeral_word_def numeral_words_def js_includes_def clamp_days_def MAX_DAYS_def)
  with extract_duration_bounds [of demo_request 10] show ?thesis by simp
qed

text \<open>With the default policy, the length used is always in 1..10.\<close>

lemma duration_or_default_bounds:
  "1 \<le> fst (duration_or_default t) \<and> fst (duration_or_default t) \<le> MAX_DAYS"
  by (auto simp: duration_or_default_def DEFAULT_DAYS_def MAX_DAYS_def dest: extract_duration_bounds
           split: option.splits)

text \<open>"N bak M il" (N nights, M days) is read as M travel days, clamped to 10:
  the number of nights is skipped and the day count printed before the day unit is read
  back exactly.\<close>

theorem extract_duration_nights_days:
  "0 < m \<Longrightarrow>
   extract_duration (nat_str n @ NIGHT_UNIT @ nat_str m @ DAY_UNIT @ r) = Some (min MAX_DAYS m)"
  by (simp add: extract_duration_def scan_nat_str night_unit_skipped scan_number_unit scan_unit_found
                clamp_days_def)

theorem extract_duration_nights_days_witness:
  "extract_duration (''3'' @ NIGHT_UNIT @ ''4'' @ DAY_UNIT) = Some 4"
proof -
  have "nat_str 3 = ''3''" "nat_str 4 = ''4''" by (simp_all add: nat_str.simps char_of_def bit_0)
  with extract_duration_nights_days [of 4 3 "[]"] show ?thesis by (simp add: MAX_DAYS_def)
qed

text \<open>C34: the start-period loop returns, and a month named in the request resolves to the
  first day of the nearest such month that is not in the past, together with the special
  event configured for that region and month.\<close>

theorem resolve_start_nearest:
  "month_of_text t = Some m \<Longrightarrow>
   \<exists>y. resolve_start t region today = Some (Date y m 1, map_of special_events (region, m)) \<and>
       today \<le> Date y m 1 \<and> y \<le> Suc (date_year today) \<and>
       (\<forall>y'. today \<le> Date y' m 1 \<longrightarrow> y \<le> y')"
proof -
  assume mt: "month_of_text t = Some m"
  obtain y where y: "next_occurrence today (Date (date_year today) m 1) = Some (Date y m 1)"
    "today \<le> Date y m 1" "date_year today \<le> y"
    "\<forall>z. date_year today \<le> z \<and> today \<le> Date z m 1 \<longrightarrow> y \<le> z"
    using next_occurrence_least [of today "date_year today" m 1] by blast
  have "y \<le> Suc (date_year today)" using y(4) next_year_not_before [of today m 1] by simp
  moreover have "\<forall>y'. today \<le> Date y' m 1 \<longrightarrow> y \<le> y'"
    using y(4) before_this_year [of _ today m 1] by (meson not_le)
  ultimately show ?thesis using mt y(1,2) by (simp add: resolve_start_def)
qed

theorem resolve_start_nearest_witness:
  "resolve_start demo_request GIMJE (Date 2025 12 15) =
     Some (Date 2026 10 1, map_of special_events (GIMJE, 10)) \<and>
   map_of special_events (GIMJE, 10) \<noteq> None"
proof -
  have mt: "month_of_text demo_request = Some 10"
    by (simp add: month_of_text_def demo_request_def MONTH_UNIT_def digit_val_def)
  from resolve_start_nearest [OF mt, of GIMJE "Date 2025 12 15"] obtain y where
    y: "resolve_start demo_request GIMJE (Date 2025 12 15) =
          Some (Date y 10 1, map_of special_events (GIMJE, 10))"
       "Date 2025 12 15 \<le> Date y 10 1" "y \<le> Suc (date_year (Date 2025 12 15))"
    by blast
  then have "y = 2026" by simp
  with y(1) show ?thesis by (simp add: special_events_def)
qed

end
