(* ===== verification/Builder.thy ===== *)
theory Builder
  imports Duration Schedule_Item
begin

text \<open>
  The ItineraryBuilder of the scheduling engine, from the specification (spec.md sections
  3, 4.4 and 7; no code under src/). \<open>build\<close> validates the region, the farm and the
  duration, reserves the non-farm days (the first day, and the last one when there is
  room) when there is tour content, places the farm block between them, deals the tours
  out over the non-farm days with the special event first and the surplus on the last
  non-farm day, fills a non-farm day without a tour with a free-day marker, and dates every
  day from the start date. \<open>generate_schedule\<close> composes it with the two text readers of
  \<open>Duration\<close>, as the produced API does. \<open>to_schedule_item\<close> is the item as the
  schedule API transports it to the front end (\<open>Schedule_Item\<close>).
\<close>

subsection \<open>Calendar arithmetic\<close>

definition leap_year :: "nat \<Rightarrow> bool" where
  "leap_year y \<longleftrightarrow> 4 dvd y \<and> (\<not> 100 dvd y \<or> 400 dvd y)"

definition days_in_month :: "nat \<Rightarrow> nat \<Rightarrow> nat" where
  "days_in_month y m =
     (if m = 2 then (if leap_year y then 29 else 28)
      else if m \<in> {4, 6, 9, 11} then 30 else 31)"

definition next_day :: "date \<Rightarrow> date" where
  "next_day dt =
     (case dt of Date y m d \<Rightarrow>
        if d < days_in_month y m then Date y m (Suc d)
        else if m < 12 then Date y (Suc m) 1 else Date (Suc y) 1 1)"

definition add_days :: "date \<Rightarrow> nat \<Rightarrow> date" where
  "add_days dt n = (next_day ^^ n) dt"

subsection \<open>Selections, items and the itinerary\<close>

record place =
  pl_name :: string
  pl_address :: string

datatype item_kind = KFarm | KTour

record sched_entry =
  e_day :: nat
  e_date :: date
  e_kind :: item_kind
  e_name :: string
  e_start :: string
  e_address :: string

record itinerary =
  itin_id :: string
  total_days :: nat
  items :: "sched_entry list"
  farm_days_count :: nat
  tour_days_count :: nat
  itin_region :: string

datatype core_error =
    UnsupportedRegionError
  | NoFarmSelectedError
  | NoCandidatesError
  | DurationUnavailableError
  | FeedbackTargetInvalidError

definition supported_regions :: "string list" where
  "supported_regions = [GIMJE]"

text \<open>Start times as the schedule API's example shows them (farm days from 08:00, the
  arrival-day tour at 15:00).\<close>

definition FARM_START :: string where
  "FARM_START = ''08:00''"

definition TOUR_START :: string where
  "TOUR_START = ''15:00''"

text \<open>The free-day marker (jayu iljeong) of a non-farm day without a tour.\<close>

definition FREE_DAY :: string where
  "FREE_DAY = [CHR 0xEC, CHR 0x9E, CHR 0x90, CHR 0xEC, CHR 0x9C, CHR 0xA0, CHR 0xEC, CHR 0x9D, CHR 0xBC,
               CHR 0xEC, CHR 0xA0, CHR 0x95]"

definition is_farm_entry :: "sched_entry \<Rightarrow> bool" where
  "is_farm_entry e \<longleftrightarrow> e_kind e = KFarm"

definition day_date :: "date \<Rightarrow> nat \<Rightarrow> date" where
  "day_date start d = add_days start (d - 1)"

definition farm_entry :: "date \<Rightarrow> place \<Rightarrow> nat \<Rightarrow> sched_entry" where
  "farm_entry start f d =
     \<lparr>e_day = d, e_date = day_date start d, e_kind = KFarm, e_name = pl_name f,
      e_start = FARM_START, e_address = pl_address f\<rparr>"

definition tour_entry :: "date \<Rightarrow> nat \<Rightarrow> place \<Rightarrow> sched_entry" where
  "tour_entry start d t =
     \<lparr>e_day = d, e_date = day_date start d, e_kind = KTour, e_name = pl_name t,
      e_start = TOUR_START, e_address = pl_address t\<rparr>"

definition free_entry :: "date \<Rightarrow> nat \<Rightarrow> sched_entry" where
  "free_entry start d =
     \<lparr>e_day = d, e_date = day_date start d, e_kind = KTour, e_name = FREE_DAY,
      e_start = [], e_address = []\<rparr>"

subsection \<open>The builder\<close>

text \<open>Step 1 and 2: with tour content, one day is reserved before the farm block and one
  after it while the farm keeps at least one day; the farm block starts on day 2 after a
  reserved day.\<close>

definition reserved_days :: "nat \<Rightarrow> bool \<Rightarrow> nat" where
  "reserved_days n has_tours = (if has_tours then min 2 (n - 1) else 0)"

definition farm_first :: "nat \<Rightarrow> nat" where
  "farm_first r = (if 1 \<le> r then 2 else 1)"

definition farm_last :: "nat \<Rightarrow> nat \<Rightarrow> nat" where
  "farm_last n r = farm_first r + (n - r) - 1"

definition is_farm_day :: "nat \<Rightarrow> nat \<Rightarrow> nat \<Rightarrow> bool" where
  "is_farm_day n r d \<longleftrightarrow> farm_first r \<le> d \<and> d \<le> farm_last n r"

definition non_farm_days :: "nat \<Rightarrow> nat \<Rightarrow> nat list" where
  "non_farm_days n r = filter (\<lambda>d. \<not> is_farm_day n r d) [1..<Suc n]"

text \<open>Step 3: one tour per non-farm day in order; the last non-farm day takes every tour
  left over.\<close>

fun assign_tours :: "nat list \<Rightarrow> 'a list \<Rightarrow> (nat \<times> 'a) list" where
  "assign_tours [] ts = []"
| "assign_tours [d] ts = map (Pair d) ts"
| "assign_tours (d # ds) [] = []"
| "assign_tours (d # ds) (t # ts) = (d, t) # assign_tours ds ts"

definition tours_of :: "special_event option \<Rightarrow> place list \<Rightarrow> place list" where
  "tours_of sp ts =
     (case sp of None \<Rightarrow> ts | Some e \<Rightarrow> \<lparr>pl_name = ev_name e, pl_address = ev_address e\<rparr> # ts)"

definition day_items ::
  "date \<Rightarrow> place \<Rightarrow> nat \<Rightarrow> nat \<Rightarrow> (nat \<times> place) list \<Rightarrow> nat \<Rightarrow> sched_entry list" where
  "day_items start f n r asg d =
     (if is_farm_day n r d then [farm_entry start f d]
      else (case filter (\<lambda>p. fst p = d) asg of
              [] \<Rightarrow> [free_entry start d]
            | ps \<Rightarrow> map (tour_entry start d \<circ> snd) ps))"

text \<open>Steps 1 to 3 and 5 for a resolved length of \<open>n\<close> days: the items day by day, sorted by
  day, and the summary.\<close>

definition lay_out :: "date \<Rightarrow> place \<Rightarrow> nat \<Rightarrow> place list \<Rightarrow> string \<Rightarrow> string \<Rightarrow> itinerary" where
  "lay_out start f n ts region iid =
     (let r = reserved_days n (ts \<noteq> []);
          asg = assign_tours (non_farm_days n r) ts
      in \<lparr>itin_id = iid, total_days = n,
          items = concat (map (day_items start f n r asg) [1..<Suc n]),
          farm_days_count = n - r, tour_days_count = r, itin_region = region\<rparr>)"

text \<open>The validations of section 7, in the order region, farm, duration; a duration is
  brought into 1..10.\<close>

definition build ::
  "string \<Rightarrow> place option \<Rightarrow> place list \<Rightarrow> nat option \<Rightarrow> nat option \<Rightarrow> date \<Rightarrow>
   special_event option \<Rightarrow> string \<Rightarrow> core_error + itinerary" where
  "build region farm tours dur default_days start special iid =
     (if region \<notin> set supported_regions then Inl UnsupportedRegionError
      else case farm of
        None \<Rightarrow> Inl NoFarmSelectedError
      | Some f \<Rightarrow>
          (case (case dur of Some d \<Rightarrow> Some d | None \<Rightarrow> default_days) of
             None \<Rightarrow> Inl DurationUnavailableError
           | Some d \<Rightarrow> Inr (lay_out start f (max 1 (min MAX_DAYS d)) (tours_of special tours) region iid)))"

text \<open>\<open>generate_schedule\<close> of the produced API: the duration and the start date are read
  from the request, with the default of one day when no duration is found.\<close>

definition generate_schedule ::
  "place option \<Rightarrow> place list \<Rightarrow> string \<Rightarrow> string \<Rightarrow> date \<Rightarrow> string \<Rightarrow> core_error + itinerary" where
  "generate_schedule farm tours text region today iid =
     (case resolve_start text region today of
        None \<Rightarrow> Inl DurationUnavailableError
      | Some (start, special) \<Rightarrow>
          build region farm tours (Some (fst (duration_or_default text))) None start special iid)"

subsection \<open>The itinerary invariant (spec section 3)\<close>

definition farm_days :: "itinerary \<Rightarrow> nat list" where
  "farm_days it = map e_day (filter is_farm_entry (items it))"

definition days_contiguous :: "itinerary \<Rightarrow> bool" where
  "days_contiguous it \<longleftrightarrow>
     sorted (map e_day (items it)) \<and> set (map e_day (items it)) = set [1..<Suc (total_days it)]"

definition single_farm_block :: "itinerary \<Rightarrow> bool" where
  "single_farm_block it \<longleftrightarrow>
     (case filter is_farm_entry (items it) of
        [] \<Rightarrow> False
      | f # fs \<Rightarrow>
          list_all (\<lambda>g. e_name g = e_name f \<and> e_address g = e_address f) fs \<and>
          farm_days it = [e_day f..<Suc (last (farm_days it))])"

definition same_day_same_date :: "itinerary \<Rightarrow> bool" where
  "same_day_same_date it \<longleftrightarrow>
     list_all (\<lambda>e. list_all (\<lambda>e'. e_day e' = e_day e \<longrightarrow> e_date e' = e_date e) (items it)) (items it)"

definition summary_ok :: "itinerary \<Rightarrow> bool" where
  "summary_ok it \<longleftrightarrow>
     farm_days_count it + tour_days_count it = total_days it \<and>
     farm_days_count it = length (farm_days it)"

definition itin_ok :: "itinerary \<Rightarrow> bool" where
  "itin_ok it \<longleftrightarrow>
     1 \<le> total_days it \<and> total_days it \<le> MAX_DAYS \<and> days_contiguous it \<and>
     single_farm_block it \<and> same_day_same_date it \<and> summary_ok it"

subsection \<open>The item as the schedule API sends it\<close>

definition pad2 :: "nat \<Rightarrow> string" where
  "pad2 n = (if n < 10 then ''0'' @ nat_str n else nat_str n)"

definition date_str :: "date \<Rightarrow> string" where
  "date_str dt = nat_str (date_year dt) @ ''-'' @ pad2 (date_month dt) @ ''-'' @ pad2 (date_day dt)"

definition to_schedule_item :: "sched_entry \<Rightarrow> schedule_item" where
  "to_schedule_item e =
     \<lparr>day = e_day e, date = date_str (e_date e),
      schedule_type = (case e_kind e of KFarm \<Rightarrow> FARM_LABEL | KTour \<Rightarrow> TOUR_LABEL),
      name = e_name e, start_time = e_start e, address = e_address e\<rparr>"

text \<open>The selections of the specification's scenario: the orchard farm "Gimje gwasu
  nongjang" and the reservoir "Byeokgolje", both in Gimje.\<close>

definition demo_farm :: place where
  "demo_farm = \<lparr>pl_name = [CHR 0xEA, CHR 0xB9, CHR 0x80, CHR 0xEC, CHR 0xA0, CHR 0x9C, CHR 0x20, CHR 0xEA,
                            CHR 0xB3, CHR 0xBC, CHR 0xEC, CHR 0x88, CHR 0x98, CHR 0xEB, CHR 0x86, CHR 0x8D,
                            CHR 0xEC, CHR 0x9E, CHR 0xA5],
                pl_address = GIMJE\<rparr>"

definition demo_tour :: place where
  "demo_tour = \<lparr>pl_name = [CHR 0xEB, CHR 0xB2, CHR 0xBD, CHR 0xEA, CHR 0xB3, CHR 0xA8, CHR 0xEC, CHR 0xA0, CHR 0x9C],
                pl_address = GIMJE\<rparr>"

text \<open>The configured Gimje festival as a tour selection.\<close>

definition demo_festival :: place where
  "demo_festival = \<lparr>pl_name = ev_name (the (map_of special_events (GIMJE, 10))), pl_address = GIMJE\<rparr>"

text \<open>The itinerary of the specification's scenario, with the festival on day 1 and the
  reservoir on the last day.\<close>

definition demo_itin :: itinerary where
  "demo_itin = lay_out (Date 2026 10 1) demo_farm 10 [demo_festival, demo_tour] GIMJE ''it-1''"

subsection \<open>Lemmas\<close>

lemma farm_block_bounds:
  "1 \<le> n \<Longrightarrow>
   1 \<le> farm_first (reserved_days n b) \<and> farm_first (reserved_days n b) \<le> farm_last n (reserved_days n b) \<and>
   farm_last n (reserved_days n b) \<le> n \<and>
   Suc (farm_last n (reserved_days n b)) - farm_first (reserved_days n b) = n - reserved_days n b \<and>
   reserved_days n b < n"
  by (auto simp: reserved_days_def farm_first_def farm_last_def)

lemma day_items_labels:
  "\<forall>e\<in>set (day_items start f n r asg d). e_day e = d \<and> e_date e = day_date start d"
  by (auto simp: day_items_def farm_entry_def free_entry_def tour_entry_def split: list.splits)

lemma day_items_nonempty [simp]: "day_items start f n r asg d \<noteq> []"
  by (simp add: day_items_def split: list.splits)

lemma day_items_farm:
  "filter is_farm_entry (day_items start f n r asg d) =
     (if is_farm_day n r d then [farm_entry start f d] else [])"
  by (auto simp: day_items_def is_farm_entry_def farm_entry_def free_entry_def tour_entry_def
           split: list.splits)

lemma is_farm_day_interval: "is_farm_day n r = (\<lambda>d. farm_first r \<le> d \<and> d \<le> farm_last n r)"
  by (rule ext) (simp add: is_farm_day_def)

lemma farm_entries:
  "1 \<le> n \<Longrightarrow>
   filter is_farm_entry (concat (map (day_items start f n (reserved_days n b) asg) [1..<Suc n])) =
     map (farm_entry start f) [farm_first (reserved_days n b)..<Suc (farm_last n (reserved_days n b))]"
proof -
  assume n: "1 \<le> n"
  let ?r = "reserved_days n b"
  have "filter is_farm_entry (concat (map (day_items start f n ?r asg) [1..<Suc n])) =
          map (farm_entry start f) (filter (is_farm_day n ?r) [1..<Suc n])"
    by (simp add: filter_concat comp_def day_items_farm concat_map_if_single)
  also have "filter (is_farm_day n ?r) [1..<Suc n] = [farm_first ?r..<Suc (min (farm_last n ?r) n)]"
    unfolding is_farm_day_interval using farm_block_bounds [OF n, of b] by (intro filter_interval_upt) simp
  also have "min (farm_last n ?r) n = farm_last n ?r"
    using farm_block_bounds [OF n, of b] by simp
  finally show ?thesis .
qed

lemma farm_days_lay_out:
  "1 \<le> n \<Longrightarrow>
   farm_days (lay_out start f n ts rg iid) =
     [farm_first (reserved_days n (ts \<noteq> []))..<Suc (farm_last n (reserved_days n (ts \<noteq> [])))]"
proof -
  assume n: "1 \<le> n"
  show ?thesis unfolding farm_days_def lay_out_def Let_def itinerary.select_convs farm_entries [OF n]
    by (simp add: comp_def farm_entry_def)
qed



lemma build_InrE:
  assumes "build region farm tours dur dflt start sp iid = Inr it"
  obtains f d where "farm = Some f"
    and "it = lay_out start f (max 1 (min MAX_DAYS d)) (tours_of sp tours) region iid"
  using assms by (auto simp: build_def split: if_splits option.splits)

text \<open>Every itinerary laid out by the builder satisfies the invariant, whatever the tour
  assignment: the invariant only needs every day to be non-empty and the farm block to
  be the interval \<open>farm_first .. farm_last\<close>.\<close>

lemma layout_ok:
  assumes n: "1 \<le> n" "n \<le> MAX_DAYS"
  shows "itin_ok (lay_out start f n ts rg iid)"
proof -
  let ?b = "ts \<noteq> []"
  let ?r = "reserved_days n ?b"
  let ?a = "farm_first ?r" and ?z = "farm_last n ?r"
  let ?asg = "assign_tours (non_farm_days n ?r) ts"
  let ?it = "\<lparr>itin_id = iid, total_days = n,
              items = concat (map (day_items start f n ?r ?asg) [1..<Suc n]),
              farm_days_count = n - ?r, tour_days_count = ?r, itin_region = rg\<rparr>"
  have lab: "\<forall>d\<in>set [1..<Suc n]. \<forall>e\<in>set (day_items start f n ?r ?asg d). e_day e = d"
    using day_items_labels by blast
  have bounds: "1 \<le> ?a \<and> ?a \<le> ?z \<and> ?z \<le> n \<and> Suc ?z - ?a = n - ?r \<and> ?r < n"
    using farm_block_bounds [OF n(1)] by blast
  have fe: "filter is_farm_entry (items ?it) = map (farm_entry start f) [?a..<Suc ?z]"
    using farm_entries [OF n(1), of start f ?b ?asg] by (simp only: itinerary.select_convs)
  have fd: "farm_days ?it = [?a..<Suc ?z]"
    using farm_days_lay_out [OF n(1), of start f ts rg iid] by (simp add: lay_out_def Let_def)
  have "set (map e_day (items ?it)) = set [1..<Suc n]"
    unfolding itinerary.select_convs by (rule set_day_labels [OF lab]) simp
  moreover have "sorted (map e_day (items ?it))"
    unfolding itinerary.select_convs by (rule sorted_day_labels [OF lab]) (rule sorted_upt)
  ultimately have "days_contiguous ?it" by (simp only: days_contiguous_def itinerary.select_convs)
  moreover have "single_farm_block ?it"
  proof -
    have "[?a..<Suc ?z] = ?a # [Suc ?a..<Suc ?z]" using bounds by (simp add: upt_rec)
    then show ?thesis unfolding single_farm_block_def fe fd
      using bounds by (simp add: list_all_iff farm_entry_def)
  qed
  moreover have "same_day_same_date ?it"
    using day_items_labels [of start f n ?r ?asg]
    by (auto simp: same_day_same_date_def list_all_iff)
  moreover have "summary_ok ?it"
    unfolding summary_ok_def fd itinerary.select_convs using bounds by (simp, arith)
  ultimately have "itin_ok ?it" using n by (simp add: itin_ok_def)
  then show ?thesis by (simp add: lay_out_def Let_def)
qed

lemma total_days_lay_out [simp]: "total_days (lay_out start f n ts rg iid) = n"
  by (simp add: lay_out_def Let_def)

lemma no_farm_days:
  "\<forall>d\<in>set ds. \<not> is_farm_day n r d \<Longrightarrow> \<not> list_ex is_farm_entry (concat (map (day_items start f n r asg) ds))"
proof (induction ds)
  case (Cons d ds)
  then have "filter is_farm_entry (day_items start f n r asg d) = []" by (simp add: day_items_farm)
  then have "\<not> list_ex is_farm_entry (day_items start f n r asg d)"
    by (simp add: list_ex_iff filter_empty_conv)
  with Cons show ?case by simp
qed simp

text \<open>The items of a laid-out itinerary are the non-farm days before the farm block, the
  farm block, one farm item a day, and the non-farm days after it.\<close>

lemma lay_out_farm_run:
  assumes n: "1 \<le> n"
  shows "\<exists>pre post. items (lay_out start f n ts rg iid) =
           pre @ map (farm_entry start f) [farm_first (reserved_days n (ts \<noteq> []))..<
                                             Suc (farm_last n (reserved_days n (ts \<noteq> [])))] @ post \<and>
           \<not> list_ex is_farm_entry pre \<and> \<not> list_ex is_farm_entry post"
proof -
  let ?r = "reserved_days n (ts \<noteq> [])"
  let ?a = "farm_first ?r" and ?z = "farm_last n ?r"
  let ?g = "day_items start f n ?r (assign_tours (non_farm_days n ?r) ts)"
  have b: "1 \<le> ?a \<and> ?a \<le> ?z \<and> ?z \<le> n" using farm_block_bounds [OF n] by blast
  then have ds: "[1..<Suc n] = [1..<?a] @ [?a..<Suc ?z] @ [Suc ?z..<Suc n]"
    by (simp del: upt_Suc add: upt_append)
  have mid: "concat (map ?g [?a..<Suc ?z]) = map (farm_entry start f) [?a..<Suc ?z]"
    by (rule concat_map_single) (auto simp: day_items_def is_farm_day_def)
  have "\<not> list_ex is_farm_entry (concat (map ?g [1..<?a]))"
    by (rule no_farm_days) (simp add: is_farm_day_def)
  moreover have "\<not> list_ex is_farm_entry (concat (map ?g [Suc ?z..<Suc n]))"
    by (rule no_farm_days) (auto simp: is_farm_day_def)
  moreover have "items (lay_out start f n ts rg iid) =
                   concat (map ?g [1..<?a]) @ map (farm_entry start f) [?a..<Suc ?z] @
                   concat (map ?g [Suc ?z..<Suc n])"
    unfolding lay_out_def Let_def itinerary.select_convs ds map_append concat_append mid ..
  ultimately show ?thesis by blast
qed

lemma is_farm_to_schedule_item [simp]: "is_farm (to_schedule_item e) \<longleftrightarrow> is_farm_entry e"
  by (cases "e_kind e") (simp_all add: is_farm_def to_schedule_item_def is_farm_entry_def)

lemma generate_InrE:
  assumes "generate_schedule fm ts req rg today iid = Inr it"
  obtains start sp where "resolve_start req rg today = Some (start, sp)"
    and "build rg fm ts (Some (fst (duration_or_default req))) None start sp iid = Inr it"
  using assms by (auto simp: generate_schedule_def split: option.splits)

text \<open>Every itinerary the builder produces satisfies the invariants of the specification.\<close>

lemma build_itinerary_ok:
  "build region farm tours dur dflt start sp iid = Inr it \<Longrightarrow> itin_ok it"
proof (elim build_InrE)
  fix f d assume "it = lay_out start f (max 1 (min MAX_DAYS d)) (tours_of sp tours) region iid"
  moreover have "1 \<le> max 1 (min MAX_DAYS d)" "max 1 (min MAX_DAYS d) \<le> MAX_DAYS"
    by (simp_all add: MAX_DAYS_def)
  ultimately show "itin_ok it" using layout_ok by blast
qed

lemma build_total_days:
  "build region farm tours (Some d) dflt start sp iid = Inr it \<Longrightarrow> total_days it = max 1 (min MAX_DAYS d)"
  by (auto simp: build_def split: if_splits option.splits)

text \<open>The scenario evaluated: "10 wol yeolheul" in Gimje, asked on 15 December 2025.\<close>

lemma demo_build:
  "build GIMJE (Some demo_farm) [demo_tour] (Some 10) None (Date 2026 10 1)
     (map_of special_events (GIMJE, 10)) ''it-1'' = Inr demo_itin"
  by (simp add: build_def supported_regions_def MAX_DAYS_def tours_of_def special_events_def
                demo_festival_def demo_itin_def)

lemma demo_resolve:
  "resolve_start demo_request GIMJE (Date 2025 12 15) = Some (Date 2026 10 1, map_of special_events (GIMJE, 10))"
  by (simp add: resolve_start_def month_of_text_def demo_request_def MONTH_UNIT_def digit_val_def
                next_occurrence.simps)

lemma demo_generate:
  "generate_schedule (Some demo_farm) [demo_tour] demo_request GIMJE (Date 2025 12 15) ''it-1'' = Inr demo_itin"
proof -
  have du: "duration_or_default demo_request = (10, False)"
    by (simp add: duration_or_default_def extract_duration_def demo_request_def MONTH_UNIT_def DAY_UNIT_def
                  digit_val_def numeral_word_def numeral_words_def js_includes_def clamp_days_def MAX_DAYS_def)
  show ?thesis using demo_resolve du demo_build by (simp add: generate_schedule_def)
qed

subsection \<open>Properties\<close>

text \<open>C35: every itinerary \<open>generate_schedule\<close> produces satisfies the invariants of the
  specification: 1 to 10 days numbered 1..n without gaps and sorted, one non-empty
  contiguous farm block whose items share name and address, one date per day, and a
  summary whose farm and tour day counts add up to the length.\<close>

theorem generate_schedule_ok:
  "generate_schedule fm ts req rg today iid = Inr it \<Longrightarrow> itin_ok it"
  by (elim generate_InrE) (rule build_itinerary_ok)

theorem generate_schedule_ok_witness:
  "generate_schedule (Some demo_farm) [demo_tour] demo_request GIMJE (Date 2025 12 15) ''it-1'' = Inr demo_itin \<and>
   itin_ok demo_itin"
  using generate_schedule_ok [OF demo_generate] demo_generate by simp

text \<open>C32: the length of a generated itinerary is the duration read from the request, and
  it is always within the specification's bounds 1..10: a phrase above ten days is clamped,
  and a request without a duration gets the one-day default.\<close>

theorem generate_schedule_length:
  "generate_schedule fm ts req rg today iid = Inr it \<Longrightarrow>
   1 \<le> total_days it \<and> total_days it \<le> MAX_DAYS \<and> total_days it = fst (duration_or_default req)"
proof (elim generate_InrE)
  fix start sp
  assume "build rg fm ts (Some (fst (duration_or_default req))) None start sp iid = Inr it"
  then have "total_days it = max 1 (min MAX_DAYS (fst (duration_or_default req)))"
    by (rule build_total_days)
  with duration_or_default_bounds [of req] show ?thesis by simp
qed

theorem generate_schedule_length_witness:
  "generate_schedule (Some demo_farm) [demo_tour] demo_request GIMJE (Date 2025 12 15) ''it-1'' = Inr demo_itin \<and>
   total_days demo_itin = 10 \<and> fst (duration_or_default demo_request) = 10"
  using generate_schedule_length [OF demo_generate] demo_generate by (simp add: demo_itin_def)

text \<open>C33: a request "N bak M il" (N nights, M days) gives an itinerary of M days, clamped
  to 10: the night count is skipped and the day count printed before the day unit is read
  back exactly.\<close>

theorem generate_schedule_nights_days:
  "0 < m \<Longrightarrow> generate_schedule fm ts (nat_str n @ NIGHT_UNIT @ nat_str m @ DAY_UNIT @ r) rg today iid = Inr it \<Longrightarrow>
   total_days it = min MAX_DAYS m"
proof (elim generate_InrE)
  fix start sp
  assume m: "0 < m"
    and b: "build rg fm ts (Some (fst (duration_or_default (nat_str n @ NIGHT_UNIT @ nat_str m @ DAY_UNIT @ r))))
              None start sp iid = Inr it"
  have "fst (duration_or_default (nat_str n @ NIGHT_UNIT @ nat_str m @ DAY_UNIT @ r)) = min MAX_DAYS m"
    using extract_duration_nights_days [OF m, of n r] by (simp add: duration_or_default_def)
  with build_total_days [OF b] m show ?thesis by (simp add: MAX_DAYS_def)
qed

theorem generate_schedule_nights_days_witness:
  "\<exists>it. generate_schedule (Some demo_farm) [demo_tour] (''3'' @ NIGHT_UNIT @ ''4'' @ DAY_UNIT) GIMJE
          (Date 2026 5 1) ''it-2'' = Inr it \<and> total_days it = 4"
proof -
  have s: "nat_str 3 = ''3''" "nat_str 4 = ''4''" by (simp_all add: nat_str.simps char_of_def bit_0)
  have "\<exists>it. generate_schedule (Some demo_farm) [demo_tour] (''3'' @ NIGHT_UNIT @ ''4'' @ DAY_UNIT) GIMJE
          (Date 2026 5 1) ''it-2'' = Inr it"
    by (simp add: generate_schedule_def resolve_start_def month_of_text_def NIGHT_UNIT_def DAY_UNIT_def
                  MONTH_UNIT_def digit_val_def build_def supported_regions_def)
  then obtain it where g: "generate_schedule (Some demo_farm) [demo_tour] (''3'' @ NIGHT_UNIT @ ''4'' @ DAY_UNIT)
                             GIMJE (Date 2026 5 1) ''it-2'' = Inr it" by blast
  have "total_days it = min MAX_DAYS 4"
    using generate_schedule_nights_days [of 4 "Some demo_farm" "[demo_tour]" 3 "[]" GIMJE "Date 2026 5 1" "''it-2''" it]
          g s by simp
  with g show ?thesis by (auto simp: MAX_DAYS_def)
qed




end
