(* ===== verification/Scorer.thy ===== *)
theory Scorer
  imports Prelude "HOL-Library.Multiset" "HOL-Library.Product_Lexorder"
begin

text \<open>
  The PreferenceScorer of the recommendation engine (spec section 4.1), as the API
  document quotes its implementation, \<open>score_and_rank_attractions\<close>
  (src/unnamed/part_001 lines 728-750). A candidate's score is twice the number of the
  user's travel styles that match one of its style keywords, plus one if a landscape
  preference matches; keywords match when equal after removing white space. The result is
  \<open>sorted(scored, key=score, reverse=True)\<close>: Python's sort is a stable merge sort, and
  \<open>reverse=True\<close> keeps equal scores in their input order, which \<open>msort_rank\<close> does.
  The result pairs each candidate with its score.
\<close>

record candidate =
  cand_id :: string
  cand_name :: string
  cand_address :: string
  landscape_kw :: "string list"
  style_kw :: "string list"

definition norm_tag :: "string \<Rightarrow> string" where
  "norm_tag t = filter (\<lambda>c. \<not> js_ws c) t"

text \<open>\<open>keywords_match\<close>: equality after white-space normalisation (its body is not shown in
  the document; the specification asks for normalised string equality).\<close>

definition keywords_match :: "string \<Rightarrow> string \<Rightarrow> bool" where
  "keywords_match a b \<longleftrightarrow> norm_tag a = norm_tag b"

text \<open>The loop body of \<open>score_and_rank_attractions\<close>: two points for every user travel
  style that matches one of the attraction's style keywords, one point when the user has
  landscape preferences and one of them matches a landscape keyword.\<close>

definition cand_score :: "string list \<Rightarrow> string list \<Rightarrow> candidate \<Rightarrow> nat" where
  "cand_score styles lands c =
     length (filter (\<lambda>s. list_ex (keywords_match s) (style_kw c)) styles) * 2 +
     (if lands \<noteq> [] \<and> list_ex (\<lambda>l. list_ex (keywords_match l) (landscape_kw c)) lands then 1 else 0)"

text \<open>An entry of the ranking: score, input position, candidate.\<close>

type_synonym entry = "nat \<times> nat \<times> candidate"

fun merge_rank :: "entry list \<Rightarrow> entry list \<Rightarrow> entry list" where
  "merge_rank [] ys = ys"
| "merge_rank xs [] = xs"
| "merge_rank (x # xs) (y # ys) =
     (if fst x < fst y then y # merge_rank (x # xs) ys else x # merge_rank xs (y # ys))"

function msort_rank :: "entry list \<Rightarrow> entry list" where
  "msort_rank xs =
     (if length xs \<le> 1 then xs
      else merge_rank (msort_rank (take (length xs div 2) xs)) (msort_rank (drop (length xs div 2) xs)))"
  by pat_completeness auto
termination by (relation "measure length") auto

declare msort_rank.simps [simp del]

definition score_and_rank :: "candidate list \<Rightarrow> string list \<Rightarrow> string list \<Rightarrow> (candidate \<times> nat) list" where
  "score_and_rank cs styles lands =
     map (\<lambda>(s, i, c). (c, s)) (msort_rank (map (\<lambda>(i, c). (cand_score styles lands c, i, c)) (enumerate 0 cs)))"

text \<open>The reference order of the specification: by score descending, then by input
  position ascending.\<close>

definition score_key :: "entry \<Rightarrow> int" where
  "score_key e = - int (fst e)"

definition rank_key :: "entry \<Rightarrow> int \<times> nat" where
  "rank_key e = (score_key e, fst (snd e))"

definition entries :: "string list \<Rightarrow> string list \<Rightarrow> candidate list \<Rightarrow> entry list" where
  "entries styles lands cs = map (\<lambda>(i, c). (cand_score styles lands c, i, c)) (enumerate 0 cs)"

text \<open>Candidates for the witnesses.\<close>

definition demo_cand :: "string \<Rightarrow> string list \<Rightarrow> string list \<Rightarrow> candidate" where
  "demo_cand n ls ss = \<lparr>cand_id = n, cand_name = n, cand_address = ''Gimje'', landscape_kw = ls,
                         style_kw = ss\<rparr>"

subsection \<open>Lemmas\<close>

lemma mset_merge_rank [simp]: "mset (merge_rank xs ys) = mset xs + mset ys"
  by (induction xs ys rule: merge_rank.induct) auto

lemma set_merge_rank [simp]: "set (merge_rank xs ys) = set xs \<union> set ys"
  by (metis mset_merge_rank set_mset_mset set_mset_union)

lemma sorted_merge_rank:
  "sorted (map score_key xs) \<Longrightarrow> sorted (map score_key ys) \<Longrightarrow> sorted (map score_key (merge_rank xs ys))"
  by (induction xs ys rule: merge_rank.induct) (auto simp: score_key_def)

lemma filter_merge_rank:
  "sorted (map score_key xs) \<Longrightarrow> sorted (map score_key ys) \<Longrightarrow>
   filter (\<lambda>x. k = score_key x) (merge_rank xs ys) =
   filter (\<lambda>x. k = score_key x) xs @ filter (\<lambda>x. k = score_key x) ys"
proof (induction xs ys rule: merge_rank.induct)
  case (3 x xs y ys)
  show ?case
  proof (cases "fst x < fst y")
    case True
    have "filter (\<lambda>x. k = score_key x) (x # xs) = [] \<or> k \<noteq> score_key y"
    proof (cases "k = score_key y")
      case True
      with \<open>fst x < fst y\<close> "3.prems"(1) have "\<forall>z\<in>set (x # xs). k \<noteq> score_key z"
        by (auto simp: score_key_def)
      then show ?thesis by (simp add: filter_empty_conv)
    qed simp
    with True "3.IH"(1) "3.prems" show ?thesis by auto
  next
    case False
    with "3.IH"(2) "3.prems" show ?thesis by auto
  qed
qed simp_all

text \<open>The sort keeps the entries it is given, whatever order it puts them in.\<close>

lemma mset_msort_rank [simp]: "mset (msort_rank xs) = mset xs"
proof (induction xs rule: msort_rank.induct)
  case (1 xs)
  show ?case
  proof (cases "length xs \<le> 1")
    case True
    then show ?thesis by (subst msort_rank.simps) simp
  next
    case False
    then have "msort_rank xs = merge_rank (msort_rank (take (length xs div 2) xs))
                                          (msort_rank (drop (length xs div 2) xs))"
      by (subst msort_rank.simps) simp
    with False "1.IH" show ?thesis by (simp flip: mset_append)
  qed
qed

lemma set_msort_rank [simp]: "set (msort_rank xs) = set xs"
  by (metis mset_msort_rank set_mset_mset)

lemma msort_rank_props:
  "mset (msort_rank xs) = mset xs \<and> sorted (map score_key (msort_rank xs)) \<and>
   (\<forall>k. filter (\<lambda>x. k = score_key x) (msort_rank xs) = filter (\<lambda>x. k = score_key x) xs)"
proof (induction xs rule: msort_rank.induct)
  case (1 xs)
  show ?case
  proof (cases "length xs \<le> 1")
    case True
    then have e: "msort_rank xs = xs" by (subst msort_rank.simps) simp
    from True have "sorted (map score_key xs)" by (cases xs) auto
    with e show ?thesis by simp
  next
    case False
    let ?l = "take (length xs div 2) xs" and ?r = "drop (length xs div 2) xs"
    from False "1.IH" have l: "mset (msort_rank ?l) = mset ?l \<and> sorted (map score_key (msort_rank ?l)) \<and>
        (\<forall>k. filter (\<lambda>x. k = score_key x) (msort_rank ?l) = filter (\<lambda>x. k = score_key x) ?l)" by simp
    from False "1.IH" have r: "mset (msort_rank ?r) = mset ?r \<and> sorted (map score_key (msort_rank ?r)) \<and>
        (\<forall>k. filter (\<lambda>x. k = score_key x) (msort_rank ?r) = filter (\<lambda>x. k = score_key x) ?r)" by simp
    have e: "msort_rank xs = merge_rank (msort_rank ?l) (msort_rank ?r)"
      using False by (subst msort_rank.simps) simp
    have m: "mset (msort_rank xs) = mset xs"
      using l r e by (simp flip: mset_append)
    have s: "sorted (map score_key (msort_rank xs))"
      using l r e by (simp add: sorted_merge_rank)
    have "filter (\<lambda>x. k = score_key x) (msort_rank xs) = filter (\<lambda>x. k = score_key x) xs" for k
      using l r e by (simp add: filter_merge_rank flip: filter_append)
    with m s show ?thesis by blast
  qed
qed

lemma msort_rank_eq_sort_key: "msort_rank xs = sort_key score_key xs"
proof (rule properties_for_sort_key [symmetric])
  show "mset (msort_rank xs) = mset xs" using msort_rank_props by blast
  show "sorted (map score_key (msort_rank xs))" using msort_rank_props by blast
  fix k
  show "filter (\<lambda>x. score_key k = score_key x) (msort_rank xs) = filter (\<lambda>x. score_key k = score_key x) xs"
    using msort_rank_props by blast
qed

lemma sorted_insort_rank:
  "sorted (map rank_key ys) \<Longrightarrow> \<forall>y\<in>set ys. fst (snd x) < fst (snd y) \<Longrightarrow>
   sorted (map rank_key (insort_key score_key x ys))"
proof (induction ys)
  case Nil
  then show ?case by simp
next
  case (Cons y ys)
  show ?case
  proof (cases "score_key x \<le> score_key y")
    case True
    with Cons.prems have "rank_key x \<le> rank_key y"
      by (auto simp: rank_key_def less_eq_prod_def)
    with True Cons.prems show ?thesis by auto
  next
    case False
    then have yx: "rank_key y \<le> rank_key x" by (simp add: rank_key_def less_eq_prod_def)
    from Cons.prems have ys: "\<forall>z\<in>set ys. rank_key y \<le> rank_key z" by simp
    from Cons.prems have IH: "sorted (map rank_key (insort_key score_key x ys))" by (intro Cons.IH) simp_all
    have "\<forall>z\<in>set (insort_key score_key x ys). rank_key y \<le> rank_key z"
      using ys yx by (simp add: set_insort_key)
    with False IH show ?thesis by simp
  qed
qed

lemma sorted_rank_sort_key:
  "sorted_wrt (<) (map (\<lambda>e. fst (snd e)) xs) \<Longrightarrow> sorted (map rank_key (sort_key score_key xs))"
proof (induction xs)
  case Nil
  then show ?case by simp
next
  case (Cons x xs)
  then show ?case by (auto intro!: sorted_insort_rank simp: set_sort)
qed

lemma filter_single: "mset a = mset b \<Longrightarrow> length b \<le> 1 \<Longrightarrow> a = b"
  by (cases b) (auto dest: mset_eq_length simp: length_Suc_conv)

lemma idx_enumerate: "map (\<lambda>e. fst (snd e)) (entries st ls cs) = [0..<length cs]"
  by (simp add: entries_def comp_def case_prod_beta enumerate_eq_zip)

lemma distinct_filter_le1:
  "distinct (map g xs) \<Longrightarrow> length (filter (\<lambda>x. g x = v) xs) \<le> 1"
proof (induction xs)
  case (Cons x xs)
  show ?case
  proof (cases "g x = v")
    case True
    from Cons.prems have "g x \<notin> g ` set xs" by simp
    with True have "\<forall>y\<in>set xs. g y \<noteq> v" by blast
    then have "filter (\<lambda>x. g x = v) xs = []" by (simp add: filter_empty_conv)
    with True show ?thesis by simp
  next
    case False
    with Cons show ?thesis by simp
  qed
qed simp



lemma length_filter_mono_pred:
  "(\<And>x. P x \<Longrightarrow> Q x) \<Longrightarrow> length (filter P xs) \<le> length (filter Q xs)"
  by (induction xs) auto

text \<open>Ranking keeps exactly the candidates it is given.\<close>

lemma set_score_and_rank: "fst ` set (score_and_rank cs styles lands) = set cs"
proof -
  have "fst ` set (score_and_rank cs styles lands) = (\<lambda>(s, i, c). c) ` set (entries styles lands cs)"
    by (simp add: score_and_rank_def entries_def [symmetric] image_image case_prod_beta)
  also have "\<dots> = snd ` set (zip [0..<length cs] cs)"
    by (simp add: entries_def enumerate_eq_zip image_image case_prod_beta)
  also have "\<dots> = set cs" by (metis map_snd_zip length_upt diff_zero set_map)
  finally show ?thesis .
qed
subsection \<open>Properties\<close>

text \<open>C31: the ranking is the total order the specification fixes: the merge sort of
  \<open>score_and_rank\<close> lists the scored candidates exactly as the library's stable sort by the
  key (score descending, input position ascending) does, so equal inputs give equal
  rankings and ties keep their input order.\<close>

theorem score_and_rank_reference:
  "score_and_rank cs styles lands =
     map (\<lambda>(s, i, c). (c, s)) (sort_key rank_key (entries styles lands cs))"
proof -
  let ?xs = "entries styles lands cs"
  have sw: "sorted_wrt (<) (map (\<lambda>e. fst (snd e)) ?xs)" by (simp add: idx_enumerate)
  have d: "distinct (map (\<lambda>e. fst (snd e)) ?xs)" by (simp add: idx_enumerate)
  have "sort_key rank_key ?xs = sort_key score_key ?xs"
  proof (rule properties_for_sort_key)
    show "mset (sort_key score_key ?xs) = mset ?xs" by simp
    show "sorted (map rank_key (sort_key score_key ?xs))" using sw by (rule sorted_rank_sort_key)
    fix k
    have "length (filter (\<lambda>x. rank_key k = rank_key x) ?xs) \<le>
          length (filter (\<lambda>x. fst (snd x) = fst (snd k)) ?xs)"
      by (rule length_filter_mono_pred) (simp add: rank_key_def)
    also have "\<dots> \<le> 1" using d by (rule distinct_filter_le1)
    finally have l: "length (filter (\<lambda>x. rank_key k = rank_key x) ?xs) \<le> 1" .
    show "filter (\<lambda>x. rank_key k = rank_key x) (sort_key score_key ?xs) = filter (\<lambda>x. rank_key k = rank_key x) ?xs"
    proof (rule filter_single)
      show "length (filter (\<lambda>x. rank_key k = rank_key x) ?xs) \<le> 1" by (rule l)
    qed simp
  qed
  moreover have "score_and_rank cs styles lands = map (\<lambda>(s, i, c). (c, s)) (msort_rank ?xs)"
    unfolding score_and_rank_def entries_def ..
  ultimately show ?thesis by (simp add: msort_rank_eq_sort_key)
qed
end
