(* ===== verification/Reviser.thy ===== *)
theory Reviser
  imports Builder Scorer
begin

text \<open>
  The FeedbackReviser of the scheduling engine, from the specification (spec.md sections
  4.5 and 7; no code under src/). \<open>revise\<close> reads a day reference from the feedback (an
  ordinal day word, first day to tenth day, or "Day N"), refuses a day the itinerary does
  not have or a farm day, ranks the candidates the itinerary does not use yet with the
  \<open>Scorer\<close>, and puts the best one in place of that day's items; every other item stays
  as it was, and the summary is recomputed. Errors leave the itinerary untouched: they
  are the left side of the result.
\<close>

subsection \<open>Reading the day reference\<close>

text \<open>The ordinal day words cheotjjae-nal (first day) to yeoljjae-nal (tenth day).\<close>

definition ordinal_words :: "(string \<times> nat) list" where
  "ordinal_words =
     [([CHR 0xEC, CHR 0xB2, CHR 0xAB, CHR 0xEC, CHR 0xA7, CHR 0xB8, CHR 0xEB, CHR 0x82, CHR 0xA0], 1),
      ([CHR 0xEB, CHR 0x91, CHR 0x98, CHR 0xEC, CHR 0xA7, CHR 0xB8, CHR 0xEB, CHR 0x82, CHR 0xA0], 2),
      ([CHR 0xEC, CHR 0x85, CHR 0x8B, CHR 0xEC, CHR 0xA7, CHR 0xB8, CHR 0xEB, CHR 0x82, CHR 0xA0], 3),
      ([CHR 0xEB, CHR 0x84, CHR 0xB7, CHR 0xEC, CHR 0xA7, CHR 0xB8, CHR 0xEB, CHR 0x82, CHR 0xA0], 4),
      ([CHR 0xEB, CHR 0x8B, CHR 0xA4, CHR 0xEC, CHR 0x84, CHR 0xAF, CHR 0xEC, CHR 0xA7, CHR 0xB8, CHR 0xEB,
        CHR 0x82, CHR 0xA0], 5),
      ([CHR 0xEC, CHR 0x97, CHR 0xAC, CHR 0xEC, CHR 0x84, CHR 0xAF, CHR 0xEC, CHR 0xA7, CHR 0xB8, CHR 0xEB,
        CHR 0x82, CHR 0xA0], 6),
      ([CHR 0xEC, CHR 0x9D, CHR 0xBC, CHR 0xEA, CHR 0xB3, CHR 0xB1, CHR 0xEC, CHR 0xA7, CHR 0xB8, CHR 0xEB,
        CHR 0x82, CHR 0xA0], 7),
      ([CHR 0xEC, CHR 0x97, CHR 0xAC, CHR 0xEB, CHR 0x8D, CHR 0x9F, CHR 0xEC, CHR 0xA7, CHR 0xB8, CHR 0xEB,
        CHR 0x82, CHR 0xA0], 8),
      ([CHR 0xEC, CHR 0x95, CHR 0x84, CHR 0xED, CHR 0x99, CHR 0x89, CHR 0xEC, CHR 0xA7, CHR 0xB8, CHR 0xEB,
        CHR 0x82, CHR 0xA0], 9),
      ([CHR 0xEC, CHR 0x97, CHR 0xB4, CHR 0xEC, CHR 0xA7, CHR 0xB8, CHR 0xEB, CHR 0x82, CHR 0xA0], 10)]"

text \<open>The decimal number at the start of a string, if it starts with a digit.\<close>

definition lead_number :: "string \<Rightarrow> nat option" where
  "lead_number s =
     (let ds = takeWhile (\<lambda>c. digit_val c \<noteq> None) s
      in if ds = [] then None else Some (foldl (\<lambda>a c. 10 * a + opt_or (digit_val c) 0) 0 ds))"

fun day_number :: "string \<Rightarrow> nat option" where
  "day_number [] = None"
| "day_number (c # cs) =
     (if prefix ''Day '' (c # cs)
      then (case lead_number (drop 4 (c # cs)) of Some k \<Rightarrow> Some k | None \<Rightarrow> day_number cs)
      else day_number cs)"

definition day_ref :: "string \<Rightarrow> nat option" where
  "day_ref fb =
     (case find (\<lambda>(w, k). js_includes fb w) ordinal_words of
        Some (w, k) \<Rightarrow> Some k
      | None \<Rightarrow> day_number fb)"

subsection \<open>Revision\<close>

definition day_entries :: "itinerary \<Rightarrow> nat \<Rightarrow> sched_entry list" where
  "day_entries it d = filter (\<lambda>e. e_day e = d) (items it)"

text \<open>The items of day \<open>d\<close> are replaced, in place, by the one new item.\<close>

fun replace_day :: "nat \<Rightarrow> sched_entry \<Rightarrow> sched_entry list \<Rightarrow> sched_entry list" where
  "replace_day d new [] = []"
| "replace_day d new (x # xs) =
     (if e_day x = d then new # filter (\<lambda>e. e_day e \<noteq> d) xs else x # replace_day d new xs)"

definition recompute_summary :: "itinerary \<Rightarrow> itinerary" where
  "recompute_summary it =
     it\<lparr>farm_days_count := length (farm_days it),
        tour_days_count := total_days it - length (farm_days it)\<rparr>"

text \<open>The item that replaces a tour day: the chosen candidate on that day's date.\<close>

definition revised_entry :: "nat \<Rightarrow> date \<Rightarrow> candidate \<Rightarrow> sched_entry" where
  "revised_entry d dt c =
     \<lparr>e_day = d, e_date = dt, e_kind = KTour, e_name = cand_name c, e_start = TOUR_START,
      e_address = cand_address c\<rparr>"

definition revise ::
  "itinerary \<Rightarrow> string \<Rightarrow> candidate list \<Rightarrow> string list \<Rightarrow> string list \<Rightarrow> core_error + itinerary" where
  "revise it fb cands styles lands =
     (case day_ref fb of
        None \<Rightarrow> Inr it
      | Some d \<Rightarrow>
          (case day_entries it d of
             [] \<Rightarrow> Inl FeedbackTargetInvalidError
           | e0 # _ \<Rightarrow>
               if list_ex is_farm_entry (day_entries it d) then Inl FeedbackTargetInvalidError
               else
                 (case score_and_rank (filter (\<lambda>c. cand_name c \<notin> set (map e_name (items it))) cands)
                         styles lands of
                    [] \<Rightarrow> Inl NoCandidatesError
                  | (c, s) # _ \<Rightarrow>
                      Inr (recompute_summary
                            (it\<lparr>items := replace_day d (revised_entry d (e_date e0) c) (items it)\<rparr>)))))"

text \<open>The scenario of the specification: the ten-day Gimje itinerary \<open>demo_itin\<close>, the feedback
  "cheotjjae-nal iljeong-eul bakkwojuseyo" (please change the first day's plan) or "Day 3",
  and three candidates, the first of which the itinerary already uses.\<close>

definition demo_feedback :: string where
  "demo_feedback =
     [CHR 0xEC, CHR 0xB2, CHR 0xAB, CHR 0xEC, CHR 0xA7, CHR 0xB8, CHR 0xEB, CHR 0x82, CHR 0xA0, CHR 0x20,
      CHR 0xEC, CHR 0x9D, CHR 0xBC, CHR 0xEC, CHR 0xA0, CHR 0x95, CHR 0xEC, CHR 0x9D, CHR 0x84, CHR 0x20,
      CHR 0xEB, CHR 0xB0, CHR 0x94, CHR 0xEA, CHR 0xBF, CHR 0x94, CHR 0xEC, CHR 0xA3, CHR 0xBC, CHR 0xEC,
      CHR 0x84, CHR 0xB8, CHR 0xEC, CHR 0x9A, CHR 0x94]"

definition demo_cands :: "candidate list" where
  "demo_cands = [demo_cand (pl_name demo_tour) [] [''history''], demo_cand ''Arirang Village'' [] [''history''],
                 demo_cand ''Geumsansa'' [] [''healing'']]"

definition demo_revised :: itinerary where
  "demo_revised =
     recompute_summary (demo_itin\<lparr>items := replace_day 1
       (revised_entry 1 (Date 2026 10 1) (demo_cand ''Geumsansa'' [] [''healing''])) (items demo_itin)\<rparr>)"

subsection \<open>Lemmas\<close>

lemma revised_entry_simps [simp]:
  "e_day (revised_entry d dt c) = d" "e_kind (revised_entry d dt c) = KTour"
  "e_name (revised_entry d dt c) = cand_name c" "\<not> is_farm_entry (revised_entry d dt c)"
  by (simp_all add: revised_entry_def is_farm_entry_def)

lemma recompute_summary_simps [simp]:
  "items (recompute_summary it) = items it" "itin_id (recompute_summary it) = itin_id it"
  "total_days (recompute_summary it) = total_days it"
  "farm_days_count (recompute_summary it) = length (farm_days it)"
  "tour_days_count (recompute_summary it) = total_days it - length (farm_days it)"
  by (simp_all add: recompute_summary_def)

lemma filter_replace_other:
  "e_day new = d \<Longrightarrow> k \<noteq> d \<Longrightarrow>
   filter (\<lambda>e. e_day e = k) (replace_day d new xs) = filter (\<lambda>e. e_day e = k) xs"
  by (induction xs) (auto simp: filter_filter intro: filter_cong)

lemma filter_replace_same:
  "e_day new = d \<Longrightarrow> d \<in> set (map e_day xs) \<Longrightarrow> filter (\<lambda>e. e_day e = d) (replace_day d new xs) = [new]"
  by (induction xs) (auto simp: filter_filter filter_empty_conv)

lemma replace_day_farm:
  "\<not> is_farm_entry new \<Longrightarrow> \<not> list_ex is_farm_entry (filter (\<lambda>e. e_day e = d) xs) \<Longrightarrow>
   filter is_farm_entry (replace_day d new xs) = filter is_farm_entry xs"
  by (induction xs) (auto simp: filter_filter list_ex_iff intro: filter_cong)

lemma set_days_replace:
  "e_day new = d \<Longrightarrow> set (map e_day (replace_day d new xs)) = set (map e_day xs)"
  by (induction xs) auto

lemma sorted_replace:
  "e_day new = d \<Longrightarrow> sorted (map e_day xs) \<Longrightarrow> sorted (map e_day (replace_day d new xs))"
proof (induction xs)
  case (Cons x xs)
  show ?case
  proof (cases "e_day x = d")
    case True
    have "sorted (map e_day (filter (\<lambda>e. e_day e \<noteq> d) xs))"
      using Cons.prems(2) by (simp add: sorted_filter)
    with Cons.prems True show ?thesis by auto
  next
    case False
    have img: "e_day ` set (replace_day d new xs) = e_day ` set xs"
      using set_days_replace [OF Cons.prems(1), of xs] by simp
    have "\<forall>y\<in>set (replace_day d new xs). e_day x \<le> e_day y"
    proof
      fix y assume "y \<in> set (replace_day d new xs)"
      then have "e_day y \<in> e_day ` set xs" using img by blast
      then show "e_day x \<le> e_day y" using Cons.prems(2) by auto
    qed
    with Cons False show ?thesis by simp
  qed
qed simp

lemma revise_InrE:
  assumes "revise it fb cs st ls = Inr it'" and "day_ref fb = Some d"
  obtains e0 rest c where "day_entries it d = e0 # rest"
    and "\<not> list_ex is_farm_entry (day_entries it d)"
    and "c \<in> set cs" and "cand_name c \<notin> set (map e_name (items it))"
    and "it' = recompute_summary (it\<lparr>items := replace_day d (revised_entry d (e_date e0) c) (items it)\<rparr>)"
proof -
  let ?pool = "filter (\<lambda>c. cand_name c \<notin> set (map e_name (items it))) cs"
  from assms obtain e0 rest where de: "day_entries it d = e0 # rest"
    by (auto simp: revise_def split: list.splits)
  with assms have nf: "\<not> list_ex is_farm_entry (day_entries it d)"
    by (auto simp: revise_def split: if_splits)
  from assms de nf obtain c s r where sr: "score_and_rank ?pool st ls = (c, s) # r"
    and it': "it' = recompute_summary (it\<lparr>items := replace_day d (revised_entry d (e_date e0) c) (items it)\<rparr>)"
    by (auto simp: revise_def split: list.splits)
  have "c \<in> fst ` set (score_and_rank ?pool st ls)" using sr by force
  then have "c \<in> set ?pool" by (simp only: set_score_and_rank)
  with de nf it' show ?thesis by (intro that) auto
qed

lemma single_farm_block_cong:
  "filter is_farm_entry (items a) = filter is_farm_entry (items b) \<Longrightarrow>
   single_farm_block a = single_farm_block b"
  unfolding single_farm_block_def farm_days_def by (simp only:)

lemma day_entries_in: "day_entries it d = e0 # rest \<Longrightarrow> d \<in> set (map e_day (items it))"
proof -
  assume "day_entries it d = e0 # rest"
  then have "e0 \<in> set (day_entries it d)" by simp
  then have "e0 \<in> set (items it) \<and> e_day e0 = d" by (simp add: day_entries_def)
  then show ?thesis by force
qed

text \<open>The scenario evaluated: the first day's feedback replaces the reservoir by the
  best-ranked unused candidate.\<close>

lemma demo_revise:
  "revise demo_itin demo_feedback demo_cands [''healing''] [] = Inr demo_revised"
  by code_simp

lemma itin_ok_days:
  "itin_ok it \<Longrightarrow> d \<in> set (map e_day (items it)) \<longleftrightarrow> 1 \<le> d \<and> d \<le> total_days it"
  unfolding itin_ok_def days_contiguous_def by (metis atLeastAtMost_iff atLeastLessThanSuc_atLeastAtMost set_upt)

lemma not_farm_day:
  "\<not> list_ex is_farm_entry (day_entries it d) \<Longrightarrow> d \<notin> set (farm_days it)"
  by (auto simp: farm_days_def day_entries_def list_ex_iff)

lemma generated_ok: "generate_schedule fm ts req rg today iid = Inr it \<Longrightarrow> itin_ok it"
  by (elim generate_InrE) (rule build_itinerary_ok)

subsection \<open>Revision of any itinerary\<close>

text \<open>Revision is local: it changes only the referenced day, which then holds one tour
  item, a candidate the itinerary did not use before; every other day's items, the farm
  block, the itinerary id and the length are unchanged.\<close>

lemma revise_locality:
  assumes "revise it fb cs st ls = Inr it'" and "day_ref fb = Some d"
  shows "(\<forall>k. k \<noteq> d \<longrightarrow> day_entries it' k = day_entries it k) \<and>
         filter is_farm_entry (items it') = filter is_farm_entry (items it) \<and>
         itin_id it' = itin_id it \<and> total_days it' = total_days it \<and>
         (\<exists>e. day_entries it' d = [e] \<and> e_kind e = KTour \<and> e_name e \<notin> set (map e_name (items it)))"
proof -
  obtain e0 rest c where de: "day_entries it d = e0 # rest"
    and nf: "\<not> list_ex is_farm_entry (day_entries it d)"
    and c: "cand_name c \<notin> set (map e_name (items it))"
    and it': "it' = recompute_summary (it\<lparr>items := replace_day d (revised_entry d (e_date e0) c) (items it)\<rparr>)"
    using revise_InrE [OF assms] by blast
  let ?new = "revised_entry d (e_date e0) c"
  have "\<forall>k. k \<noteq> d \<longrightarrow> day_entries it' k = day_entries it k"
    using it' by (simp add: day_entries_def filter_replace_other)
  moreover have "filter is_farm_entry (items it') = filter is_farm_entry (items it)"
    using it' nf by (simp add: day_entries_def replace_day_farm)
  moreover have "day_entries it' d = [?new]"
    using it' day_entries_in [OF de] by (simp add: day_entries_def filter_replace_same)
  ultimately show ?thesis using it' c by simp
qed

text \<open>Revision preserves the itinerary invariants of the specification.\<close>

lemma revise_preserves_ok:
  assumes ok: "itin_ok it" and r: "revise it fb cs st ls = Inr it'"
  shows "itin_ok it'"
proof (cases "day_ref fb")
  case None
  with r show ?thesis using ok by (simp add: revise_def)
next
  case (Some d)
  obtain e0 rest c where de: "day_entries it d = e0 # rest"
    and nf: "\<not> list_ex is_farm_entry (day_entries it d)"
    and it': "it' = recompute_summary (it\<lparr>items := replace_day d (revised_entry d (e_date e0) c) (items it)\<rparr>)"
    using revise_InrE [OF r Some] by blast
  let ?new = "revised_entry d (e_date e0) c"
  let ?xs = "replace_day d ?new (items it)"
  have items': "items it' = ?xs" using it' by simp
  have farm: "filter is_farm_entry ?xs = filter is_farm_entry (items it)"
    using nf by (simp add: day_entries_def replace_day_farm)
  have fd: "farm_days it' = farm_days it" using items' farm by (simp add: farm_days_def)
  have sd: "set (map e_day ?xs) = set (map e_day (items it))" by (rule set_days_replace) simp
  have so: "sorted (map e_day ?xs)"
    using ok by (intro sorted_replace) (simp_all add: itin_ok_def days_contiguous_def)
  have tot: "total_days it' = total_days it" using it' by simp
  have dc: "days_contiguous it" using ok by (simp add: itin_ok_def)
  have "days_contiguous it'"
    using so dc unfolding days_contiguous_def items' sd tot by blast
  moreover have "single_farm_block it'"
  proof -
    have "filter is_farm_entry (items it') = filter is_farm_entry (items it)" using items' farm by simp
    then have "single_farm_block it' = single_farm_block it" by (rule single_farm_block_cong)
    then show ?thesis using ok by (simp add: itin_ok_def)
  qed
  moreover have "same_day_same_date it'"
    unfolding same_day_same_date_def list_all_iff
  proof (intro ballI impI)
    fix e e' assume e: "e \<in> set (items it')" and e': "e' \<in> set (items it')" and eq: "e_day e' = e_day e"
    show "e_date e' = e_date e"
    proof (cases "e_day e = d")
      case True
      have one: "filter (\<lambda>x. e_day x = d) ?xs = [?new]"
        using filter_replace_same [of ?new d "items it"] day_entries_in [OF de] by simp
      have "e \<in> set (filter (\<lambda>x. e_day x = d) ?xs)" "e' \<in> set (filter (\<lambda>x. e_day x = d) ?xs)"
        using e e' eq True items' by simp_all
      then have "e = ?new" "e' = ?new" unfolding one by simp_all
      then show ?thesis by (simp only:)
    next
      case False
      have other: "filter (\<lambda>x. e_day x = e_day e) ?xs = filter (\<lambda>x. e_day x = e_day e) (items it)"
        using filter_replace_other [of ?new d "e_day e" "items it"] False by simp
      have "e \<in> set ?xs" "e' \<in> set ?xs" using e e' items' by (simp_all only:)
      then have "e \<in> set (filter (\<lambda>x. e_day x = e_day e) ?xs)" "e' \<in> set (filter (\<lambda>x. e_day x = e_day e) ?xs)"
        using eq by simp_all
      then have "e \<in> set (items it)" "e' \<in> set (items it)" unfolding other by (simp_all only: set_filter mem_Collect_eq)
      moreover have "\<forall>x\<in>set (items it). \<forall>y\<in>set (items it). e_day y = e_day x \<longrightarrow> e_date y = e_date x"
        using ok unfolding itin_ok_def same_day_same_date_def list_all_iff by blast
      ultimately show ?thesis using eq by blast
    qed
  qed
  moreover have "summary_ok it'"
  proof -
    have "farm_days (it\<lparr>items := ?xs\<rparr>) = farm_days it" using farm by (simp add: farm_days_def)
    then show ?thesis using ok fd it' by (simp add: itin_ok_def summary_ok_def)
  qed
  ultimately show ?thesis using ok it' by (simp add: itin_ok_def)
qed

text \<open>Feedback that names a day the itinerary does not have, or a farm day (the farm
  block cannot be changed by feedback), is refused with \<open>FeedbackTargetInvalidError\<close>, and
  the itinerary is left as it was.\<close>

lemma revise_invalid_target:
  "day_ref fb = Some d \<Longrightarrow> d \<notin> set (map e_day (items it)) \<or> d \<in> set (farm_days it) \<Longrightarrow>
   revise it fb cs st ls = Inl FeedbackTargetInvalidError"
proof -
  assume dr: "day_ref fb = Some d" and d: "d \<notin> set (map e_day (items it)) \<or> d \<in> set (farm_days it)"
  show ?thesis
  proof (cases "d \<in> set (map e_day (items it))")
    case False
    then have "day_entries it d = []" by (auto simp: day_entries_def filter_empty_conv)
    with dr show ?thesis by (simp add: revise_def)
  next
    case True
    with d obtain e where e: "e \<in> set (items it)" "is_farm_entry e" "e_day e = d"
      by (auto simp: farm_days_def)
    then have "e \<in> set (day_entries it d)" by (simp add: day_entries_def)
    then obtain x xs where "day_entries it d = x # xs" "list_ex is_farm_entry (day_entries it d)"
      using e by (cases "day_entries it d") (auto simp: list_ex_iff)
    with dr show ?thesis by (simp add: revise_def)
  qed
qed

subsection \<open>Properties: revising a generated itinerary\<close>

text \<open>C37: feedback accepted on an itinerary \<open>generate_schedule\<close> produced names one of its
  tour days (a day in 1..n that is not in the farm block), and the revision is local: that
  day then holds one tour item, a candidate the itinerary did not use before, while every
  other day's items, the farm block and the itinerary id stay as they were.\<close>

theorem revise_generated_locality:
  assumes g: "generate_schedule fm ts req rg today iid = Inr it"
    and r: "revise it fb cs st ls = Inr it'" and dr: "day_ref fb = Some d"
  shows "1 \<le> d \<and> d \<le> total_days it \<and> d \<notin> set (farm_days it) \<and>
         (\<forall>k. k \<noteq> d \<longrightarrow> day_entries it' k = day_entries it k) \<and>
         filter is_farm_entry (items it') = filter is_farm_entry (items it) \<and> itin_id it' = itin_id it \<and>
         (\<exists>e. day_entries it' d = [e] \<and> e_kind e = KTour \<and> e_name e \<notin> set (map e_name (items it)))"
proof -
  obtain e0 rest c where de: "day_entries it d = e0 # rest"
    and nf: "\<not> list_ex is_farm_entry (day_entries it d)"
    using revise_InrE [OF r dr] by blast
  have "1 \<le> d \<and> d \<le> total_days it"
    using itin_ok_days [OF generated_ok [OF g]] day_entries_in [OF de] by blast
  with not_farm_day [OF nf] revise_locality [OF r dr] show ?thesis by blast
qed

theorem revise_generated_locality_witness:
  "generate_schedule (Some demo_farm) [demo_tour] demo_request GIMJE (Date 2025 12 15) ''it-1'' = Inr demo_itin \<and>
   revise demo_itin demo_feedback demo_cands [''healing''] [] = Inr demo_revised \<and>
   day_ref demo_feedback = Some 1 \<and> day_entries demo_revised 10 = day_entries demo_itin 10"
proof -
  have dr: "day_ref demo_feedback = Some 1"
    by (simp add: day_ref_def demo_feedback_def ordinal_words_def js_includes_def)
  from revise_generated_locality [OF demo_generate demo_revise dr] dr demo_revise demo_generate
  show ?thesis by simp
qed

text \<open>C38: revising an itinerary \<open>generate_schedule\<close> produced keeps every invariant of the
  specification.\<close>

theorem revise_generated_ok:
  "generate_schedule fm ts req rg today iid = Inr it \<Longrightarrow> revise it fb cs st ls = Inr it' \<Longrightarrow> itin_ok it'"
  by (rule revise_preserves_ok [OF generated_ok])

theorem revise_generated_ok_witness:
  "generate_schedule (Some demo_farm) [demo_tour] demo_request GIMJE (Date 2025 12 15) ''it-1'' = Inr demo_itin \<and>
   revise demo_itin demo_feedback demo_cands [''healing''] [] = Inr demo_revised \<and> itin_ok demo_revised"
  using revise_generated_ok [OF demo_generate demo_revise] demo_generate demo_revise by simp

text \<open>C39: on an itinerary \<open>generate_schedule\<close> produced, feedback that names day 0, a day
  after the last one, or a farm day (the farm block cannot be changed by feedback) is
  refused with \<open>FeedbackTargetInvalidError\<close>, and the itinerary is left as it was.\<close>

theorem revise_generated_invalid_target:
  "generate_schedule fm ts req rg today iid = Inr it \<Longrightarrow> day_ref fb = Some d \<Longrightarrow>
   d = 0 \<or> total_days it < d \<or> d \<in> set (farm_days it) \<Longrightarrow>
   revise it fb cs st ls = Inl FeedbackTargetInvalidError"
proof -
  assume g: "generate_schedule fm ts req rg today iid = Inr it" and dr: "day_ref fb = Some d"
    and d: "d = 0 \<or> total_days it < d \<or> d \<in> set (farm_days it)"
  have "d \<notin> set (map e_day (items it)) \<or> d \<in> set (farm_days it)"
    using d itin_ok_days [OF generated_ok [OF g], of d] by auto
  with dr show ?thesis by (rule revise_invalid_target)
qed

theorem revise_generated_invalid_target_witness:
  "generate_schedule (Some demo_farm) [demo_tour] demo_request GIMJE (Date 2025 12 15) ''it-1'' = Inr demo_itin \<and>
   day_ref ''Day 3 please'' = Some 3 \<and> 3 \<in> set (farm_days demo_itin) \<and>
   revise demo_itin ''Day 3 please'' demo_cands [''healing''] [] = Inl FeedbackTargetInvalidError"
proof -
  have dr: "day_ref ''Day 3 please'' = Some 3"
    by (simp add: day_ref_def ordinal_words_def js_includes_def lead_number_def digit_val_def)
  have "farm_days demo_itin = [2..<10]"
    using farm_days_lay_out [of 10 "Date 2026 10 1" demo_farm "[demo_festival, demo_tour]" GIMJE "''it-1''"]
    by (simp add: demo_itin_def reserved_days_def farm_first_def farm_last_def del: upt_Suc)
  then have "3 \<in> set (farm_days demo_itin)" by simp
  with revise_generated_invalid_target [OF demo_generate dr] demo_generate dr show ?thesis by blast
qed

end
