(* ===== verification/Spec2Isabelle.thy ===== *)
theory Spec2Isabelle
  imports Calendar Grouping Cards Session Onboarding Engine Service_Worker Persistence App Reviser
begin

text \<open>
  \<^bold>\<open>Verification development of the rural work-and-travel planner front end\<close>
  (kdt-hackathon-ai-engine).

  \<^bold>\<open>The program.\<close> The code under src/ is a single-page web app
  (src/unnamed/part_000, its script), its service worker
  (src/public/frontend/app_show_v3/service-worker.js) and the API and project documents
  (src/unnamed/part_001, part_002). The app keeps one object \<open>STATE\<close>, saved to local
  storage by \<open>saveState\<close>; it onboards the user over five screens, asks the engine for farm
  and tour cards from a chat message, sends the chosen cards to get a schedule, revises it
  from feedback, and confirms it into the calendar of the home screen. The engine (backend
  recommendation, scoring and scheduling) is not part of src/ and is an input everywhere.

  \<^bold>\<open>Theories, from the bottom up.\<close>
  \<^item> \<open>Prelude\<close>: how JS values are read (\<open>||\<close> on strings and on objects, \<open>slice\<close>,
    \<open>trim\<close>, \<open>includes\<close>, decimal digits of a number) and the fold and list lemmas the
    components share.
  \<^item> \<open>Schedule_Item\<close>: the itinerary item of the schedule API and the two schedule-type
    labels, as UTF-8 bytes.
  \<^item> \<open>Calendar\<close>: \<open>updateHomeCalendar\<close>, \<open>upsertCalendarEvents\<close>, the month grid and
    the month arrows of \<open>renderHome\<close>; the calendar is a nested partial map, the loops are
    folds. Lemmas: idempotence, no duplicate events, completeness, the day-key mismatch
    that hides every confirmed event (C1-C5), month navigation against the month count
    and its January defect (C6, C7).
  \<^item> \<open>Grouping\<close>: the \<open>currentGroup\<close> walk of \<open>renderScheduleTable\<close> and
    \<open>renderMiniTime\<close> as a fold, and the farm de-duplication; the groups partition the
    itinerary, are well formed (C8, C9), one farm block gives one farm row, and the dedup
    key \<open>name-address\<close> makes any two farms (n-m, a) and (n, m-a) share one display slot
    in every farm group (C10).
  \<^item> \<open>Cards\<close>: cards from the recommendation, the checkbox handler as a step function with
    an inductive reachability predicate, the plan payload and \<open>renderPicked\<close>: the
    reachable selections are well formed (C11), checking a farm box makes it the request's
    farm (C12), the picked line stays empty (C13), and a farm chosen before a new
    recommendation is still sent after it, through any later steps that do not touch farm
    boxes (C14).
  \<^item> \<open>Session\<close>: the schedule part of \<open>STATE\<close>, the \<open>callEngine\<close> in force (the second
    declaration) with its \<open>mockPlan\<close> fallback, the response handling of
    \<open>createScheduleWithUser\<close>/\<open>sendScheduleFeedback\<close>, \<open>makePlan\<close>, chat routing and
    confirmation (C15-C18).
  \<^item> \<open>Onboarding\<close>: badge boxes, the \<open>#next1\<close> handler, \<open>buildOnboardingPayload\<close>, the
    hash router and the \<open>render\<close> table (C19, C20).
  \<^item> \<open>Engine\<close>: \<open>loadConfig\<close> with its cache, the URL of \<open>callEngine\<close>,
    \<open>sendOnboardingAndGetUserId\<close>, the lazy user-id step of the schedule requests and the
    catch blocks of \<open>makePlan\<close> and \<open>handleScheduleFeedback\<close>; state-and-result functions
    \<open>app \<Rightarrow> app \<times> (string + 'a)\<close> keep writes made before an exception (C21-C24). The
    refinement lemma C22 shows these handlers act on the session exactly as \<open>Session\<close>'s
    functions once a user id and a configuration are there.
  \<^item> \<open>Service_Worker\<close>: install with the all-or-nothing \<open>cache.addAll\<close> and the
    cache-first fetch handler (C25).
  \<^item> \<open>Persistence\<close>: \<open>saveState\<close> and the \<open>STATE\<close> initialiser over a typed snapshot
    of the nine keys, with the save/load round trip (C26, C27).
  \<^item> \<open>App\<close>: every state-changing handler as an event of one step function over
    \<open>STATE\<close>, enabled on the screen that binds it, plus reloads; \<open>triggerRecommendation\<close>
    with the \<open>engineRecommend\<close> in force and \<open>confirmCurrentSchedule\<close>. The chat-stage
    invariant is proved by rule induction over all of it (C28), the onboarding sequence
    reaches home (C29), and confirmation stays on the chat screen (C30).

  \<^bold>\<open>The engine.\<close> The recommendation and scheduling engine the front end calls is
  not in the repository except for two excerpts the API document quotes
  (src/unnamed/part_001): \<open>score_and_rank_attractions\<close> (lines 728-750) and the outline of
  \<open>SimpleSchedulingService.generate_schedule\<close> (lines 757-768). spec.md describes the
  rest of its core, and these theories model it from the specification (their map entries
  are marked as such), with the two excerpts translated as written:
  \<^item> \<open>Scorer\<close> (PreferenceScorer): the score of the quoted loop body and the stable sort
    \<open>sorted(..., reverse=True)\<close> as a merge sort, proved to be the library's stable sort by
    (score descending, input position), the total order the specification fixes (C31).
  \<^item> \<open>Duration\<close> (DurationExtractor, StartPeriodResolver): a digit scan for "N il" and
    the numeral-word table, clamped to 1..10; a month resolved by a
    \<open>partial_function (option)\<close> loop that advances one year at a time, proved to return
    the nearest such month not in the past, at most the next year, with its special event
    (C34). Dates are a \<open>datatype\<close> with a \<open>linorder\<close> instance.
  \<^item> \<open>Builder\<close> (ItineraryBuilder, \<open>generate_schedule\<close>): validation in the order
    region, farm, duration; reserved first and last days around the farm block; tours dealt
    one per non-farm day with the special event first and the surplus on the last one;
    free-day markers; dates by calendar arithmetic with leap years. The generated length is
    the duration read, within 1..10 (C32), "N bak M il" gives M days (C33), every generated
    itinerary satisfies the invariants of spec section 3 (C35), and with tours day 1 holds
    the first tour item, the farm block is days 2 to n - 1 and the summary counts exactly
    two tour days (C36, witnessed by the Gimje scenario of the specification). The
    reservation follows the specification; the API example of the repository shows three
    tour days (farm days 2-8 of 10) for the same request, which C36 excludes.
  \<^item> \<open>Reviser\<close> (FeedbackReviser): the day reference (ordinal words or "Day N"), refusal of
    missing and farm days, the best unused candidate of the \<open>Scorer\<close> in place of the day's
    items. On generated itineraries, accepted feedback names a tour day and changes only it
    (C37), revision keeps the invariants (C38), and day 0, days after the last and farm days
    are refused with \<open>FeedbackTargetInvalidError\<close> (C39). The general lemmas hold for any
    itinerary.
  This theory joins the two sides: an itinerary the builder produces, sent as the schedule
  API's items, is shown by the front end's schedule table with exactly one farm row (C40).

  \<^bold>\<open>How the code is read.\<close> A later JS function declaration replaces an earlier one of
  the same name, so the second \<open>callEngine\<close> (line 338) and the second
  \<open>engineRecommend\<close> (line 759) are the ones modelled. The network, the clock, and
  \<open>crypto.randomUUID()\<close> are inputs of the handlers; a fetch is a datatype of outcomes. A
  missing string field is the empty string, a missing object \<open>None\<close>. Korean literals
  are UTF-8 byte strings. No loop of the code is unbounded: every loop is a \<open>forEach\<close> or
  \<open>map\<close> over a finite array and is a fold, so no fuel is needed. The one loop of the
  engine model that is not structural, the year search of the start-period resolver, is a
  partial function whose termination is proved (C34).

  \<^bold>\<open>Not modelled.\<close> HTML strings and DOM updates (templates, \<open>renderHeader\<close>,
  \<open>renderDrawer\<close>, spinners, \<open>monthMatrix\<close> dates): they write markup only. Code that is
  never executed: the first \<open>callEngine\<close> and \<open>engineRecommend\<close> (replaced by later
  declarations), \<open>fetchAndRenderRecommendations\<close>, \<open>generateFromSelections\<close>,
  \<open>reviseScheduleWithFeedback\<close>, \<open>hardReset\<close>, and the history drawer (\<open>STATE.history\<close>
  is never written). The 500 ms auto-send of the home query is the user's send event. Of
  the engine: the natural-language intent extractor and the candidate store (external
  services the core only consumes), the proximity clustering heuristic of the builder's
  step 4 (with the farm block between the first and the last day there are no adjacent
  non-farm days to cluster), the locality and time-slot filter of the reviser (the
  specification does not define it), and the grouped view and calendar materialisation of
  the engine, whose front-end counterparts are \<open>Grouping\<close> and \<open>Calendar\<close>.
\<close>

subsection \<open>From the engine to the front end\<close>

lemma farm_block_intro:
  assumes "\<not> list_ex is_farm pre" "mid \<noteq> []" "list_all is_farm mid" "\<not> list_ex is_farm post"
  shows "farm_block (pre @ mid @ post)"
proof -
  obtain m ms where m: "mid = m # ms" using assms(2) by (cases mid) auto
  have "dropWhile (\<lambda>x. \<not> is_farm x) (pre @ mid @ post) = mid @ post"
    using assms(1,3) m by (simp add: dropWhile_append2 list_ex_iff)
  moreover have "dropWhile is_farm (mid @ post) = post"
    using assms(3,4) by (cases post) (simp_all add: dropWhile_append2 list_all_iff)
  ultimately show ?thesis using assms(2,4) by (simp add: farm_block_def)
qed

text \<open>C40: an itinerary the engine's builder produces, transported as the items of the
  schedule API, is shown by the front end's schedule table (\<open>renderScheduleTable\<close>)
  with exactly one farm row: the builder's single farm block is the contiguous farm run
  the front end's grouping needs.\<close>

theorem built_itinerary_one_farm_row:
  "build rg fm trs du df sd sp iid = Inr it \<Longrightarrow>
   farm_count (group_schedule (map to_schedule_item (items it))) = 1"
proof (elim build_InrE)
  fix f d
  assume it: "it = lay_out sd f (max 1 (min MAX_DAYS d)) (tours_of sp trs) rg iid"
  let ?n = "max 1 (min MAX_DAYS d)"
  let ?r = "reserved_days ?n (tours_of sp trs \<noteq> [])"
  obtain pre post where
    split: "items it = pre @ map (farm_entry sd f) [farm_first ?r..<Suc (farm_last ?n ?r)] @ post"
    and pre: "\<not> list_ex is_farm_entry pre" and post: "\<not> list_ex is_farm_entry post"
    using lay_out_farm_run [of ?n sd f "tours_of sp trs" rg iid] it by auto
  have "farm_first ?r \<le> farm_last ?n ?r" using farm_block_bounds [of ?n] by simp
  then have "farm_block (map to_schedule_item (items it))"
    unfolding split map_append
    using pre post by (intro farm_block_intro) (auto simp: list_ex_iff list_all_iff farm_entry_def is_farm_entry_def)
  then show ?thesis by (rule single_farm_group)
qed

theorem built_itinerary_one_farm_row_witness:
  "build GIMJE (Some demo_farm) [demo_tour] (Some 10) None (Date 2026 10 1)
     (map_of special_events (GIMJE, 10)) ''it-1'' = Inr demo_itin \<and>
   farm_count (group_schedule (map to_schedule_item (items demo_itin))) = 1"
  using built_itinerary_one_farm_row [OF demo_build] demo_build by simp

end
